theory Spec2Isabelle
  imports Complex_Main "HOL-Library.AList"
begin

section \<open>JavaScript values\<close>

text \<open>
  The three servers of the repository (the Express server on the local file system, the
  function on Netlify Blobs and Neon, the function on Supabase) work on values that come out
  of \<^verbatim>\<open>JSON.parse\<close>, out of a \<^verbatim>\<open>jsonb\<close> column or out of a form field. A value is
  a \<open>json\<close>; \<^verbatim>\<open>undefined\<close> (a property that is not there) is \<open>None\<close> of
  \<open>json option\<close>. An object is its list of properties in insertion order; a property whose
  value is \<^verbatim>\<open>undefined\<close> is not written by \<^verbatim>\<open>JSON.stringify\<close>, so an object
  literal leaves it out. A number is the rational it denotes; the code only tests numbers for
  truthiness. A string is a list of \<open>char\<close>, one for each code unit; the code units are
  those below 256, which hold every character the code tests for.
\<close>

datatype json =
    JNull
  | JBool bool
  | JNum rat
  | JStr string
  | JArr "json list"
  | JObj "(string \<times> json) list"

type_synonym obj = "(string \<times> json) list"

datatype error = TypeError | URIError | StorageError

fun truthy :: "json option \<Rightarrow> bool" where
  "truthy None = False"
| "truthy (Some JNull) = False"
| "truthy (Some (JBool b)) = b"
| "truthy (Some (JNum n)) = (n \<noteq> 0)"
| "truthy (Some (JStr s)) = (s \<noteq> [])"
| "truthy (Some (JArr xs)) = True"
| "truthy (Some (JObj ps)) = True"

text \<open>\<^verbatim>\<open>a || b\<close> where \<open>b\<close> is a defined value.\<close>

fun jsOr :: "json option \<Rightarrow> json \<Rightarrow> json" where
  "jsOr None d = d"
| "jsOr (Some v) d = (if truthy (Some v) then v else d)"

text \<open>
  Reading one of the properties the code reads (\<^verbatim>\<open>id\<close>, \<^verbatim>\<open>title\<close>, \<^verbatim>\<open>desc\<close>,
  \<^verbatim>\<open>whatsappMessage\<close>, \<^verbatim>\<open>media\<close>, \<^verbatim>\<open>type\<close>, \<^verbatim>\<open>url\<close>, \<^verbatim>\<open>filename\<close>,
  \<^verbatim>\<open>key\<close>, \<^verbatim>\<open>path\<close>) off a value: \<^verbatim>\<open>null\<close> throws, an object gives its own
  property, every other value gives \<^verbatim>\<open>undefined\<close> (no prototype has one of these names).
\<close>

fun getp :: "json \<Rightarrow> string \<Rightarrow> error + json option" where
  "getp JNull k = Inl TypeError"
| "getp (JObj ps) k = Inr (map_of ps k)"
| "getp v k = Inr None"

text \<open>An object literal: the properties whose value is \<^verbatim>\<open>undefined\<close> are left out.\<close>

fun objLit :: "(string \<times> json option) list \<Rightarrow> obj" where
  "objLit [] = []"
| "objLit ((k, None) # ps) = objLit ps"
| "objLit ((k, Some v) # ps) = (k, v) # objLit ps"

fun isArray :: "json option \<Rightarrow> bool" where
  "isArray (Some (JArr xs)) = True"
| "isArray v = False"

fun isString :: "json option \<Rightarrow> bool" where
  "isString (Some (JStr s)) = True"
| "isString v = False"

fun elems :: "json option \<Rightarrow> json list" where
  "elems (Some (JArr xs)) = xs"
| "elems v = []"

subsection \<open>Strings\<close>

text \<open>\<^verbatim>\<open>String.prototype.trim\<close>: white space and line terminators off both ends.\<close>

definition isSpace :: "char \<Rightarrow> bool" where
  "isSpace c \<longleftrightarrow> c \<in> set [CHR 0x09, CHR 0x0A, CHR 0x0B, CHR 0x0C, CHR 0x0D, CHR 0x20, CHR 0xA0]"

definition trim :: "string \<Rightarrow> string" where
  "trim s = rev (dropWhile isSpace (rev (dropWhile isSpace s)))"

fun startsWith :: "string \<Rightarrow> string \<Rightarrow> bool" where
  "startsWith s [] = True"
| "startsWith [] (p # ps) = False"
| "startsWith (c # cs) (p # ps) = (c = p \<and> startsWith cs ps)"

definition DEFAULT_WHATS_MESSAGE :: string where
  "DEFAULT_WHATS_MESSAGE = ''Ola, me interessei no imovel da landing e quero mais informacoes.''"

section \<open>File names\<close>

text \<open>The character class \<^verbatim>\<open>[a-zA-Z0-9._-]\<close> of both regular expressions.\<close>

definition safeChar :: "char \<Rightarrow> bool" where
  "safeChar c \<longleftrightarrow>
     c \<in> set ''abcdefghijklmnopqrstuvwxyzABCDEFGHIJKLMNOPQRSTUVWXYZ0123456789._-''"

text \<open>
  Local server, \<^verbatim>\<open>file.originalname.replace(/[^a-zA-Z0-9._-]/g, "-")\<close>: one hyphen for
  each character outside the class.
\<close>

definition safeName :: "string \<Rightarrow> string" where
  "safeName originalname = map (\<lambda>c. if safeChar c then c else CHR ''-'') originalname"

text \<open>
  Hosted functions, \<^verbatim>\<open>.replace(/[^a-zA-Z0-9._-]+/g, "_")\<close>: one underscore for each
  maximal run of characters outside the class.
\<close>

function replaceRuns :: "string \<Rightarrow> string" where
  "replaceRuns [] = []"
| "replaceRuns (c # cs) =
     (if safeChar c then c # replaceRuns cs
      else CHR ''_'' # replaceRuns (dropWhile (\<lambda>d. \<not> safeChar d) cs))"
  by pat_completeness auto
termination
  by (relation "measure length") (auto simp: length_dropWhile_le less_Suc_eq_le)

text \<open>
  \<^verbatim>\<open>
  function sanitizeFilename(name) {
    const safe = (name || "file").replace(/[^a-zA-Z0-9._-]+/g, "_");
    return safe || "file";
  }
  \<close>
\<close>

definition sanitizeFilename :: "string \<Rightarrow> string" where
  "sanitizeFilename name =
     (let safe = replaceRuns (if name \<noteq> [] then name else ''file'')
      in if safe \<noteq> [] then safe else ''file'')"

section \<open>The item normalizer of the local server\<close>

text \<open>
  \<^verbatim>\<open>normalizeItem\<close> mutates the record it is given and returns it; the model returns the
  record after the mutation. An item record is an object.
\<close>

definition legacyMedia :: "obj \<Rightarrow> json" where
  "legacyMedia item = JArr [JObj (objLit
     [(''type'', Some (jsOr (map_of item ''type'') (JStr ''image''))),
      (''url'', map_of item ''url''),
      (''filename'', map_of item ''filename'')])]"

definition normalizeItem :: "obj \<Rightarrow> obj" where
  "normalizeItem item =
     (let item1 =
        (if \<not> isArray (map_of item ''media'') \<or> length (elems (map_of item ''media'')) = 0
         then (if truthy (map_of item ''url'')
               then AList.update ''media'' (legacyMedia item) item
               else AList.update ''media'' (JArr []) item)
         else item)
      in if \<not> truthy (map_of item1 ''whatsappMessage'') \<or> \<not> isString (map_of item1 ''whatsappMessage'')
         then AList.update ''whatsappMessage'' (JStr DEFAULT_WHATS_MESSAGE) item1
         else item1)"

section \<open>Requests, responses, uploads\<close>

record response =
  status :: nat
  payload :: json

text \<open>
  A file part of a multipart body as the parser announces it: the name of the form field,
  the submitted file name, the content type, and the number of bytes of the file.
\<close>

record upload =
  fieldname :: string
  originalname :: string
  mimetype :: string
  nbytes :: nat

text \<open>
  Both parsers leave the count of the bytes of a file to busboy, which fires \<^verbatim>\<open>limit\<close>
  on a file of more bytes than \<^verbatim>\<open>limits.fileSize\<close>. On a file of exactly that many
  bytes busboy from version 1.0 on fires too and the versions before it do not; the
  repository pins no version, so which of the two it is (\<open>atLimit\<close>) is read from the
  environment.
\<close>

definition overLimit :: "bool \<Rightarrow> nat \<Rightarrow> nat \<Rightarrow> bool" where
  "overLimit atLimit limit n \<longleftrightarrow> n > limit \<or> (atLimit \<and> n = limit)"

text \<open>A loop that stops at the first exception.\<close>

fun mapE :: "('a \<Rightarrow> error + 'b) \<Rightarrow> 'a list \<Rightarrow> error + 'b list" where
  "mapE f [] = Inr []"
| "mapE f (x # xs) =
     (case f x of
        Inl e \<Rightarrow> Inl e
      | Inr y \<Rightarrow> (case mapE f xs of Inl e \<Rightarrow> Inl e | Inr ys \<Rightarrow> Inr (y # ys)))"

text \<open>\<^verbatim>\<open>a || b\<close> in general, and \<^verbatim>\<open>v.trim()\<close>, which throws unless \<open>v\<close> is a string.\<close>

definition orElse :: "json option \<Rightarrow> json option \<Rightarrow> json option" where
  "orElse a b = (if truthy a then a else b)"

fun trimOf :: "json option \<Rightarrow> error + string" where
  "trimOf (Some (JStr s)) = Inr (trim s)"
| "trimOf v = Inl TypeError"

text \<open>\<^verbatim>\<open>media[0]?.type\<close>: the property of the first element, if there is one.\<close>

fun firstProp :: "json list \<Rightarrow> string \<Rightarrow> json option" where
  "firstProp (JObj ps # ms) k = map_of ps k"
| "firstProp ms k = None"

fun findIndex :: "('a \<Rightarrow> bool) \<Rightarrow> 'a list \<Rightarrow> nat option" where
  "findIndex P [] = None"
| "findIndex P (x # xs) =
     (if P x then Some 0 else (case findIndex P xs of None \<Rightarrow> None | Some i \<Rightarrow> Some (Suc i)))"

section \<open>The local server (Express, multer, items.json)\<close>

text \<open>
  The state is the parsed content of \<^verbatim>\<open>uploads/items.json\<close> (an array of item records,
  in insertion order) and the names of the files in the uploads directory. What the clock
  and the random generator give is read from \<open>lenv\<close>: \<open>fileUnique i\<close> is
  \<^verbatim>\<open>Date.now() + "-" + Math.round(Math.random() * 1e6)\<close> for the \<open>i\<close>-th file that
  multer stores for the request, \<open>itemUnique\<close> the same for the item id, \<open>isoNow\<close> is
  \<^verbatim>\<open>new Date().toISOString()\<close>, and \<open>multerFiresAtLimit\<close> says whether the busboy
  under multer fires \<^verbatim>\<open>limit\<close> on a file of exactly the limit.
\<close>

record lstate =
  dataFile :: "obj list"
  uploadsDir :: "string set"

record lenv =
  fileUnique :: "nat \<Rightarrow> string"
  itemUnique :: string
  isoNow :: string
  multerFiresAtLimit :: bool

record lrequest =
  params_id :: string
  body :: obj
  fileParts :: "upload list"

record mfile =
  mf_mimetype :: string
  mf_filename :: string

definition LOCAL_FILE_SIZE :: nat where
  "LOCAL_FILE_SIZE = 500 * 1024 * 1024"

definition diskName :: "lenv \<Rightarrow> nat \<Rightarrow> upload \<Rightarrow> string" where
  "diskName env i file = fileUnique env i @ ''-'' @ safeName (originalname file)"

text \<open>
  \<^verbatim>\<open>upload.array("files")\<close> with \<^verbatim>\<open>limits: { fileSize: 500 * 1024 * 1024 }\<close>.
  multer is a library: it takes the file parts in order. A part without a file name it
  drops at once (\<^verbatim>\<open>if (!filename) return fileStream.resume()\<close>): such a part is not
  checked, not counted and not stored. At a named part of another field it fails with the
  \<^verbatim>\<open>MulterError\<close> \<^verbatim>\<open>Unexpected field\<close>, at a named file over the limit with
  \<^verbatim>\<open>File too large\<close>, and then it removes the files it has written for the request.
  Otherwise every named file is on disk under the name \<open>diskName\<close> gives it and
  \<^verbatim>\<open>req.files\<close> lists them.
\<close>

fun multerArray :: "lenv \<Rightarrow> nat \<Rightarrow> upload list \<Rightarrow> string + mfile list" where
  "multerArray env i [] = Inr []"
| "multerArray env i (file # rest) =
     (if originalname file = [] then multerArray env i rest
      else if fieldname file \<noteq> ''files'' then Inl ''Unexpected field''
      else if overLimit (multerFiresAtLimit env) LOCAL_FILE_SIZE (nbytes file)
      then Inl ''File too large''
      else (case multerArray env (Suc i) rest of
              Inl msg \<Rightarrow> Inl msg
            | Inr files \<Rightarrow>
                Inr (\<lparr>mf_mimetype = mimetype file, mf_filename = diskName env i file\<rparr> # files)))"

text \<open>The error middleware at the end of the chain.\<close>

definition multerError :: "string \<Rightarrow> response" where
  "multerError msg = \<lparr>status = 400, payload = JObj [(''error'', JStr msg)]\<rparr>"

definition uploadError :: response where
  "uploadError = \<lparr>status = 500, payload = JObj [(''error'', JStr ''Upload error'')]\<rparr>"

definition notFound :: response where
  "notFound = \<lparr>status = 404, payload = JObj [(''error'', JStr ''Not found'')]\<rparr>"

definition okTrue :: json where
  "okTrue = JObj [(''ok'', JBool True)]"

text \<open>
  \<^verbatim>\<open>
  media: normalized.media.map((media) => ({ type: media.type, url: media.url }))
  \<close>
\<close>

definition publicMedia :: "json \<Rightarrow> error + json" where
  "publicMedia media =
     (case getp media ''type'' of
        Inl e \<Rightarrow> Inl e
      | Inr t \<Rightarrow> (case getp media ''url'' of
                    Inl e \<Rightarrow> Inl e
                  | Inr u \<Rightarrow> Inr (JObj (objLit [(''type'', t), (''url'', u)]))))"

definition toItemResponse :: "obj \<Rightarrow> error + json" where
  "toItemResponse item =
     (let normalized = normalizeItem item
      in case mapE publicMedia (elems (map_of normalized ''media'')) of
           Inl e \<Rightarrow> Inl e
         | Inr ms \<Rightarrow> Inr (JObj (objLit
             [(''id'', map_of normalized ''id''),
              (''title'', map_of normalized ''title''),
              (''desc'', map_of normalized ''desc''),
              (''whatsappMessage'', map_of normalized ''whatsappMessage''),
              (''media'', Some (JArr ms)),
              (''createdAt'', map_of normalized ''createdAt'')])))"

text \<open>\<^verbatim>\<open>app.get("/api/items")\<close>\<close>

definition get_items :: "lstate \<Rightarrow> response \<times> lstate" where
  "get_items s =
     (let items = map normalizeItem (dataFile s)
      in case mapE toItemResponse items of
           Inl e \<Rightarrow> (uploadError, s)
         | Inr rs \<Rightarrow> (\<lparr>status = 200, payload = JArr rs\<rparr>, s))"

text \<open>
  \<^verbatim>\<open>
  const isVideo = file.mimetype.startsWith("video/");
  return { type: isVideo ? "video" : "image", url: "/uploads/" + file.filename,
           filename: file.filename };
  \<close>
\<close>

definition fileMedia :: "mfile \<Rightarrow> json" where
  "fileMedia file =
     (let isVideo = startsWith (mf_mimetype file) ''video/''
      in JObj [(''type'', JStr (if isVideo then ''video'' else ''image'')),
               (''url'', JStr (''/uploads/'' @ mf_filename file)),
               (''filename'', JStr (mf_filename file))])"

text \<open>\<^verbatim>\<open>app.post("/api/items", upload.array("files"), ...)\<close>\<close>

definition post_items :: "lenv \<Rightarrow> lrequest \<Rightarrow> lstate \<Rightarrow> response \<times> lstate" where
  "post_items env req s =
     (case multerArray env 0 (fileParts req) of
        Inl msg \<Rightarrow> (multerError msg, s)
      | Inr files \<Rightarrow>
          let s1 = s\<lparr>uploadsDir := uploadsDir s \<union> set (map mf_filename files)\<rparr>;
              items = dataFile s1
          in case trimOf (orElse (map_of (body req) ''title'') (Some (JStr ''Novo imovel''))) of
               Inl e \<Rightarrow> (uploadError, s1)
             | Inr title \<Rightarrow>
          (case trimOf (orElse (map_of (body req) ''desc'') (Some (JStr ''Mais detalhes no WhatsApp.''))) of
               Inl e \<Rightarrow> (uploadError, s1)
             | Inr desc \<Rightarrow>
          (case trimOf (orElse (map_of (body req) ''whatsappMessage'') (Some (JStr DEFAULT_WHATS_MESSAGE))) of
               Inl e \<Rightarrow> (uploadError, s1)
             | Inr whatsappMessage \<Rightarrow>
          if length files = 0
          then (\<lparr>status = 400, payload = JObj [(''error'', JStr ''No files'')]\<rparr>, s1)
          else
            let media = map fileMedia files;
                newItem = objLit
                  [(''id'', Some (JStr (''item-'' @ itemUnique env))),
                   (''title'', Some (JStr title)),
                   (''desc'', Some (JStr desc)),
                   (''whatsappMessage'', Some (JStr whatsappMessage)),
                   (''media'', Some (JArr media)),
                   (''type'', Some (jsOr (firstProp media ''type'') (JStr ''image''))),
                   (''url'', Some (jsOr (firstProp media ''url'') (JStr []))),
                   (''createdAt'', Some (JStr (isoNow env)))];
                s2 = s1\<lparr>dataFile := items @ [newItem]\<rparr>
            in case toItemResponse newItem of
                 Inl e \<Rightarrow> (uploadError, s2)
               | Inr r \<Rightarrow> (\<lparr>status = 200, payload = r\<rparr>, s2))))"

text \<open>
  The loop that removes the files of the old media, in \<^verbatim>\<open>app.put\<close> and
  \<^verbatim>\<open>app.delete\<close>:
  \<^verbatim>\<open>
  item.media.forEach((media) => {
    if (!media.filename) return;
    const oldPath = path.join(uploadsDir, media.filename);
    if (fs.existsSync(oldPath)) { fs.unlinkSync(oldPath); }
  });
  \<close>
  An exception (a \<^verbatim>\<open>null\<close> entry, a file name that is no string) stops the loop; the
  files removed before it stay removed. A file name is taken as the name of a file of the
  uploads directory.
\<close>

fun unlinkMedia :: "json list \<Rightarrow> string set \<Rightarrow> error option \<times> string set" where
  "unlinkMedia [] dir = (None, dir)"
| "unlinkMedia (media # rest) dir =
     (case getp media ''filename'' of
        Inl e \<Rightarrow> (Some e, dir)
      | Inr f \<Rightarrow>
          if \<not> truthy f then unlinkMedia rest dir
          else (case f of
                  Some (JStr name) \<Rightarrow> unlinkMedia rest (dir - {name})
                | _ \<Rightarrow> (Some TypeError, dir)))"

definition hasId :: "string \<Rightarrow> obj \<Rightarrow> bool" where
  "hasId targetId entry \<longleftrightarrow> map_of entry ''id'' = Some (JStr targetId)"

text \<open>\<^verbatim>\<open>app.put("/api/items/:id", upload.array("files"), ...)\<close>\<close>

definition put_items :: "lenv \<Rightarrow> lrequest \<Rightarrow> lstate \<Rightarrow> response \<times> lstate" where
  "put_items env req s =
     (case multerArray env 0 (fileParts req) of
        Inl msg \<Rightarrow> (multerError msg, s)
      | Inr files \<Rightarrow>
          let s1 = s\<lparr>uploadsDir := uploadsDir s \<union> set (map mf_filename files)\<rparr>;
              items = dataFile s1
          in case findIndex (hasId (params_id req)) items of
               None \<Rightarrow> (notFound, s1)
             | Some i \<Rightarrow>
          let item = normalizeItem (items ! i)
          in case trimOf (orElse (map_of (body req) ''title'') (map_of item ''title'')) of
               Inl e \<Rightarrow> (uploadError, s1)
             | Inr title \<Rightarrow>
          (case trimOf (orElse (map_of (body req) ''desc'') (map_of item ''desc'')) of
               Inl e \<Rightarrow> (uploadError, s1)
             | Inr desc \<Rightarrow>
          (case trimOf (orElse (orElse (map_of (body req) ''whatsappMessage'')
                                       (map_of item ''whatsappMessage''))
                               (Some (JStr DEFAULT_WHATS_MESSAGE))) of
               Inl e \<Rightarrow> (uploadError, s1)
             | Inr whatsappMessage \<Rightarrow>
          let item1 = AList.update ''whatsappMessage'' (JStr whatsappMessage)
                        (AList.update ''desc'' (JStr desc)
                          (AList.update ''title'' (JStr title) item))
          in if length files > 0
             then (case unlinkMedia (elems (map_of item1 ''media'')) (uploadsDir s1) of
                     (Some e, dir) \<Rightarrow> (uploadError, s1\<lparr>uploadsDir := dir\<rparr>)
                   | (None, dir) \<Rightarrow>
                       let media = map fileMedia files;
                           item2 = AList.update ''url'' (jsOr (firstProp media ''url'') (JStr []))
                                     (AList.update ''type'' (jsOr (firstProp media ''type'') (JStr ''image''))
                                       (AList.update ''media'' (JArr media) item1));
                           s2 = s1\<lparr>dataFile := items[i := item2], uploadsDir := dir\<rparr>
                       in (case toItemResponse item2 of
                             Inl e \<Rightarrow> (uploadError, s2)
                           | Inr r \<Rightarrow> (\<lparr>status = 200, payload = r\<rparr>, s2)))
             else
               let s2 = s1\<lparr>dataFile := items[i := item1]\<rparr>
               in (case toItemResponse item1 of
                     Inl e \<Rightarrow> (uploadError, s2)
                   | Inr r \<Rightarrow> (\<lparr>status = 200, payload = r\<rparr>, s2)))))"

text \<open>\<^verbatim>\<open>app.delete("/api/items/:id", ...)\<close>\<close>

definition delete_items :: "lrequest \<Rightarrow> lstate \<Rightarrow> response \<times> lstate" where
  "delete_items req s =
     (let items = dataFile s
      in case findIndex (hasId (params_id req)) items of
           None \<Rightarrow> (notFound, s)
         | Some index \<Rightarrow>
             let removed = normalizeItem (items ! index);
                 items1 = take index items @ drop (Suc index) items
             in (case unlinkMedia (elems (map_of removed ''media'')) (uploadsDir s) of
                   (Some e, dir) \<Rightarrow> (uploadError, s\<lparr>uploadsDir := dir\<rparr>)
                 | (None, dir) \<Rightarrow>
                     (\<lparr>status = 200, payload = okTrue\<rparr>,
                      s\<lparr>dataFile := items1, uploadsDir := dir\<rparr>)))"


section \<open>The hosted functions: what both share\<close>

text \<open>
  Both functions keep the items in a table \<^verbatim>\<open>items(id, title, description,
  whatsapp_message, media jsonb, created_at)\<close> and the files in a store of blobs. The table
  is the list of its rows in insertion order (\<^verbatim>\<open>created_at\<close> is the time of insertion),
  the store is the set of its keys. The SQL statements and the calls of the storage client
  are the ones the code issues; a statement the database refuses is an exception.

  What the platform gives is read from \<open>henv\<close>: \<open>toStringOf v\<close> is \<^verbatim>\<open>v.toString()\<close>
  for a value that is no string, \<open>encodeURIComponent\<close> and \<open>getPublicUrl\<close> are the
  built-in and the client's function of these names, which throw on a value they cannot
  turn into a string (an object of a JSON body whose \<^verbatim>\<open>toString\<close> is no function, a
  string with a lone surrogate), \<open>busboyFiresAtLimit\<close> says whether busboy fires
  \<^verbatim>\<open>limit\<close> on a file of exactly the limit, \<open>seedUUID i\<close> is the
  \<^verbatim>\<open>crypto.randomUUID()\<close> of the \<open>i\<close>-th seed row, \<open>itemUUID\<close> the one of the
  \<^verbatim>\<open>POST\<close> handler, \<open>fileStamp i\<close> is \<^verbatim>\<open>Date.now()\<close>, a hyphen and
  \<^verbatim>\<open>crypto.randomUUID()\<close> for the \<open>i\<close>-th stored file, and \<open>dbId n\<close> is the id the
  database of the Supabase function gives a row inserted into a table of \<open>n\<close> rows.
\<close>

record row =
  row_id :: string
  col_title :: string
  col_description :: string
  col_whatsapp_message :: string
  col_media :: json

record hstate =
  items :: "row list"
  blobs :: "string set"

record henv =
  toStringOf :: "json \<Rightarrow> error + string"
  encodeURIComponent :: "json \<Rightarrow> error + string"
  getPublicUrl :: "json \<Rightarrow> error + string"
  busboyFiresAtLimit :: bool
  seedUUID :: "nat \<Rightarrow> string"
  itemUUID :: string
  fileStamp :: "nat \<Rightarrow> string"
  dbId :: "nat \<Rightarrow> string"

datatype verb = GET | POST | PUT | DELETE | OTHER

text \<open>
  The body of a request as the two parsers see it: the parts of a body whose content type
  includes \<^verbatim>\<open>multipart/form-data\<close>, each a field or a file as busboy announces it, the
  value of a JSON body, or a body the parser rejects.
\<close>

datatype part = Field string string | File upload

datatype content = Multipart "part list" | Json json | Malformed

record request =
  req_method :: verb
  pathname :: string
  content :: content

datatype failure = FILE_TOO_LARGE | Thrown

definition jsonResponse :: "nat \<Rightarrow> json \<Rightarrow> response" where
  "jsonResponse st data = \<lparr>status = st, payload = data\<rparr>"

definition serverError :: response where
  "serverError = jsonResponse 500 (JObj [(''error'', JStr ''Server error.'')])"

definition missingId :: response where
  "missingId = jsonResponse 400 (JObj [(''error'', JStr ''Missing id.'')])"

definition tooLarge413 :: response where
  "tooLarge413 = jsonResponse 413 (JObj [(''error'', JStr ''Arquivo acima de 40 MB.'')])"

definition MAX_FILE_SIZE :: nat where
  "MAX_FILE_SIZE = 40 * 1024 * 1024"

text \<open>
  \<^verbatim>\<open>
  function extractId(requestUrl) {
    const url = new URL(requestUrl);
    const parts = url.pathname.split("/").filter(Boolean);
    const index = parts.indexOf("items");
    if (index === -1) return null;
    return parts[index + 1] || null;
  }
  \<close>
  The model starts from \<^verbatim>\<open>url.pathname\<close>.
\<close>

fun split :: "char \<Rightarrow> string \<Rightarrow> string list" where
  "split sep [] = [[]]"
| "split sep (c # cs) =
     (if c = sep then [] # split sep cs
      else (case split sep cs of [] \<Rightarrow> [[c]] | p # ps \<Rightarrow> (c # p) # ps))"

definition extractId :: "string \<Rightarrow> string option" where
  "extractId path =
     (let parts = filter (\<lambda>p. p \<noteq> []) (split (CHR ''/'') path)
      in case dropWhile (\<lambda>p. p \<noteq> ''items'') parts of
           [] \<Rightarrow> None
         | i # rest \<Rightarrow> (case rest of [] \<Rightarrow> None | x # xs \<Rightarrow> Some x))"

text \<open>
  \<^verbatim>\<open>parseMultipart\<close>: busboy announces the parts in order. A field sets
  \<^verbatim>\<open>fields[name] = value\<close>. A file is pushed when its stream ends, with the bytes that
  were kept; busboy, with \<^verbatim>\<open>limits: { fileSize: MAX_FILE_SIZE }\<close>, fires \<^verbatim>\<open>limit\<close>
  on a file over the limit (\<open>overLimit\<close>) and keeps the first \<^verbatim>\<open>MAX_FILE_SIZE\<close> bytes
  of it. At the end the promise is rejected with \<^verbatim>\<open>FILE_TOO_LARGE\<close> when some file
  fired.
\<close>

record pfile =
  pf_fieldname :: string
  pf_filename :: string
  pf_contentType :: string
  pf_bytes :: nat

definition pushed :: "upload \<Rightarrow> pfile" where
  "pushed u =
     \<lparr>pf_fieldname = fieldname u,
      pf_filename = (if originalname u \<noteq> [] then originalname u else ''file''),
      pf_contentType = (if mimetype u \<noteq> [] then mimetype u else ''application/octet-stream''),
      pf_bytes = min (nbytes u) MAX_FILE_SIZE\<rparr>"

fun parseParts :: "bool \<Rightarrow> part list \<Rightarrow> obj \<Rightarrow> pfile list \<Rightarrow> bool
    \<Rightarrow> obj \<times> pfile list \<times> bool" where
  "parseParts atLimit [] flds files tooLarge = (flds, files, tooLarge)"
| "parseParts atLimit (Field name v # ps) flds files tooLarge =
     parseParts atLimit ps (AList.update name (JStr v) flds) files tooLarge"
| "parseParts atLimit (File u # ps) flds files tooLarge =
     parseParts atLimit ps flds (files @ [pushed u])
       (tooLarge \<or> overLimit atLimit MAX_FILE_SIZE (nbytes u))"

definition parseMultipart :: "henv \<Rightarrow> part list \<Rightarrow> failure + obj \<times> pfile list" where
  "parseMultipart env ps =
     (case parseParts (busboyFiresAtLimit env) ps [] [] False of
        (flds, files, tooLarge) \<Rightarrow>
          if tooLarge then Inl FILE_TOO_LARGE else Inr (flds, files))"

text \<open>
  The head of the \<^verbatim>\<open>POST\<close> and \<^verbatim>\<open>PUT\<close> branches:
  \<^verbatim>\<open>
  let fields = {}; let files = [];
  if ((req.headers.get("content-type") || "").includes("multipart/form-data")) {
    ({ fields, files } = await parseMultipart(req));
  } else {
    fields = await req.json();
  }
  \<close>
\<close>

definition readBody :: "henv \<Rightarrow> content \<Rightarrow> failure + json \<times> pfile list" where
  "readBody env c =
     (case c of
        Multipart ps \<Rightarrow>
          (case parseMultipart env ps of
             Inl e \<Rightarrow> Inl e
           | Inr (flds, files) \<Rightarrow> Inr (JObj flds, files))
      | Json v \<Rightarrow> Inr (v, [])
      | Malformed \<Rightarrow> Inl Thrown)"

text \<open>
  \<^verbatim>\<open>
  function normalizeText(value) { return (value || "").toString().trim(); }
  \<close>
\<close>

definition normalizeText :: "henv \<Rightarrow> json option \<Rightarrow> error + string" where
  "normalizeText env v =
     (if truthy v
      then (case v of
              Some (JStr s) \<Rightarrow> Inr (trim s)
            | Some w \<Rightarrow> (case toStringOf env w of Inl e \<Rightarrow> Inl e | Inr s \<Rightarrow> Inr (trim s))
            | None \<Rightarrow> Inr [])
      else Inr [])"

text \<open>\<^verbatim>\<open>normalizeText(fields.title)\<close> and its like: reading the field may throw.\<close>

definition textField :: "henv \<Rightarrow> json \<Rightarrow> string \<Rightarrow> error + string" where
  "textField env flds k =
     (case getp flds k of Inl e \<Rightarrow> Inl e | Inr v \<Rightarrow> normalizeText env v)"

text \<open>
  The body of the loops of \<^verbatim>\<open>withMediaUrls\<close> and \<^verbatim>\<open>withPublicUrls\<close>, which differ in
  the property that holds the storage key (\<^verbatim>\<open>key\<close>, \<^verbatim>\<open>path\<close>) and in the address:
  \<^verbatim>\<open>
  if (item.url) return item;
  if (!item.key) return item;
  return { ...item, url: ... };
  \<close>
  Computing the address of a storage key may throw.
\<close>

fun props :: "json \<Rightarrow> obj" where
  "props (JObj ps) = ps"
| "props v = []"

definition resolveUrl :: "string \<Rightarrow> (json \<Rightarrow> error + string) \<Rightarrow> json \<Rightarrow> error + json" where
  "resolveUrl keyName address item =
     (case getp item ''url'' of
        Inl e \<Rightarrow> Inl e
      | Inr u \<Rightarrow>
          if truthy u then Inr item
          else (case getp item keyName of
                  Inl e \<Rightarrow> Inl e
                | Inr None \<Rightarrow> Inr item
                | Inr (Some k) \<Rightarrow>
                    if \<not> truthy (Some k) then Inr item
                    else (case address k of
                            Inl e \<Rightarrow> Inl e
                          | Inr u \<Rightarrow> Inr (JObj (AList.update ''url'' (JStr u) (props item))))))"

text \<open>
  \<^verbatim>\<open>for (const item of media || [])\<close>: a falsy value gives no element, an array its
  elements, a string its characters; any other value is not iterable.
\<close>

fun iterate :: "json \<Rightarrow> error + json list" where
  "iterate (JArr xs) = Inr xs"
| "iterate (JStr s) = Inr (map (\<lambda>c. JStr [c]) s)"
| "iterate v = (if truthy (Some v) then Inl TypeError else Inr [])"

text \<open>\<^verbatim>\<open>(media || []).map(...)\<close>: only an array has \<^verbatim>\<open>map\<close>.\<close>

fun mapped :: "json \<Rightarrow> error + json list" where
  "mapped (JArr xs) = Inr xs"
| "mapped v = (if truthy (Some v) then Inl TypeError else Inr [])"

definition mediaType :: "string \<Rightarrow> string" where
  "mediaType contentType = (if startsWith contentType ''video/'' then ''video'' else ''image'')"

definition storageKey :: "henv \<Rightarrow> string \<Rightarrow> nat \<Rightarrow> pfile \<Rightarrow> string" where
  "storageKey env itemId i file =
     itemId @ ''/'' @ fileStamp env i @ ''-'' @ sanitizeFilename (pf_filename file)"

definition itemJson :: "string \<Rightarrow> string \<Rightarrow> string \<Rightarrow> string \<Rightarrow> json list \<Rightarrow> json" where
  "itemJson i t d m ms =
     JObj [(''id'', JStr i), (''title'', JStr t), (''desc'', JStr d),
           (''whatsappMessage'', JStr m), (''media'', JArr ms)]"

definition seed :: "(string \<times> string \<times> string) list" where
  "seed =
     [(''Casa com area gourmet'', ''Ambientes integrados, patio amplo e acabamento premium.'', ''imovel1.jpg''),
      (''Apartamento com varanda'', ''Vista aberta, condominio completo e otima localizacao.'', ''imovel2.jpg''),
      (''Sobrado em condominio'', ''Seguranca 24h e lazer para toda a familia.'', ''imovel3.jpg''),
      (''Casa terrea moderna'', ''Projeto contemporaneo com garagem coberta.'', ''imovel4.jpg'')]"

definition seedRow :: "string \<Rightarrow> string \<times> string \<times> string \<Rightarrow> row" where
  "seedRow i e =
     (case e of (t, d, u) \<Rightarrow>
        \<lparr>row_id = i, col_title = t, col_description = d, col_whatsapp_message = DEFAULT_WHATS_MESSAGE,
         col_media = JArr [JObj [(''type'', JStr ''image''), (''url'', JStr u)]]\<rparr>)"

definition byId :: "string \<Rightarrow> row list \<Rightarrow> row list" where
  "byId i rows = filter (\<lambda>r. row_id r = i) rows"


section \<open>The function on Netlify Blobs and Neon\<close>

text \<open>
  \<^verbatim>\<open>
  function withMediaUrls(media) {
    return (media || []).map((item) => {
      if (item.url) return item;
      if (!item.key) return item;
      const encoded = encodeURIComponent(item.key);
      return { ...item, url: `/.netlify/functions/media/${encoded}` };
    });
  }
  \<close>
\<close>

definition withMediaUrls :: "henv \<Rightarrow> json \<Rightarrow> error + json list" where
  "withMediaUrls env media =
     (case mapped media of
        Inl e \<Rightarrow> Inl e
      | Inr xs \<Rightarrow>
          mapE (resolveUrl ''key''
                  (\<lambda>k. case encodeURIComponent env k of
                          Inl e \<Rightarrow> Inl e
                        | Inr encoded \<Rightarrow> Inr (''/.netlify/functions/media/'' @ encoded))) xs)"

text \<open>
  \<^verbatim>\<open>seedIfEmpty\<close>: one \<^verbatim>\<open>INSERT\<close> for each seed row, under a fresh
  \<^verbatim>\<open>crypto.randomUUID()\<close>; \<^verbatim>\<open>id\<close> is the primary key of the table, so an
  \<^verbatim>\<open>INSERT\<close> under an id that is there already is refused.
\<close>

fun insertSeeds :: "henv \<Rightarrow> nat \<Rightarrow> (string \<times> string \<times> string) list \<Rightarrow> row list
    \<Rightarrow> error option \<times> row list" where
  "insertSeeds env i [] rows = (None, rows)"
| "insertSeeds env i (e # es) rows =
     (let uid = seedUUID env i
      in if uid \<in> set (map row_id rows) then (Some StorageError, rows)
         else insertSeeds env (Suc i) es (rows @ [seedRow uid e]))"

definition seedIfEmpty :: "henv \<Rightarrow> row list \<Rightarrow> error option \<times> row list" where
  "seedIfEmpty env rows = (if length rows > 0 then (None, rows) else insertSeeds env 0 seed rows)"

text \<open>
  \<^verbatim>\<open>
  async function storeFiles(store, files, itemId) {
    const media = [];
    for (const file of files) {
      const safeName = sanitizeFilename(file.filename);
      const key = `${itemId}/${Date.now()}-${crypto.randomUUID()}-${safeName}`;
      await store.set(key, file.buffer, { metadata: { contentType: file.contentType } });
      media.push({
        type: file.contentType.startsWith("video/") ? "video" : "image",
        key,
        contentType: file.contentType
      });
    }
    return media;
  }
  \<close>
\<close>

definition blobRef :: "string \<Rightarrow> pfile \<Rightarrow> json" where
  "blobRef k file =
     JObj [(''type'', JStr (mediaType (pf_contentType file))),
           (''key'', JStr k),
           (''contentType'', JStr (pf_contentType file))]"

fun storeFiles :: "henv \<Rightarrow> string \<Rightarrow> nat \<Rightarrow> pfile list \<Rightarrow> string set \<Rightarrow> json list \<times> string set" where
  "storeFiles env itemId i [] store = ([], store)"
| "storeFiles env itemId i (file # files) store =
     (let k = storageKey env itemId i file
      in case storeFiles env itemId (Suc i) files (insert k store) of
           (media, store') \<Rightarrow> (blobRef k file # media, store'))"

definition netlify_get :: "henv \<Rightarrow> string option \<Rightarrow> hstate \<Rightarrow> response \<times> hstate" where
  "netlify_get env oid s =
     (case oid of
        Some i \<Rightarrow>
          (case byId i (items s) of
             [] \<Rightarrow> (jsonResponse 404 (JObj [(''error'', JStr ''Not found'')]), s)
           | item # rest \<Rightarrow>
               (case withMediaUrls env (col_media item) of
                  Inl e \<Rightarrow> (serverError, s)
                | Inr ms \<Rightarrow>
                    (jsonResponse 200
                       (itemJson (row_id item) (col_title item) (col_description item)
                          (col_whatsapp_message item) ms), s)))
      | None \<Rightarrow>
          (case mapE (\<lambda>item. case withMediaUrls env (col_media item) of
                                Inl e \<Rightarrow> Inl e
                              | Inr ms \<Rightarrow> Inr (itemJson (row_id item) (col_title item)
                                                 (col_description item) (col_whatsapp_message item) ms))
                     (rev (items s)) of
             Inl e \<Rightarrow> (serverError, s)
           | Inr rows \<Rightarrow> (jsonResponse 200 (JArr rows), s)))"

definition netlify_post :: "henv \<Rightarrow> content \<Rightarrow> hstate \<Rightarrow> response \<times> hstate" where
  "netlify_post env c s =
     (case readBody env c of
        Inl FILE_TOO_LARGE \<Rightarrow> (tooLarge413, s)
      | Inl Thrown \<Rightarrow> (serverError, s)
      | Inr (flds, files) \<Rightarrow>
     (case textField env flds ''title'' of
        Inl e \<Rightarrow> (serverError, s)
      | Inr title \<Rightarrow>
     (case textField env flds ''desc'' of
        Inl e \<Rightarrow> (serverError, s)
      | Inr desc \<Rightarrow>
     (case textField env flds ''whatsappMessage'' of
        Inl e \<Rightarrow> (serverError, s)
      | Inr msg \<Rightarrow>
     let whatsappMessage = (if msg \<noteq> [] then msg else DEFAULT_WHATS_MESSAGE)
     in if title = [] \<or> desc = []
        then (jsonResponse 400 (JObj [(''error'', JStr ''Missing required fields.'')]), s)
        else
          let newId = itemUUID env
          in (case (if length files > 0
                    then (case storeFiles env newId 0 files (blobs s) of
                            (media, store) \<Rightarrow> Inr (media, store))
                    else (case getp flds ''media'' of
                            Inl e \<Rightarrow> Inl e
                          | Inr fm \<Rightarrow> Inr (if isArray fm then elems fm else [], blobs s))) of
                Inl e \<Rightarrow> (serverError, s)
              | Inr (media, store) \<Rightarrow>
                  let s1 = s\<lparr>blobs := store\<rparr>
                  in if length media = 0
                     then (jsonResponse 400 (JObj [(''error'', JStr ''Missing media files.'')]), s1)
                     else if newId \<in> set (map row_id (items s1)) then (serverError, s1)
                     else
                       let s2 = s1\<lparr>items := items s1 @
                                  [\<lparr>row_id = newId, col_title = title, col_description = desc,
                                    col_whatsapp_message = whatsappMessage, col_media = JArr media\<rparr>]\<rparr>
                       in (case withMediaUrls env (JArr media) of
                             Inl e \<Rightarrow> (serverError, s2)
                           | Inr ms \<Rightarrow>
                               (jsonResponse 201 (itemJson newId title desc whatsappMessage ms),
                                s2)))))))"

definition netlify_put :: "henv \<Rightarrow> string option \<Rightarrow> content \<Rightarrow> hstate \<Rightarrow> response \<times> hstate" where
  "netlify_put env oid c s =
     (case oid of
        None \<Rightarrow> (missingId, s)
      | Some i \<Rightarrow>
     (case readBody env c of
        Inl FILE_TOO_LARGE \<Rightarrow> (tooLarge413, s)
      | Inl Thrown \<Rightarrow> (serverError, s)
      | Inr (flds, files) \<Rightarrow>
     (case byId i (items s) of
        [] \<Rightarrow> (jsonResponse 404 (JObj [(''error'', JStr ''Not found'')]), s)
      | current # rest \<Rightarrow>
     (case textField env flds ''title'' of
        Inl e \<Rightarrow> (serverError, s)
      | Inr t \<Rightarrow>
     (case textField env flds ''desc'' of
        Inl e \<Rightarrow> (serverError, s)
      | Inr d \<Rightarrow>
     (case textField env flds ''whatsappMessage'' of
        Inl e \<Rightarrow> (serverError, s)
      | Inr m \<Rightarrow>
     let nextTitle = (if t \<noteq> [] then t else col_title current);
         nextDesc = (if d \<noteq> [] then d else col_description current);
         nextMessage = (if m \<noteq> [] then m
                        else if col_whatsapp_message current \<noteq> [] then col_whatsapp_message current
                        else DEFAULT_WHATS_MESSAGE)
     in (case (if length files > 0
               then (case storeFiles env i 0 files (blobs s) of
                       (media, store) \<Rightarrow> Inr (JArr media, store))
               else (case getp flds ''media'' of
                       Inl e \<Rightarrow> Inl e
                     | Inr fm \<Rightarrow>
                         Inr (if isArray fm \<and> length (elems fm) > 0 then JArr (elems fm)
                              else col_media current, blobs s))) of
           Inl e \<Rightarrow> (serverError, s)
         | Inr (nextMedia, store) \<Rightarrow>
             let s1 = s\<lparr>items := map (\<lambda>r. if row_id r = i
                                           then r\<lparr>col_title := nextTitle, col_description := nextDesc,
                                                  col_whatsapp_message := nextMessage,
                                                  col_media := nextMedia\<rparr>
                                           else r) (items s),
                        blobs := store\<rparr>
             in (case withMediaUrls env nextMedia of
                   Inl e \<Rightarrow> (serverError, s1)
                 | Inr ms \<Rightarrow>
                     (jsonResponse 200 (itemJson i nextTitle nextDesc nextMessage ms), s1)))))))))"

text \<open>
  The loop of the \<^verbatim>\<open>DELETE\<close> branch:
  \<^verbatim>\<open>
  for (const item of media) { if (item.key) { await store.delete(item.key); } }
  \<close>
  A key that is no string names no blob.
\<close>

fun deleteBlobs :: "json list \<Rightarrow> string set \<Rightarrow> error option \<times> string set" where
  "deleteBlobs [] store = (None, store)"
| "deleteBlobs (item # rest) store =
     (case getp item ''key'' of
        Inl e \<Rightarrow> (Some e, store)
      | Inr k \<Rightarrow>
          if truthy k
          then (case k of
                  Some (JStr name) \<Rightarrow> deleteBlobs rest (store - {name})
                | _ \<Rightarrow> deleteBlobs rest store)
          else deleteBlobs rest store)"

definition netlify_delete :: "string option \<Rightarrow> hstate \<Rightarrow> response \<times> hstate" where
  "netlify_delete oid s =
     (case oid of
        None \<Rightarrow> (missingId, s)
      | Some i \<Rightarrow>
          (case (case byId i (items s) of
                   [] \<Rightarrow> (None, blobs s)
                 | existing # rest \<Rightarrow>
                     (case iterate (col_media existing) of
                        Inl e \<Rightarrow> (Some e, blobs s)
                      | Inr ms \<Rightarrow> deleteBlobs ms (blobs s))) of
             (Some e, store) \<Rightarrow> (serverError, s\<lparr>blobs := store\<rparr>)
           | (None, store) \<Rightarrow>
               (jsonResponse 200 okTrue,
                s\<lparr>items := filter (\<lambda>r. row_id r \<noteq> i) (items s), blobs := store\<rparr>)))"

text \<open>The exported handler: schema and seed first, then the branch of the method.\<close>

definition netlify_items :: "henv \<Rightarrow> request \<Rightarrow> hstate \<Rightarrow> response \<times> hstate" where
  "netlify_items env req s =
     (case seedIfEmpty env (items s) of
        (Some e, rows) \<Rightarrow> (serverError, s\<lparr>items := rows\<rparr>)
      | (None, rows) \<Rightarrow>
          let s0 = s\<lparr>items := rows\<rparr>; oid = extractId (pathname req)
          in (case req_method req of
                GET \<Rightarrow> netlify_get env oid s0
              | POST \<Rightarrow> netlify_post env (content req) s0
              | PUT \<Rightarrow> netlify_put env oid (content req) s0
              | DELETE \<Rightarrow> netlify_delete oid s0
              | OTHER \<Rightarrow> (jsonResponse 405 (JObj [(''error'', JStr ''Method not allowed.'')]), s0)))"


section \<open>The function on Supabase\<close>

text \<open>
  \<^verbatim>\<open>
  async function withPublicUrls(supabase, bucket, media) {
    const result = [];
    for (const item of media || []) {
      if (item.url) { result.push(item); continue; }
      if (!item.path) { result.push(item); continue; }
      const { data } = supabase.storage.from(bucket).getPublicUrl(item.path);
      result.push({ ...item, url: data.publicUrl });
    }
    return result;
  }
  \<close>
\<close>

definition withPublicUrls :: "henv \<Rightarrow> json \<Rightarrow> error + json list" where
  "withPublicUrls env media0 =
     (case iterate media0 of
        Inl e \<Rightarrow> Inl e
      | Inr xs \<Rightarrow> mapE (resolveUrl ''path'' (getPublicUrl env)) xs)"

text \<open>
  \<^verbatim>\<open>ensureSeed\<close>: one \<^verbatim>\<open>insert\<close> of the four seed rows into an empty table; the
  database gives the ids.
\<close>

fun insertRows :: "henv \<Rightarrow> (string \<times> string \<times> string) list \<Rightarrow> row list \<Rightarrow> row list" where
  "insertRows env [] rows = rows"
| "insertRows env (e # es) rows = insertRows env es (rows @ [seedRow (dbId env (length rows)) e])"

definition ensureSeed :: "henv \<Rightarrow> row list \<Rightarrow> row list" where
  "ensureSeed env rows = (if length rows > 0 then rows else insertRows env seed rows)"

text \<open>
  \<^verbatim>\<open>storeFiles\<close> of this function: the upload goes with \<^verbatim>\<open>upsert: false\<close>, so a path
  that is there already is an error, which is thrown.
\<close>

definition pathRef :: "string \<Rightarrow> pfile \<Rightarrow> json" where
  "pathRef p file =
     JObj [(''type'', JStr (mediaType (pf_contentType file))),
           (''path'', JStr p),
           (''contentType'', JStr (pf_contentType file))]"

fun storeFiles_supabase :: "henv \<Rightarrow> string \<Rightarrow> nat \<Rightarrow> pfile list \<Rightarrow> string set
    \<Rightarrow> (error + json list) \<times> string set" where
  "storeFiles_supabase env itemId i [] store = (Inr [], store)"
| "storeFiles_supabase env itemId i (file # files) store =
     (let p = storageKey env itemId i file
      in if p \<in> store then (Inl StorageError, store)
         else (case storeFiles_supabase env itemId (Suc i) files (insert p store) of
                 (Inl e, store') \<Rightarrow> (Inl e, store')
               | (Inr ms, store') \<Rightarrow> (Inr (pathRef p file # ms), store')))"

text \<open>
  \<^verbatim>\<open>
  async function removeStoredMedia(supabase, bucket, media) {
    const paths = (media || []).map((item) => item.path).filter(Boolean);
    if (paths.length === 0) return;
    await supabase.storage.from(bucket).remove(paths);
  }
  \<close>
  A path that is no string names no blob.
\<close>

fun names :: "json option list \<Rightarrow> string list" where
  "names [] = []"
| "names (Some (JStr n) # ps) = n # names ps"
| "names (p # ps) = names ps"

definition removeStoredMedia :: "json \<Rightarrow> string set \<Rightarrow> error + string set" where
  "removeStoredMedia media0 store =
     (case mapped media0 of
        Inl e \<Rightarrow> Inl e
      | Inr xs \<Rightarrow>
          (case mapE (\<lambda>item. getp item ''path'') xs of
             Inl e \<Rightarrow> Inl e
           | Inr ps \<Rightarrow>
               let paths = filter truthy ps
               in if length paths = 0 then Inr store else Inr (store - set (names paths))))"

text \<open>\<^verbatim>\<open>.maybeSingle()\<close>: no row, the one row, or an error for more rows.\<close>

fun maybeSingle :: "row list \<Rightarrow> error + row option" where
  "maybeSingle [] = Inr None"
| "maybeSingle [r] = Inr (Some r)"
| "maybeSingle rs = Inl StorageError"

definition supabase_get :: "henv \<Rightarrow> string option \<Rightarrow> hstate \<Rightarrow> response \<times> hstate" where
  "supabase_get env oid s =
     (case oid of
        Some i \<Rightarrow>
          (case maybeSingle (byId i (items s)) of
             Inl e \<Rightarrow> (serverError, s)
           | Inr None \<Rightarrow> (jsonResponse 404 (JObj [(''error'', JStr ''Not found'')]), s)
           | Inr (Some item) \<Rightarrow>
               (case withPublicUrls env (col_media item) of
                  Inl e \<Rightarrow> (serverError, s)
                | Inr ms \<Rightarrow>
                    (jsonResponse 200
                       (itemJson (row_id item) (col_title item) (col_description item)
                          (col_whatsapp_message item) ms), s)))
      | None \<Rightarrow>
          (case mapE (\<lambda>item. case withPublicUrls env (col_media item) of
                                Inl e \<Rightarrow> Inl e
                              | Inr ms \<Rightarrow> Inr (itemJson (row_id item) (col_title item)
                                                 (col_description item) (col_whatsapp_message item) ms))
                     (rev (items s)) of
             Inl e \<Rightarrow> (serverError, s)
           | Inr rows \<Rightarrow> (jsonResponse 200 (JArr rows), s)))"

definition supabase_post :: "henv \<Rightarrow> content \<Rightarrow> hstate \<Rightarrow> response \<times> hstate" where
  "supabase_post env c s =
     (case readBody env c of
        Inl FILE_TOO_LARGE \<Rightarrow> (tooLarge413, s)
      | Inl Thrown \<Rightarrow> (serverError, s)
      | Inr (flds, files) \<Rightarrow>
     (case textField env flds ''title'' of
        Inl e \<Rightarrow> (serverError, s)
      | Inr title \<Rightarrow>
     (case textField env flds ''desc'' of
        Inl e \<Rightarrow> (serverError, s)
      | Inr desc \<Rightarrow>
     (case textField env flds ''whatsappMessage'' of
        Inl e \<Rightarrow> (serverError, s)
      | Inr msg \<Rightarrow>
     let whatsappMessage = (if msg \<noteq> [] then msg else DEFAULT_WHATS_MESSAGE)
     in if title = [] \<or> desc = []
        then (jsonResponse 400 (JObj [(''error'', JStr ''Missing required fields.'')]), s)
        else
          (case (if length files > 0
                 then storeFiles_supabase env (itemUUID env) 0 files (blobs s)
                 else (case getp flds ''media'' of
                         Inl e \<Rightarrow> (Inl e, blobs s)
                       | Inr fm \<Rightarrow> (Inr (if isArray fm then elems fm else []), blobs s))) of
             (Inl e, store) \<Rightarrow> (serverError, s\<lparr>blobs := store\<rparr>)
           | (Inr media, store) \<Rightarrow>
               let s1 = s\<lparr>blobs := store\<rparr>
               in if length media = 0
                  then (jsonResponse 400 (JObj [(''error'', JStr ''Missing media files.'')]), s1)
                  else
                    let data = \<lparr>row_id = dbId env (length (items s1)), col_title = title,
                                col_description = desc, col_whatsapp_message = whatsappMessage,
                                col_media = JArr media\<rparr>;
                        s2 = s1\<lparr>items := items s1 @ [data]\<rparr>
                    in (case withPublicUrls env (col_media data) of
                          Inl e \<Rightarrow> (serverError, s2)
                        | Inr signedMedia \<Rightarrow>
                            (jsonResponse 201
                               (itemJson (row_id data) (col_title data) (col_description data)
                                  (col_whatsapp_message data) signedMedia), s2)))))))"

definition supabase_put :: "henv \<Rightarrow> string option \<Rightarrow> content \<Rightarrow> hstate \<Rightarrow> response \<times> hstate" where
  "supabase_put env oid c s =
     (case oid of
        None \<Rightarrow> (missingId, s)
      | Some i \<Rightarrow>
     (case readBody env c of
        Inl FILE_TOO_LARGE \<Rightarrow> (tooLarge413, s)
      | Inl Thrown \<Rightarrow> (serverError, s)
      | Inr (flds, files) \<Rightarrow>
     (case maybeSingle (byId i (items s)) of
        Inl e \<Rightarrow> (serverError, s)
      | Inr None \<Rightarrow> (jsonResponse 404 (JObj [(''error'', JStr ''Not found'')]), s)
      | Inr (Some current) \<Rightarrow>
     (case textField env flds ''title'' of
        Inl e \<Rightarrow> (serverError, s)
      | Inr t \<Rightarrow>
     (case textField env flds ''desc'' of
        Inl e \<Rightarrow> (serverError, s)
      | Inr d \<Rightarrow>
     (case textField env flds ''whatsappMessage'' of
        Inl e \<Rightarrow> (serverError, s)
      | Inr m \<Rightarrow>
     let nextTitle = (if t \<noteq> [] then t else col_title current);
         nextDesc = (if d \<noteq> [] then d else col_description current);
         nextMessage = (if m \<noteq> [] then m
                        else if col_whatsapp_message current \<noteq> [] then col_whatsapp_message current
                        else DEFAULT_WHATS_MESSAGE);
         currentMedia = (if truthy (Some (col_media current)) then col_media current else JArr [])
     in (case (if length files > 0
               then (case removeStoredMedia currentMedia (blobs s) of
                       Inl e \<Rightarrow> (Inl e, blobs s)
                     | Inr store \<Rightarrow>
                         (case storeFiles_supabase env (row_id current) 0 files store of
                            (Inl e, store') \<Rightarrow> (Inl e, store')
                          | (Inr ms, store') \<Rightarrow> (Inr (JArr ms), store')))
               else (case getp flds ''media'' of
                       Inl e \<Rightarrow> (Inl e, blobs s)
                     | Inr fm \<Rightarrow>
                         (Inr (if isArray fm \<and> length (elems fm) > 0 then JArr (elems fm)
                               else currentMedia), blobs s))) of
           (Inl e, store) \<Rightarrow> (serverError, s\<lparr>blobs := store\<rparr>)
         | (Inr nextMedia, store) \<Rightarrow>
             let updated = \<lambda>r. r\<lparr>col_title := nextTitle, col_description := nextDesc,
                                  col_whatsapp_message := nextMessage, col_media := nextMedia\<rparr>;
                 data = updated current;
                 s1 = s\<lparr>items := map (\<lambda>r. if row_id r = i then updated r else r) (items s),
                        blobs := store\<rparr>
             in (case withPublicUrls env (col_media data) of
                   Inl e \<Rightarrow> (serverError, s1)
                 | Inr signedMedia \<Rightarrow>
                     (jsonResponse 200
                        (itemJson (row_id data) (col_title data) (col_description data)
                           (col_whatsapp_message data) signedMedia), s1)))))))))"

definition supabase_delete :: "string option \<Rightarrow> hstate \<Rightarrow> response \<times> hstate" where
  "supabase_delete oid s =
     (case oid of
        None \<Rightarrow> (missingId, s)
      | Some i \<Rightarrow>
          (case maybeSingle (byId i (items s)) of
             Inl e \<Rightarrow> (serverError, s)
           | Inr data \<Rightarrow>
               (case (case data of
                        None \<Rightarrow> Inr (blobs s)
                      | Some r \<Rightarrow>
                          if truthy (Some (col_media r)) then removeStoredMedia (col_media r) (blobs s)
                          else Inr (blobs s)) of
                  Inl e \<Rightarrow> (serverError, s)
                | Inr store \<Rightarrow>
                    (jsonResponse 200 okTrue,
                     s\<lparr>items := filter (\<lambda>r. row_id r \<noteq> i) (items s), blobs := store\<rparr>))))"

text \<open>The exported handler: the seed first, then the branch of the method.\<close>

definition supabase_items :: "henv \<Rightarrow> request \<Rightarrow> hstate \<Rightarrow> response \<times> hstate" where
  "supabase_items env req s =
     (let s0 = s\<lparr>items := ensureSeed env (items s)\<rparr>; oid = extractId (pathname req)
      in case req_method req of
           GET \<Rightarrow> supabase_get env oid s0
         | POST \<Rightarrow> supabase_post env (content req) s0
         | PUT \<Rightarrow> supabase_put env oid (content req) s0
         | DELETE \<Rightarrow> supabase_delete oid s0
         | OTHER \<Rightarrow> (jsonResponse 405 (JObj [(''error'', JStr ''Method not allowed.'')]), s0))"


section \<open>Vocabulary of the properties\<close>

text \<open>The file parts of a multipart body, in the order of the body.\<close>

fun fileUploads :: "part list \<Rightarrow> upload list" where
  "fileUploads [] = []"
| "fileUploads (Field name v # ps) = fileUploads ps"
| "fileUploads (File u # ps) = u # fileUploads ps"

text \<open>
  The file parts that carry a file name: the files a form uploads. (A file input that is
  left empty sends a part without one.)
\<close>

definition namedParts :: "upload list \<Rightarrow> upload list" where
  "namedParts us = filter (\<lambda>u. originalname u \<noteq> []) us"

text \<open>A media descriptor that carries its address: a value with a truthy \<^verbatim>\<open>url\<close>.\<close>

definition hasUrl :: "json \<Rightarrow> bool" where
  "hasUrl m \<longleftrightarrow> (case getp m ''url'' of Inl e \<Rightarrow> False | Inr u \<Rightarrow> truthy u)"

text \<open>
  A media reference of the data model: an object whose storage names (\<^verbatim>\<open>filename\<close>,
  \<^verbatim>\<open>key\<close>, \<^verbatim>\<open>path\<close>), where it has them, are strings. A media list is an array of
  such references.
\<close>

fun nameOrAbsent :: "json option \<Rightarrow> bool" where
  "nameOrAbsent None = True"
| "nameOrAbsent (Some (JStr n)) = True"
| "nameOrAbsent (Some v) = False"

fun mediaRef :: "json \<Rightarrow> bool" where
  "mediaRef (JObj ps) =
     (nameOrAbsent (map_of ps ''filename'') \<and> nameOrAbsent (map_of ps ''key'')
      \<and> nameOrAbsent (map_of ps ''path''))"
| "mediaRef v = False"

fun mediaRefs :: "json \<Rightarrow> bool" where
  "mediaRefs (JArr ms) = list_all mediaRef ms"
| "mediaRefs v = False"

text \<open>The storage names a list of media entries carries under a property.\<close>

fun owned :: "string \<Rightarrow> json list \<Rightarrow> string list" where
  "owned k [] = []"
| "owned k (JObj ps # ms) =
     (case map_of ps k of
        Some (JStr n) \<Rightarrow> (if n \<noteq> [] then n # owned k ms else owned k ms)
      | _ \<Rightarrow> owned k ms)"
| "owned k (m # ms) = owned k ms"

text \<open>The three assignments of \<^verbatim>\<open>app.put\<close> to the text fields of the item.\<close>

definition putFields :: "string \<Rightarrow> string \<Rightarrow> string \<Rightarrow> obj \<Rightarrow> obj" where
  "putFields t d w item =
     AList.update ''whatsappMessage'' (JStr w)
       (AList.update ''desc'' (JStr d) (AList.update ''title'' (JStr t) item))"

text \<open>
  The values the hosted \<^verbatim>\<open>PUT\<close> branches compute for the text columns, from the
  normalized texts of the request and the current row.
\<close>

definition nextTexts :: "string \<Rightarrow> string \<Rightarrow> string \<Rightarrow> row \<Rightarrow> row \<Rightarrow> row" where
  "nextTexts t d m current r =
     r\<lparr>col_title := (if t \<noteq> [] then t else col_title current),
       col_description := (if d \<noteq> [] then d else col_description current),
       col_whatsapp_message :=
         (if m \<noteq> [] then m
          else if col_whatsapp_message current \<noteq> [] then col_whatsapp_message current
          else DEFAULT_WHATS_MESSAGE)\<rparr>"

text \<open>\<^verbatim>\<open>current.media || []\<close> of the Supabase \<^verbatim>\<open>PUT\<close> branch.\<close>

definition currentMedia :: "row \<Rightarrow> json" where
  "currentMedia current =
     (if truthy (Some (col_media current)) then col_media current else JArr [])"

text \<open>
  The value a multipart body gives a field: the value of the last field part of that name.
\<close>

fun fieldValue :: "string \<Rightarrow> part list \<Rightarrow> string option" where
  "fieldValue k [] = None"
| "fieldValue k (Field name v # ps) =
     (case fieldValue k ps of
        None \<Rightarrow> (if name = k then Some v else None)
      | Some w \<Rightarrow> Some w)"
| "fieldValue k (File u # ps) = fieldValue k ps"

text \<open>
  Sample values of what the clock, the random generator and the platform give; the storage
  keys of the samples are strings of characters that \<^verbatim>\<open>encodeURIComponent\<close> leaves as
  they are.
\<close>

definition sample_lenv :: lenv where
  "sample_lenv =
     \<lparr>fileUnique = (\<lambda>i. ''1700000000000-'' @ replicate (Suc i) (CHR ''7'')),
      itemUnique = ''1700000000001-42'',
      isoNow = ''2024-01-01T00:00:00.000Z'',
      multerFiresAtLimit = True\<rparr>"

definition sample_henv :: henv where
  "sample_henv =
     \<lparr>toStringOf = (\<lambda>v. Inr ''[object Object]''),
      encodeURIComponent = (\<lambda>v. case v of JStr k \<Rightarrow> Inr k | _ \<Rightarrow> Inl TypeError),
      getPublicUrl = (\<lambda>v. case v of JStr k \<Rightarrow> Inr (''https://cdn.example/'' @ k)
                               | _ \<Rightarrow> Inl TypeError),
      busboyFiresAtLimit = True,
      seedUUID = (\<lambda>i. ''seed-'' @ replicate (Suc i) (CHR ''s'')),
      itemUUID = ''uuid-1'',
      fileStamp = (\<lambda>i. ''1700000000000-'' @ replicate (Suc i) (CHR ''u'')),
      dbId = (\<lambda>n. ''row-'' @ replicate (Suc n) (CHR ''r''))\<rparr>"

text \<open>A sample of each kind of state and request.\<close>

definition sample_upload :: upload where
  "sample_upload =
     \<lparr>fieldname = ''files'', originalname = ''foto 1.png'', mimetype = ''image/png'', nbytes = 1000\<rparr>"

definition sample_video :: upload where
  "sample_video =
     \<lparr>fieldname = ''files'', originalname = ''tour.mp4'', mimetype = ''video/mp4'', nbytes = 2000\<rparr>"

text \<open>A part without a file name, as an empty file input sends it; here it has many bytes.\<close>

definition sample_nameless :: upload where
  "sample_nameless =
     \<lparr>fieldname = ''files'', originalname = [], mimetype = ''application/octet-stream'',
      nbytes = 600 * 1024 * 1024\<rparr>"

definition sample_item :: obj where
  "sample_item =
     [(''id'', JStr ''item-1''), (''title'', JStr ''Sala''), (''desc'', JStr ''Ampla''),
      (''whatsappMessage'', JStr ''Oi''),
      (''media'', JArr [JObj [(''type'', JStr ''image''), (''url'', JStr ''/uploads/1-1-sala.jpg''),
                              (''filename'', JStr ''1-1-sala.jpg'')]])]"

definition sample_lstate :: lstate where
  "sample_lstate = \<lparr>dataFile = [sample_item], uploadsDir = {''1-1-sala.jpg''}\<rparr>"

definition sample_row :: row where
  "sample_row =
     \<lparr>row_id = ''a'', col_title = ''Sala'', col_description = ''Ampla'', col_whatsapp_message = ''Oi'',
      col_media = JArr [JObj [(''type'', JStr ''image''), (''key'', JStr ''a/1-u-sala.jpg''),
                              (''path'', JStr ''a/1-u-sala.jpg''),
                              (''contentType'', JStr ''image/jpeg'')]]\<rparr>"

definition sample_hstate :: hstate where
  "sample_hstate = \<lparr>items = [sample_row], blobs = {''a/1-u-sala.jpg''}\<rparr>"

definition sample_parts :: "part list" where
  "sample_parts =
     [Field ''title'' ''Casa'', Field ''desc'' ''Bonita'', File sample_video, File sample_upload]"

definition sample_lpost :: lrequest where
  "sample_lpost =
     \<lparr>params_id = [], body = [(''title'', JStr ''Casa''), (''desc'', JStr ''Bonita'')],
      fileParts = [sample_nameless, sample_video, sample_upload]\<rparr>"

definition sample_post :: request where
  "sample_post = \<lparr>req_method = POST, pathname = ''/api/items'', content = Multipart sample_parts\<rparr>"

definition sample_big :: upload where
  "sample_big =
     \<lparr>fieldname = ''files'', originalname = ''tour.mp4'', mimetype = ''video/mp4'',
      nbytes = 500 * 1024 * 1024 + 1\<rparr>"

definition sample_big_lpost :: lrequest where
  "sample_big_lpost =
     \<lparr>params_id = ''item-1'', body = [(''title'', JStr ''Casa''), (''desc'', JStr ''Bonita'')],
      fileParts = [sample_big]\<rparr>"

definition sample_big_post :: request where
  "sample_big_post =
     \<lparr>req_method = POST, pathname = ''/api/items'',
      content = Multipart [Field ''title'' ''Casa'', Field ''desc'' ''Bonita'', File sample_big]\<rparr>"

definition sample_descriptors :: json where
  "sample_descriptors = JArr [JObj [(''type'', JStr ''image''), (''url'', JStr ''casa.jpg'')]]"

definition sample_json_lpost :: lrequest where
  "sample_json_lpost =
     \<lparr>params_id = [],
      body = [(''title'', JStr ''Casa''), (''desc'', JStr ''Bonita''), (''media'', sample_descriptors)],
      fileParts = []\<rparr>"

definition sample_json_post :: request where
  "sample_json_post =
     \<lparr>req_method = POST, pathname = ''/api/items'',
      content = Json (JObj [(''title'', JStr ''Casa''), (''desc'', JStr ''Bonita''),
                            (''media'', sample_descriptors)])\<rparr>"

definition sample_delete :: request where
  "sample_delete = \<lparr>req_method = DELETE, pathname = ''/api/items/zzz'', content = Malformed\<rparr>"

definition sample_delete_a :: request where
  "sample_delete_a = \<lparr>req_method = DELETE, pathname = ''/api/items/a'', content = Malformed\<rparr>"

definition sample_ldelete :: lrequest where
  "sample_ldelete = \<lparr>params_id = ''item-1'', body = [], fileParts = []\<rparr>"

definition sample_lput :: lrequest where
  "sample_lput = \<lparr>params_id = ''item-1'', body = [(''title'', JStr '' Casa '')], fileParts = []\<rparr>"

definition sample_put :: request where
  "sample_put =
     \<lparr>req_method = PUT, pathname = ''/api/items/a'',
      content = Json (JObj [(''title'', JStr '' Casa '')])\<rparr>"

definition sample_put_form :: request where
  "sample_put_form =
     \<lparr>req_method = PUT, pathname = ''/api/items/a'',
      content = Multipart [Field ''title'' ''Velha'', Field ''desc'' ''  '', Field ''title'' '' Casa '']\<rparr>"

section \<open>Properties\<close>

lemma replaceRuns_safe: "c \<in> set (replaceRuns s) \<Longrightarrow> safeChar c"
proof (induction s rule: replaceRuns.induct)
  case 1
  then show ?case by simp
next
  case (2 d ds)
  show ?case
  proof (cases "safeChar d")
    case True
    with 2 show ?thesis by auto
  next
    case False
    have u: "safeChar (CHR ''_'')" by (simp add: safeChar_def)
    from False 2(3) have "c = CHR ''_'' \<or> c \<in> set (replaceRuns (dropWhile (\<lambda>d. \<not> safeChar d) ds))"
      by simp
    with False 2(2) u show ?thesis by blast
  qed
qed

subsection \<open>Sanitized file names\<close>

lemma filter_dropWhile_neg:
  "(\<And>x. P x \<Longrightarrow> \<not> Q x) \<Longrightarrow> filter P (dropWhile Q xs) = filter P xs"
  by (induction xs) auto

lemma replaceRuns_keeps:
  "filter (\<lambda>c. c \<noteq> CHR ''_'') (replaceRuns s) = filter (\<lambda>c. safeChar c \<and> c \<noteq> CHR ''_'') s"
proof (induction s rule: replaceRuns.induct)
  case 1
  then show ?case by simp
next
  case (2 d ds)
  show ?case
  proof (cases "safeChar d")
    case True
    with 2 show ?thesis by simp
  next
    case False
    have "filter (\<lambda>c. safeChar c \<and> c \<noteq> CHR ''_'') (dropWhile (\<lambda>d. \<not> safeChar d) ds)
        = filter (\<lambda>c. safeChar c \<and> c \<noteq> CHR ''_'') ds"
      by (rule filter_dropWhile_neg) simp
    with False 2(2) show ?thesis by simp
  qed
qed

lemma replaceRuns_nonempty: "s \<noteq> [] \<Longrightarrow> replaceRuns s \<noteq> []"
  by (cases s) auto

text \<open>Characters of the class stay as they are, up to the first one outside it.\<close>

lemma replaceRuns_prefix:
  "\<forall>c \<in> set a. safeChar c \<Longrightarrow> replaceRuns (a @ b) = a @ replaceRuns b"
  by (induction a) simp_all

text \<open>A maximal run of characters outside the class becomes one underscore.\<close>

lemma replaceRuns_run:
  assumes "u \<noteq> []" and "\<forall>c \<in> set u. \<not> safeChar c" and "b = [] \<or> safeChar (hd b)"
  shows "replaceRuns (u @ b) = CHR ''_'' # replaceRuns b"
proof -
  from assms(1) obtain c cs where u: "u = c # cs" by (cases u) auto
  with assms(2) have c: "\<not> safeChar c" and cs: "\<And>x. x \<in> set cs \<Longrightarrow> \<not> safeChar x" by simp_all
  from cs have "dropWhile (\<lambda>d. \<not> safeChar d) (cs @ b) = dropWhile (\<lambda>d. \<not> safeChar d) b"
    by (simp add: dropWhile_append2)
  also from assms(3) have "dropWhile (\<lambda>d. \<not> safeChar d) b = b" by (cases b) auto
  finally show ?thesis using c by (simp add: u)
qed

lemma sanitizeFilename_replaceRuns: "s \<noteq> [] \<Longrightarrow> sanitizeFilename s = replaceRuns s"
  by (simp add: sanitizeFilename_def Let_def replaceRuns_nonempty)

lemma sanitizeFilename_empty: "sanitizeFilename [] = ''file''"
  by (simp add: sanitizeFilename_def safeChar_def)

text \<open>
  Claim C9. For every submitted file name, the sanitized name that goes into the storage key
  has only characters of the class \<^verbatim>\<open>[A-Za-z0-9._-]\<close>, and what was outside the class
  has been replaced by a fixed character. On the local server each such character becomes a
  hyphen and the others stay, position by position. In the hosted functions the characters of
  the class stay and each maximal run of characters outside it becomes one underscore: a name
  of characters of the class is returned as it is, and a name made of such a prefix \<open>a\<close>, a
  run \<open>u\<close> of characters outside the class and a rest \<open>b\<close> that does not go on with such a
  character becomes \<open>a\<close>, one underscore, and the sanitized \<open>b\<close>. An empty name becomes
  \<^verbatim>\<open>file\<close>, so the result is never empty.
\<close>

theorem sanitized_names_safe:
  "(\<forall>c \<in> set (safeName s). safeChar c)
   \<and> length (safeName s) = length s
   \<and> (\<forall>i < length s. safeName s ! i = (if safeChar (s ! i) then s ! i else CHR ''-''))
   \<and> (\<forall>c \<in> set (sanitizeFilename s). safeChar c)
   \<and> sanitizeFilename s \<noteq> []
   \<and> (s = [] \<longrightarrow> sanitizeFilename s = ''file'')
   \<and> (s \<noteq> [] \<and> (\<forall>c \<in> set s. safeChar c) \<longrightarrow> sanitizeFilename s = s)
   \<and> (\<forall>a u b. s = a @ u @ b \<and> (\<forall>c \<in> set a. safeChar c)
          \<and> u \<noteq> [] \<and> (\<forall>c \<in> set u. \<not> safeChar c) \<and> (b = [] \<or> safeChar (hd b)) \<longrightarrow>
          sanitizeFilename s = a @ CHR ''_'' # (if b = [] then [] else sanitizeFilename b))
   \<and> (s \<noteq> [] \<longrightarrow> filter (\<lambda>c. c \<noteq> CHR ''_'') (sanitizeFilename s)
                      = filter (\<lambda>c. safeChar c \<and> c \<noteq> CHR ''_'') s)"
proof -
  have h: "safeChar (CHR ''-'')" by (simp add: safeChar_def)
  have a: "\<forall>c \<in> set (safeName s). safeChar c"
    using h by (auto simp: safeName_def)
  have b: "length (safeName s) = length s" by (simp add: safeName_def)
  have c: "\<forall>i < length s. safeName s ! i = (if safeChar (s ! i) then s ! i else CHR ''-'')"
    by (simp add: safeName_def)
  have d: "\<forall>c \<in> set (sanitizeFilename s). safeChar c"
    by (auto simp: sanitizeFilename_def Let_def safeChar_def dest: replaceRuns_safe split: if_splits)
  have e: "sanitizeFilename s \<noteq> []" by (simp add: sanitizeFilename_def Let_def)
  have f: "s = [] \<longrightarrow> sanitizeFilename s = ''file''"
    by (simp add: sanitizeFilename_empty)
  have g: "s \<noteq> [] \<and> (\<forall>c \<in> set s. safeChar c) \<longrightarrow> sanitizeFilename s = s"
    using replaceRuns_prefix [of s "[]"] by (simp add: sanitizeFilename_replaceRuns)
  have i: "\<forall>a u b. s = a @ u @ b \<and> (\<forall>c \<in> set a. safeChar c)
          \<and> u \<noteq> [] \<and> (\<forall>c \<in> set u. \<not> safeChar c) \<and> (b = [] \<or> safeChar (hd b)) \<longrightarrow>
          sanitizeFilename s = a @ CHR ''_'' # (if b = [] then [] else sanitizeFilename b)"
  proof (intro allI impI)
    fix a u b
    assume p: "s = a @ u @ b \<and> (\<forall>c \<in> set a. safeChar c)
          \<and> u \<noteq> [] \<and> (\<forall>c \<in> set u. \<not> safeChar c) \<and> (b = [] \<or> safeChar (hd b))"
    then have ne: "s \<noteq> []" by simp
    from p have "replaceRuns s = a @ replaceRuns (u @ b)" by (simp add: replaceRuns_prefix)
    also from p have "replaceRuns (u @ b) = CHR ''_'' # replaceRuns b"
      by (intro replaceRuns_run) simp_all
    finally have "sanitizeFilename s = a @ CHR ''_'' # replaceRuns b"
      using ne by (simp add: sanitizeFilename_replaceRuns)
    then show "sanitizeFilename s = a @ CHR ''_'' # (if b = [] then [] else sanitizeFilename b)"
      by (simp add: sanitizeFilename_replaceRuns)
  qed
  have j: "s \<noteq> [] \<longrightarrow> filter (\<lambda>c. c \<noteq> CHR ''_'') (sanitizeFilename s)
                      = filter (\<lambda>c. safeChar c \<and> c \<noteq> CHR ''_'') s"
    by (simp add: sanitizeFilename_def Let_def replaceRuns_nonempty replaceRuns_keeps)
  from a b c d e f g i j show ?thesis by blast
qed

theorem sanitized_names_safe_witness:
  "''a  b#.png'' = ''a'' @ ''  '' @ ''b#.png'' \<and> safeChar (CHR ''a'') \<and> \<not> safeChar (CHR '' '')
   \<and> safeChar (hd ''b#.png'')
   \<and> sanitizeFilename ''a  b#.png'' = ''a'' @ CHR ''_'' # sanitizeFilename ''b#.png''
   \<and> sanitizeFilename ''a  b#.png'' = ''a_b_.png''
   \<and> safeName ''a  b#.png'' = ''a--b-.png''
   \<and> sanitizeFilename ''foto.png'' = ''foto.png''
   \<and> sanitizeFilename [] = ''file''"
proof -
  have s: "safeChar (CHR ''a'')" "\<not> safeChar (CHR '' '')" "safeChar (hd ''b#.png'')"
    by (simp_all add: safeChar_def)
  from sanitized_names_safe [of "''a  b#.png''"]
  have "\<forall>a u b. ''a  b#.png'' = a @ u @ b \<and> (\<forall>c \<in> set a. safeChar c)
          \<and> u \<noteq> [] \<and> (\<forall>c \<in> set u. \<not> safeChar c) \<and> (b = [] \<or> safeChar (hd b)) \<longrightarrow>
          sanitizeFilename ''a  b#.png'' = a @ CHR ''_'' # (if b = [] then [] else sanitizeFilename b)"
    by (elim conjE)
  from this [rule_format, of "''a''" "''  ''" "''b#.png''"] s
  have "sanitizeFilename ''a  b#.png'' = ''a'' @ CHR ''_'' # sanitizeFilename ''b#.png''"
    by simp
  moreover have "sanitizeFilename ''b#.png'' = ''b_.png''" "safeName ''a  b#.png'' = ''a--b-.png''"
    "sanitizeFilename ''foto.png'' = ''foto.png''" "sanitizeFilename [] = ''file''"
    by (simp_all add: sanitizeFilename_def safeName_def safeChar_def)
  ultimately show ?thesis using s by simp
qed

subsection \<open>The normalizer\<close>

lemma DEFAULT_nonempty: "DEFAULT_WHATS_MESSAGE \<noteq> []"
  by (simp add: DEFAULT_WHATS_MESSAGE_def)

lemma map_of_update:
  "map_of (AList.update k v al) k' = (if k' = k then Some v else map_of al k')"
  by (simp add: update_conv')

lemma normalizeItem_media:
  "map_of (normalizeItem item) ''media'' =
     (if \<not> isArray (map_of item ''media'') \<or> elems (map_of item ''media'') = []
      then (if truthy (map_of item ''url'') then Some (legacyMedia item) else Some (JArr []))
      else map_of item ''media'')"
  by (simp add: normalizeItem_def Let_def map_of_update)

lemma normalizeItem_url: "map_of (normalizeItem item) ''url'' = map_of item ''url''"
  by (simp add: normalizeItem_def Let_def map_of_update)

lemma normalizeItem_whatsappMessage:
  "map_of (normalizeItem item) ''whatsappMessage'' =
     (if \<not> truthy (map_of item ''whatsappMessage'') \<or> \<not> isString (map_of item ''whatsappMessage'')
      then Some (JStr DEFAULT_WHATS_MESSAGE) else map_of item ''whatsappMessage'')"
  by (auto simp: normalizeItem_def Let_def map_of_update)

lemma normalizeItem_fixed:
  assumes "isArray (map_of item ''media'')"
    and "elems (map_of item ''media'') = [] \<Longrightarrow> \<not> truthy (map_of item ''url'')"
    and "truthy (map_of item ''whatsappMessage'')" and "isString (map_of item ''whatsappMessage'')"
  shows "normalizeItem item = item"
proof (cases "elems (map_of item ''media'') = []")
  case True
  with assms(1) have "map_of item ''media'' = Some (JArr [])"
    by (cases "map_of item ''media''" rule: isArray.cases) auto
  then have "AList.update ''media'' (JArr []) item = item" by (rule update_triv)
  with True assms show ?thesis by (simp add: normalizeItem_def Let_def)
next
  case False
  with assms show ?thesis by (simp add: normalizeItem_def Let_def)
qed

lemma normalizeItem_isArray: "isArray (map_of (normalizeItem item) ''media'')"
  by (simp add: normalizeItem_media legacyMedia_def)

text \<open>
  Claim C6. \<^verbatim>\<open>normalizeItem\<close> is idempotent: for every raw item record, normalizing the
  normalized record gives the normalized record again.
\<close>

theorem normalizeItem_idempotent: "normalizeItem (normalizeItem item) = normalizeItem item"
proof (rule normalizeItem_fixed)
  show "isArray (map_of (normalizeItem item) ''media'')"
    by (rule normalizeItem_isArray)
  show "\<not> truthy (map_of (normalizeItem item) ''url'')"
    if "elems (map_of (normalizeItem item) ''media'') = []"
    using that
    by (simp add: normalizeItem_media normalizeItem_url legacyMedia_def split: if_splits)
  show "truthy (map_of (normalizeItem item) ''whatsappMessage'')"
    by (simp add: normalizeItem_whatsappMessage DEFAULT_nonempty)
  show "isString (map_of (normalizeItem item) ''whatsappMessage'')"
    by (simp add: normalizeItem_whatsappMessage)
qed

theorem normalizeItem_idempotent_witness:
  "normalizeItem (normalizeItem [(''id'', JStr ''a''), (''url'', JStr ''casa.jpg'')])
     = [(''id'', JStr ''a''), (''url'', JStr ''casa.jpg''),
        (''media'', JArr [JObj [(''type'', JStr ''image''), (''url'', JStr ''casa.jpg'')]]),
        (''whatsappMessage'', JStr DEFAULT_WHATS_MESSAGE)]"
  using normalizeItem_idempotent [of "[(''id'', JStr ''a''), (''url'', JStr ''casa.jpg'')]"]
  by (simp add: normalizeItem_def legacyMedia_def Let_def)

text \<open>
  Claim C10. For every input record, the record \<^verbatim>\<open>normalizeItem\<close> returns has a
  \<^verbatim>\<open>media\<close> property that is an array (possibly empty) and a \<^verbatim>\<open>whatsappMessage\<close>
  property that is a non-empty string; when the \<^verbatim>\<open>whatsappMessage\<close> of the input is
  missing or is no string, it is the fixed default message. (An empty string is replaced by
  the default too; a non-empty string is kept.)
\<close>

theorem normalizeItem_fields:
  "isArray (map_of (normalizeItem item) ''media'')
   \<and> (\<exists>s. map_of (normalizeItem item) ''whatsappMessage'' = Some (JStr s) \<and> s \<noteq> [])
   \<and> (\<not> isString (map_of item ''whatsappMessage'')
        \<longrightarrow> map_of (normalizeItem item) ''whatsappMessage'' = Some (JStr DEFAULT_WHATS_MESSAGE))
   \<and> (\<forall>s. map_of item ''whatsappMessage'' = Some (JStr s) \<longrightarrow>
          map_of (normalizeItem item) ''whatsappMessage''
            = Some (JStr (if s = [] then DEFAULT_WHATS_MESSAGE else s)))"
proof -
  have a: "isArray (map_of (normalizeItem item) ''media'')"
    by (rule normalizeItem_isArray)
  have b: "\<exists>s. map_of (normalizeItem item) ''whatsappMessage'' = Some (JStr s) \<and> s \<noteq> []"
  proof (cases "map_of item ''whatsappMessage''")
    case None
    then show ?thesis by (simp add: normalizeItem_whatsappMessage DEFAULT_nonempty)
  next
    case (Some v)
    then show ?thesis
      by (cases v) (simp_all add: normalizeItem_whatsappMessage DEFAULT_nonempty)
  qed
  have c: "\<not> isString (map_of item ''whatsappMessage'')
        \<longrightarrow> map_of (normalizeItem item) ''whatsappMessage'' = Some (JStr DEFAULT_WHATS_MESSAGE)"
    by (simp add: normalizeItem_whatsappMessage)
  have d: "\<forall>s. map_of item ''whatsappMessage'' = Some (JStr s) \<longrightarrow>
          map_of (normalizeItem item) ''whatsappMessage''
            = Some (JStr (if s = [] then DEFAULT_WHATS_MESSAGE else s))"
    by (simp add: normalizeItem_whatsappMessage)
  from a b c d show ?thesis by blast
qed

theorem normalizeItem_fields_witness:
  "\<not> isString (map_of [(''id'', JStr ''a''), (''url'', JStr ''casa.jpg''), (''whatsappMessage'', JNum 5)]
       ''whatsappMessage'')
   \<and> map_of (normalizeItem [(''id'', JStr ''a''), (''url'', JStr ''casa.jpg''), (''whatsappMessage'', JNum 5)])
       ''whatsappMessage'' = Some (JStr DEFAULT_WHATS_MESSAGE)
   \<and> map_of (normalizeItem [(''id'', JStr ''a''), (''url'', JStr ''casa.jpg''), (''whatsappMessage'', JNum 5)])
       ''media'' = Some (JArr [JObj [(''type'', JStr ''image''), (''url'', JStr ''casa.jpg'')]])"
  using normalizeItem_fields
    [of "[(''id'', JStr ''a''), (''url'', JStr ''casa.jpg''), (''whatsappMessage'', JNum 5)]"]
  by (simp add: normalizeItem_media legacyMedia_def)

subsection \<open>The parsers and the stores\<close>

lemma status_simps [simp]:
  "status serverError = 500" "status tooLarge413 = 413" "status missingId = 400"
  "status (jsonResponse n d) = n" "status notFound = 404" "status uploadError = 500"
  "status (multerError msg) = 400"
  by (simp_all add: serverError_def tooLarge413_def missingId_def jsonResponse_def notFound_def
      uploadError_def multerError_def)

lemma overLimit_more: "limit < n \<Longrightarrow> overLimit atLimit limit n"
  by (simp add: overLimit_def)

lemma overLimit_less: "n < limit \<Longrightarrow> \<not> overLimit atLimit limit n"
  by (simp add: overLimit_def)

lemma not_overLimit: "\<not> overLimit atLimit limit n \<Longrightarrow> n \<le> limit"
  by (simp add: overLimit_def)

lemma parseParts_files:
  "fst (snd (parseParts a ps flds files t)) = files @ map pushed (fileUploads ps)"
  by (induction a ps flds files t rule: parseParts.induct) simp_all

lemma parseParts_tooLarge:
  "snd (snd (parseParts a ps flds files t)) \<longleftrightarrow>
     t \<or> (\<exists>u \<in> set (fileUploads ps). overLimit a MAX_FILE_SIZE (nbytes u))"
  by (induction a ps flds files t rule: parseParts.induct) auto

lemma parseMultipart_Inr:
  "parseMultipart env ps = Inr (flds, files) \<Longrightarrow>
     files = map pushed (fileUploads ps) \<and> (\<forall>u \<in> set (fileUploads ps). nbytes u \<le> MAX_FILE_SIZE)"
  using parseParts_files [of "busboyFiresAtLimit env" ps "[]" "[]" False]
    parseParts_tooLarge [of "busboyFiresAtLimit env" ps "[]" "[]" False]
  by (auto simp: parseMultipart_def dest: not_overLimit split: prod.splits if_splits)

lemma parseMultipart_tooLarge:
  "\<exists>u \<in> set (fileUploads ps). nbytes u > MAX_FILE_SIZE \<Longrightarrow> parseMultipart env ps = Inl FILE_TOO_LARGE"
  using parseParts_tooLarge [of "busboyFiresAtLimit env" ps "[]" "[]" False]
  by (auto simp: parseMultipart_def overLimit_def split: prod.splits if_splits)

lemma storeFiles_eq:
  "storeFiles env itemId i files store =
     (map (\<lambda>(k, f). blobRef (storageKey env itemId k f) f) (enumerate i files),
      store \<union> set (map (\<lambda>(k, f). storageKey env itemId k f) (enumerate i files)))"
  by (induction files arbitrary: i store) (auto simp: Let_def)

lemma storeFiles_supabase_Inr:
  "storeFiles_supabase env itemId i files store = (Inr ms, store') \<Longrightarrow>
     ms = map (\<lambda>(k, f). pathRef (storageKey env itemId k f) f) (enumerate i files)
     \<and> store' = store \<union> set (map (\<lambda>(k, f). storageKey env itemId k f) (enumerate i files))"
proof (induction files arbitrary: i store ms)
  case Nil
  then show ?case by simp
next
  case (Cons f fs)
  let ?p = "storageKey env itemId i f"
  from Cons.prems obtain ms' where
    rec: "storeFiles_supabase env itemId (Suc i) fs (insert ?p store) = (Inr ms', store')"
    and ms: "ms = pathRef ?p f # ms'"
    by (auto simp: Let_def split: if_splits prod.splits sum.splits)
  from Cons.IH [OF rec] ms show ?case by auto
qed

lemma blobRef_type: "getp (blobRef k f) ''type'' = Inr (Some (JStr (mediaType (pf_contentType f))))"
  by (simp add: blobRef_def)

lemma pathRef_type: "getp (pathRef k f) ''type'' = Inr (Some (JStr (mediaType (pf_contentType f))))"
  by (simp add: pathRef_def)

lemma fileMedia_type: "getp (fileMedia f) ''type'' = Inr (Some (JStr (mediaType (mf_mimetype f))))"
  by (simp add: fileMedia_def mediaType_def Let_def)

lemma multerArray_Inr:
  "multerArray env i us = Inr files \<Longrightarrow>
     files = map (\<lambda>(k, u). \<lparr>mf_mimetype = mimetype u, mf_filename = diskName env k u\<rparr>)
               (enumerate i (namedParts us))
     \<and> (\<forall>u \<in> set (namedParts us). fieldname u = ''files'' \<and> nbytes u \<le> LOCAL_FILE_SIZE)"
proof (induction us arbitrary: i files)
  case Nil
  then show ?case by (simp add: namedParts_def)
next
  case (Cons u us)
  show ?case
  proof (cases "originalname u = []")
    case True
    with Cons.prems have "multerArray env i us = Inr files" by simp
    from Cons.IH [OF this] True show ?thesis by (simp add: namedParts_def)
  next
    case False
    with Cons.prems obtain rest where
      r: "multerArray env (Suc i) us = Inr rest"
      and f: "files = \<lparr>mf_mimetype = mimetype u, mf_filename = diskName env i u\<rparr> # rest"
      and c: "fieldname u = ''files''" "\<not> overLimit (multerFiresAtLimit env) LOCAL_FILE_SIZE (nbytes u)"
      by (auto split: if_splits sum.splits)
    from Cons.IH [OF r] False f c not_overLimit [OF c(2)] show ?thesis
      by (simp add: namedParts_def)
  qed
qed

lemma multerArray_tooLarge:
  "\<exists>u \<in> set (namedParts us). nbytes u > LOCAL_FILE_SIZE \<Longrightarrow> \<exists>msg. multerArray env i us = Inl msg"
proof (induction us arbitrary: i)
  case Nil
  then show ?case by (simp add: namedParts_def)
next
  case (Cons u us)
  show ?case
  proof (cases "originalname u = []")
    case True
    with Cons.prems have "\<exists>u \<in> set (namedParts us). nbytes u > LOCAL_FILE_SIZE"
      by (simp add: namedParts_def)
    from Cons.IH [OF this, of i] True show ?thesis by simp
  next
    case False
    show ?thesis
    proof (cases "fieldname u \<noteq> ''files''
        \<or> overLimit (multerFiresAtLimit env) LOCAL_FILE_SIZE (nbytes u)")
      case True
      with False show ?thesis by auto
    next
      case no: False
      then have "\<not> nbytes u > LOCAL_FILE_SIZE" using overLimit_more by blast
      with Cons.prems False have "\<exists>u \<in> set (namedParts us). nbytes u > LOCAL_FILE_SIZE"
        by (auto simp: namedParts_def)
      from Cons.IH [OF this, of "Suc i"] obtain msg where "multerArray env (Suc i) us = Inl msg" ..
      with False no show ?thesis by simp
    qed
  qed
qed

lemma multerArray_named:
  assumes "\<forall>u \<in> set (namedParts us). fieldname u = ''files'' \<and> nbytes u < LOCAL_FILE_SIZE"
  shows "multerArray env i us =
     Inr (map (\<lambda>(k, u). \<lparr>mf_mimetype = mimetype u, mf_filename = diskName env k u\<rparr>)
            (enumerate i (namedParts us)))"
  using assms
proof (induction us arbitrary: i)
  case Nil
  then show ?case by (simp add: namedParts_def)
next
  case (Cons u us)
  from Cons.prems have rest: "\<forall>u \<in> set (namedParts us). fieldname u = ''files'' \<and> nbytes u < LOCAL_FILE_SIZE"
    by (simp add: namedParts_def)
  show ?case
  proof (cases "originalname u = []")
    case True
    with Cons.IH [OF rest, of i] show ?thesis by (simp add: namedParts_def)
  next
    case False
    with Cons.prems have "fieldname u = ''files''" "nbytes u < LOCAL_FILE_SIZE"
      by (simp_all add: namedParts_def)
    with False Cons.IH [OF rest, of "Suc i"] show ?thesis
      by (simp add: namedParts_def overLimit_less)
  qed
qed

lemma isArrayE: "isArray fm \<Longrightarrow> (\<And>xs. fm = Some (JArr xs) \<Longrightarrow> P) \<Longrightarrow> P"
  by (cases fm rule: isArray.cases) auto

lemma mediaType_pushed: "mediaType (pf_contentType (pushed u)) = mediaType (mimetype u)"
  by (simp add: pushed_def mediaType_def)

subsection \<open>Creating an item\<close>

lemma post_items_200:
  assumes "status (fst (post_items env req s)) = 200"
  shows "\<exists>files created.
     multerArray env 0 (fileParts req) = Inr files \<and> files \<noteq> []
     \<and> dataFile (snd (post_items env req s)) = dataFile s @ [created]
     \<and> uploadsDir (snd (post_items env req s)) = uploadsDir s \<union> set (map mf_filename files)
     \<and> map_of created ''media'' = Some (JArr (map fileMedia files))
     \<and> toItemResponse created = Inr (payload (fst (post_items env req s)))"
  using assms unfolding post_items_def Let_def
  by (auto split: sum.splits if_splits)

lemma netlify_items_seeded:
  "seedIfEmpty env (items s) = (None, rows) \<Longrightarrow>
     netlify_items env req s =
       (case req_method req of
          GET \<Rightarrow> netlify_get env (extractId (pathname req)) (s\<lparr>items := rows\<rparr>)
        | POST \<Rightarrow> netlify_post env (content req) (s\<lparr>items := rows\<rparr>)
        | PUT \<Rightarrow> netlify_put env (extractId (pathname req)) (content req) (s\<lparr>items := rows\<rparr>)
        | DELETE \<Rightarrow> netlify_delete (extractId (pathname req)) (s\<lparr>items := rows\<rparr>)
        | OTHER \<Rightarrow> (jsonResponse 405 (JObj [(''error'', JStr ''Method not allowed.'')]),
                     s\<lparr>items := rows\<rparr>))"
  by (simp add: netlify_items_def Let_def)

lemma netlify_items_unseeded:
  "fst (seedIfEmpty env (items s)) \<noteq> None \<Longrightarrow> status (fst (netlify_items env req s)) = 500"
  by (cases "seedIfEmpty env (items s)") (auto simp: netlify_items_def)

lemma seedIfEmpty_nonempty: "rows \<noteq> [] \<Longrightarrow> seedIfEmpty env rows = (None, rows)"
  by (simp add: seedIfEmpty_def)

lemma ensureSeed_nonempty: "rows \<noteq> [] \<Longrightarrow> ensureSeed env rows = rows"
  by (simp add: ensureSeed_def)

lemma netlify_post_201:
  assumes "status (fst (netlify_post env c s)) = 201"
  shows "\<exists>flds files title desc msg.
     readBody env c = Inr (flds, files)
     \<and> textField env flds ''title'' = Inr title \<and> title \<noteq> []
     \<and> textField env flds ''desc'' = Inr desc \<and> desc \<noteq> []
     \<and> textField env flds ''whatsappMessage'' = Inr msg
     \<and> itemUUID env \<notin> set (map row_id (items s))
     \<and> (files = [] \<longrightarrow> (\<exists>xs. getp flds ''media'' = Inr (Some (JArr xs)) \<and> xs \<noteq> []))"
  using assms unfolding netlify_post_def Let_def
  by (auto split: sum.splits failure.splits prod.splits if_splits elim: isArrayE)

lemma netlify_post_files:
  assumes "readBody env c = Inr (flds, files)"
    and "textField env flds ''title'' = Inr title" and "title \<noteq> []"
    and "textField env flds ''desc'' = Inr desc" and "desc \<noteq> []"
    and "textField env flds ''whatsappMessage'' = Inr msg"
    and "files \<noteq> []"
    and "itemUUID env \<notin> set (map row_id (items s))"
  shows "\<exists>media. storeFiles env (itemUUID env) 0 files (blobs s) = (media, blobs (snd (netlify_post env c s)))
     \<and> items (snd (netlify_post env c s)) = items s @
           [\<lparr>row_id = itemUUID env, col_title = title, col_description = desc,
             col_whatsapp_message = (if msg \<noteq> [] then msg else DEFAULT_WHATS_MESSAGE),
             col_media = JArr media\<rparr>]
     \<and> (case withMediaUrls env (JArr media) of
           Inl e \<Rightarrow> fst (netlify_post env c s) = serverError
         | Inr ms \<Rightarrow> fst (netlify_post env c s) = jsonResponse 201 (itemJson (itemUUID env) title desc
             (if msg \<noteq> [] then msg else DEFAULT_WHATS_MESSAGE) ms))"
  using assms unfolding netlify_post_def Let_def
  by (cases files) (auto simp: Let_def split: prod.splits sum.splits)

lemma supabase_post_201:
  assumes "status (fst (supabase_post env c s)) = 201"
  shows "\<exists>flds files title desc msg.
     readBody env c = Inr (flds, files)
     \<and> textField env flds ''title'' = Inr title \<and> title \<noteq> []
     \<and> textField env flds ''desc'' = Inr desc \<and> desc \<noteq> []
     \<and> textField env flds ''whatsappMessage'' = Inr msg
     \<and> (files \<noteq> [] \<longrightarrow> (\<exists>ms. fst (storeFiles_supabase env (itemUUID env) 0 files (blobs s)) = Inr ms))
     \<and> (files = [] \<longrightarrow> (\<exists>xs. getp flds ''media'' = Inr (Some (JArr xs)) \<and> xs \<noteq> []))"
  using assms unfolding supabase_post_def Let_def
  by (auto split: sum.splits failure.splits prod.splits if_splits elim: isArrayE)

lemma supabase_post_files:
  assumes "readBody env c = Inr (flds, files)"
    and "textField env flds ''title'' = Inr title" and "title \<noteq> []"
    and "textField env flds ''desc'' = Inr desc" and "desc \<noteq> []"
    and "textField env flds ''whatsappMessage'' = Inr msg"
    and "files \<noteq> []"
    and "storeFiles_supabase env (itemUUID env) 0 files (blobs s) = (Inr media, store)"
  shows "blobs (snd (supabase_post env c s)) = store
     \<and> items (snd (supabase_post env c s)) = items s @
           [\<lparr>row_id = dbId env (length (items s)), col_title = title, col_description = desc,
             col_whatsapp_message = (if msg \<noteq> [] then msg else DEFAULT_WHATS_MESSAGE),
             col_media = JArr media\<rparr>]
     \<and> (case withPublicUrls env (JArr media) of
           Inl e \<Rightarrow> fst (supabase_post env c s) = serverError
         | Inr ms \<Rightarrow> fst (supabase_post env c s) =
             jsonResponse 201 (itemJson (dbId env (length (items s))) title desc
               (if msg \<noteq> [] then msg else DEFAULT_WHATS_MESSAGE) ms))"
proof -
  from assms(7,8) have "media \<noteq> []"
    by (cases files) (auto simp: Let_def split: if_splits prod.splits sum.splits)
  with assms show ?thesis
    unfolding supabase_post_def Let_def
    by (auto simp: Let_def split: prod.splits sum.splits)
qed

lemma nth_map_enumerate:
  "i < length xs \<Longrightarrow> map g (enumerate n xs) ! i = g (n + i, xs ! i)"
  by (simp add: nth_enumerate_eq)

lemma fileMedia_filename: "getp (fileMedia f) ''filename'' = Inr (Some (JStr (mf_filename f)))"
  by (simp add: fileMedia_def Let_def)

lemma blobRef_key: "getp (blobRef k f) ''key'' = Inr (Some (JStr k))"
  by (simp add: blobRef_def)

lemma pathRef_path: "getp (pathRef k f) ''path'' = Inr (Some (JStr k))"
  by (simp add: pathRef_def)

lemma sanitizeFilename_file: "sanitizeFilename ''file'' = ''file''"
  by (simp add: sanitizeFilename_def safeChar_def)

lemma storageKey_pushed:
  "storageKey env itemId i (pushed u) =
     itemId @ ''/'' @ fileStamp env i @ ''-'' @ sanitizeFilename (originalname u)"
  by (simp add: storageKey_def pushed_def sanitizeFilename_file sanitizeFilename_empty)

lemma post_items_200_media:
  assumes "status (fst (post_items env req s)) = 200"
  shows "\<exists>created ms.
     dataFile (snd (post_items env req s)) = dataFile s @ [created]
     \<and> map_of created ''media'' = Some (JArr ms)
     \<and> length ms = length (namedParts (fileParts req)) \<and> 1 \<le> length ms
     \<and> (\<forall>i < length ms.
           getp (ms ! i) ''type''
             = Inr (Some (JStr (mediaType (mimetype (namedParts (fileParts req) ! i)))))
           \<and> getp (ms ! i) ''filename''
             = Inr (Some (JStr (diskName env i (namedParts (fileParts req) ! i)))))"
proof -
  from post_items_200 [OF assms] obtain files created where
    m: "multerArray env 0 (fileParts req) = Inr files" and ne: "files \<noteq> []"
    and d: "dataFile (snd (post_items env req s)) = dataFile s @ [created]"
    and c: "map_of created ''media'' = Some (JArr (map fileMedia files))"
    by blast
  let ?us = "namedParts (fileParts req)"
  let ?g = "\<lambda>(k, u). \<lparr>mf_mimetype = mimetype u, mf_filename = diskName env k u\<rparr>"
  from multerArray_Inr [OF m] have f: "files = map ?g (enumerate 0 ?us)" by simp
  then have len: "length files = length ?us" by simp
  have "getp (map fileMedia files ! i) ''type'' = Inr (Some (JStr (mediaType (mimetype (?us ! i)))))
      \<and> getp (map fileMedia files ! i) ''filename'' = Inr (Some (JStr (diskName env i (?us ! i))))"
    if "i < length ?us" for i
  proof -
    from that f have "files ! i = ?g (i, ?us ! i)"
      using nth_map_enumerate [of i ?us ?g 0] by simp
    with that len show ?thesis by (simp add: fileMedia_type fileMedia_filename)
  qed
  with d c len ne show ?thesis
    by (intro exI [of _ created] exI [of _ "map fileMedia files"]) (auto simp: Suc_le_eq)
qed

lemma netlify_post_201_media:
  assumes "status (fst (netlify_post env (Multipart ps) s)) = 201" and "fileUploads ps \<noteq> []"
  shows "\<exists>created ms.
     items (snd (netlify_post env (Multipart ps) s)) = items s @ [created]
     \<and> col_media created = JArr ms
     \<and> length ms = length (fileUploads ps)
     \<and> (\<forall>i < length ms.
           getp (ms ! i) ''type'' = Inr (Some (JStr (mediaType (mimetype (fileUploads ps ! i)))))
           \<and> getp (ms ! i) ''key''
               = Inr (Some (JStr (itemUUID env @ ''/'' @ fileStamp env i @ ''-''
                                    @ sanitizeFilename (originalname (fileUploads ps ! i))))))"
proof -
  from netlify_post_201 [OF assms(1)] obtain flds files title desc msg where
    b: "readBody env (Multipart ps) = Inr (flds, files)"
    and t: "textField env flds ''title'' = Inr title" "title \<noteq> []"
    and d: "textField env flds ''desc'' = Inr desc" "desc \<noteq> []"
    and m: "textField env flds ''whatsappMessage'' = Inr msg"
    and fresh: "itemUUID env \<notin> set (map row_id (items s))"
    by blast
  from b have "parseMultipart env ps = Inr (props flds, files)"
    by (auto simp: readBody_def split: sum.splits)
  from parseMultipart_Inr [OF this] have f: "files = map pushed (fileUploads ps)" by simp
  with assms(2) have ne: "files \<noteq> []" by simp
  from netlify_post_files [OF b t d m ne fresh] obtain media where
    st: "storeFiles env (itemUUID env) 0 files (blobs s) = (media, blobs (snd (netlify_post env (Multipart ps) s)))"
    and it: "items (snd (netlify_post env (Multipart ps) s)) = items s @
           [\<lparr>row_id = itemUUID env, col_title = title, col_description = desc,
             col_whatsapp_message = (if msg \<noteq> [] then msg else DEFAULT_WHATS_MESSAGE),
             col_media = JArr media\<rparr>]"
    by blast
  let ?g = "\<lambda>(k, f). blobRef (storageKey env (itemUUID env) k f) f"
  from st have me: "media = map ?g (enumerate 0 files)" by (simp add: storeFiles_eq)
  have "getp (media ! i) ''type'' = Inr (Some (JStr (mediaType (mimetype (fileUploads ps ! i)))))
      \<and> getp (media ! i) ''key''
               = Inr (Some (JStr (itemUUID env @ ''/'' @ fileStamp env i @ ''-''
                                    @ sanitizeFilename (originalname (fileUploads ps ! i)))))"
    if "i < length (fileUploads ps)" for i
  proof -
    from that f have "i < length files" by simp
    then have "media ! i = ?g (i, files ! i)"
      unfolding me using nth_map_enumerate [of i files ?g 0] by simp
    with that f show ?thesis
      by (simp add: blobRef_type blobRef_key mediaType_pushed storageKey_pushed)
  qed
  with it me f show ?thesis by auto
qed

lemma supabase_post_201_media:
  assumes "status (fst (supabase_post env (Multipart ps) s)) = 201" and "fileUploads ps \<noteq> []"
  shows "\<exists>created ms.
     items (snd (supabase_post env (Multipart ps) s)) = items s @ [created]
     \<and> col_media created = JArr ms
     \<and> length ms = length (fileUploads ps)
     \<and> (\<forall>i < length ms.
           getp (ms ! i) ''type'' = Inr (Some (JStr (mediaType (mimetype (fileUploads ps ! i)))))
           \<and> getp (ms ! i) ''path''
               = Inr (Some (JStr (itemUUID env @ ''/'' @ fileStamp env i @ ''-''
                                    @ sanitizeFilename (originalname (fileUploads ps ! i))))))"
proof -
  from supabase_post_201 [OF assms(1)] obtain flds files title desc msg where
    b: "readBody env (Multipart ps) = Inr (flds, files)"
    and t: "textField env flds ''title'' = Inr title" "title \<noteq> []"
    and d: "textField env flds ''desc'' = Inr desc" "desc \<noteq> []"
    and m: "textField env flds ''whatsappMessage'' = Inr msg"
    and ok: "files \<noteq> [] \<longrightarrow> (\<exists>ms. fst (storeFiles_supabase env (itemUUID env) 0 files (blobs s)) = Inr ms)"
    by blast
  from b have "parseMultipart env ps = Inr (props flds, files)"
    by (auto simp: readBody_def split: sum.splits)
  from parseMultipart_Inr [OF this] have f: "files = map pushed (fileUploads ps)" by simp
  with assms(2) have ne: "files \<noteq> []" by simp
  with ok obtain media store where
    st: "storeFiles_supabase env (itemUUID env) 0 files (blobs s) = (Inr media, store)"
    by (cases "storeFiles_supabase env (itemUUID env) 0 files (blobs s)") auto
  from supabase_post_files [OF b t d m ne st] have
    it: "items (snd (supabase_post env (Multipart ps) s)) = items s @
           [\<lparr>row_id = dbId env (length (items s)), col_title = title, col_description = desc,
             col_whatsapp_message = (if msg \<noteq> [] then msg else DEFAULT_WHATS_MESSAGE),
             col_media = JArr media\<rparr>]"
    by blast
  let ?g = "\<lambda>(k, f). pathRef (storageKey env (itemUUID env) k f) f"
  from storeFiles_supabase_Inr [OF st] have me: "media = map ?g (enumerate 0 files)" by simp
  have "getp (media ! i) ''type'' = Inr (Some (JStr (mediaType (mimetype (fileUploads ps ! i)))))
      \<and> getp (media ! i) ''path''
               = Inr (Some (JStr (itemUUID env @ ''/'' @ fileStamp env i @ ''-''
                                    @ sanitizeFilename (originalname (fileUploads ps ! i)))))"
    if "i < length (fileUploads ps)" for i
  proof -
    from that f have "i < length files" by simp
    then have "media ! i = ?g (i, files ! i)"
      unfolding me using nth_map_enumerate [of i files ?g 0] by simp
    with that f show ?thesis
      by (simp add: pathRef_type pathRef_path mediaType_pushed storageKey_pushed)
  qed
  with it me f show ?thesis by auto
qed

lemma supabase_items_eq:
  "supabase_items env req s =
     (case req_method req of
        GET \<Rightarrow> supabase_get env (extractId (pathname req)) (s\<lparr>items := ensureSeed env (items s)\<rparr>)
      | POST \<Rightarrow> supabase_post env (content req) (s\<lparr>items := ensureSeed env (items s)\<rparr>)
      | PUT \<Rightarrow> supabase_put env (extractId (pathname req)) (content req)
                 (s\<lparr>items := ensureSeed env (items s)\<rparr>)
      | DELETE \<Rightarrow> supabase_delete (extractId (pathname req)) (s\<lparr>items := ensureSeed env (items s)\<rparr>)
      | OTHER \<Rightarrow> (jsonResponse 405 (JObj [(''error'', JStr ''Method not allowed.'')]),
                   s\<lparr>items := ensureSeed env (items s)\<rparr>))"
  by (simp add: supabase_items_def Let_def)

lemma mapE_ok:
  "(\<And>x. x \<in> set xs \<Longrightarrow> \<exists>y. f x = Inr y) \<Longrightarrow> \<exists>ys. mapE f xs = Inr ys \<and> length ys = length xs"
proof (induction xs)
  case Nil
  then show ?case by simp
next
  case (Cons x xs)
  from Cons.prems [of x] obtain y where y: "f x = Inr y" by auto
  from Cons.IH Cons.prems obtain ys where "mapE f xs = Inr ys" "length ys = length xs"
    by (meson list.set_intros(2))
  with y show ?case by simp
qed

lemma mapE_Inr: "mapE f xs = Inr ys \<Longrightarrow> list_all2 (\<lambda>x y. f x = Inr y) xs ys"
proof (induction xs arbitrary: ys)
  case Nil
  then show ?case by simp
next
  case (Cons x xs)
  then show ?case by (auto split: sum.splits)
qed

lemma mapE_same: "(\<And>x. x \<in> set xs \<Longrightarrow> f x = Inr x) \<Longrightarrow> mapE f xs = Inr xs"
  by (induction xs) simp_all

lemma publicMedia_ok: "m \<noteq> JNull \<Longrightarrow> \<exists>r. publicMedia m = Inr r"
  by (cases m) (simp_all add: publicMedia_def)

lemma toItemResponse_ok:
  assumes "JNull \<notin> set (elems (map_of (normalizeItem item) ''media''))"
  shows "\<exists>r. toItemResponse item = Inr r"
proof -
  have "\<exists>ys. mapE publicMedia (elems (map_of (normalizeItem item) ''media'')) = Inr ys
           \<and> length ys = length (elems (map_of (normalizeItem item) ''media''))"
    by (rule mapE_ok) (use assms publicMedia_ok in metis)
  then show ?thesis by (auto simp: toItemResponse_def Let_def)
qed

text \<open>An entry that carries its address is returned as it is; no address is computed.\<close>

lemma resolveUrl_hasUrl: "hasUrl item \<Longrightarrow> resolveUrl k a item = Inr item"
  by (cases "getp item ''url''") (simp_all add: hasUrl_def resolveUrl_def)

lemma getp_not_null: "item \<noteq> JNull \<Longrightarrow> \<exists>v. getp item k = Inr v"
  by (cases item) simp_all

lemma resolveUrl_ok:
  assumes "item \<noteq> JNull"
    and "\<And>v. getp item k = Inr (Some v) \<Longrightarrow> truthy (Some v) \<Longrightarrow> \<exists>u. a v = Inr u"
  shows "\<exists>r. resolveUrl k a item = Inr r"
proof -
  from getp_not_null [OF assms(1)] obtain u where u: "getp item ''url'' = Inr u" by blast
  from getp_not_null [OF assms(1)] obtain kv where kv: "getp item k = Inr kv" by blast
  show ?thesis
  proof (cases "truthy u \<or> \<not> truthy kv")
    case True
    with u kv show ?thesis by (cases kv) (auto simp: resolveUrl_def)
  next
    case False
    then obtain v where v: "kv = Some v" "truthy (Some v)" by (cases kv) auto
    from assms(2) kv v obtain x where "a v = Inr x" by blast
    with False u kv v show ?thesis by (simp add: resolveUrl_def)
  qed
qed

lemma withMediaUrls_ok:
  assumes "JNull \<notin> set xs"
    and "\<And>m v. m \<in> set xs \<Longrightarrow> getp m ''key'' = Inr (Some v) \<Longrightarrow> truthy (Some v)
           \<Longrightarrow> \<exists>u. encodeURIComponent env v = Inr u"
  shows "\<exists>ms. withMediaUrls env (JArr xs) = Inr ms \<and> length ms = length xs"
proof -
  let ?a = "\<lambda>k. case encodeURIComponent env k of
                  Inl e \<Rightarrow> Inl e
                | Inr encoded \<Rightarrow> Inr (''/.netlify/functions/media/'' @ encoded)"
  have "\<exists>ys. mapE (resolveUrl ''key'' ?a) xs = Inr ys \<and> length ys = length xs"
  proof (rule mapE_ok)
    fix x assume x: "x \<in> set xs"
    with assms(1) have "x \<noteq> JNull" by auto
    then show "\<exists>y. resolveUrl ''key'' ?a x = Inr y"
    proof (rule resolveUrl_ok)
      fix v assume "getp x ''key'' = Inr (Some v)" "truthy (Some v)"
      from assms(2) [OF x this] obtain u where "encodeURIComponent env v = Inr u" ..
      then show "\<exists>u. ?a v = Inr u" by simp
    qed
  qed
  then show ?thesis by (simp add: withMediaUrls_def)
qed

lemma withPublicUrls_ok:
  assumes "JNull \<notin> set xs"
    and "\<And>m v. m \<in> set xs \<Longrightarrow> getp m ''path'' = Inr (Some v) \<Longrightarrow> truthy (Some v)
           \<Longrightarrow> \<exists>u. getPublicUrl env v = Inr u"
  shows "\<exists>ms. withPublicUrls env (JArr xs) = Inr ms \<and> length ms = length xs"
proof -
  have "\<exists>ys. mapE (resolveUrl ''path'' (getPublicUrl env)) xs = Inr ys \<and> length ys = length xs"
  proof (rule mapE_ok)
    fix x assume x: "x \<in> set xs"
    with assms(1) have "x \<noteq> JNull" by auto
    then show "\<exists>y. resolveUrl ''path'' (getPublicUrl env) x = Inr y"
      by (rule resolveUrl_ok) (use assms(2) x in blast)
  qed
  then show ?thesis by (simp add: withPublicUrls_def)
qed

lemma withUrls_hasUrl:
  assumes "list_all hasUrl xs"
  shows "withMediaUrls env (JArr xs) = Inr xs" and "withPublicUrls env (JArr xs) = Inr xs"
proof -
  from assms have "\<And>k a x. x \<in> set xs \<Longrightarrow> resolveUrl k a x = Inr x"
    by (simp add: list_all_iff resolveUrl_hasUrl)
  then show "withMediaUrls env (JArr xs) = Inr xs" "withPublicUrls env (JArr xs) = Inr xs"
    by (simp_all add: withMediaUrls_def withPublicUrls_def mapE_same)
qed

lemma fileMedia_not_null: "JNull \<notin> set (map fileMedia files)"
  by (auto simp: fileMedia_def Let_def)

lemma firstProp_fileMedia:
  "files \<noteq> [] \<Longrightarrow> truthy (firstProp (map fileMedia files) ''type'')"
  by (cases files) (auto simp: fileMedia_def Let_def)

lemma post_items_files:
  assumes "multerArray env 0 (fileParts req) = Inr files" and "files \<noteq> []"
    and "trimOf (orElse (map_of (body req) ''title'') (Some (JStr ''Novo imovel''))) = Inr t"
    and "trimOf (orElse (map_of (body req) ''desc'') (Some (JStr ''Mais detalhes no WhatsApp.''))) = Inr d"
    and "trimOf (orElse (map_of (body req) ''whatsappMessage'') (Some (JStr DEFAULT_WHATS_MESSAGE))) = Inr w"
  shows "status (fst (post_items env req s)) = 200"
proof -
  let ?media = "map fileMedia files"
  let ?newItem = "objLit
                  [(''id'', Some (JStr (''item-'' @ itemUnique env))),
                   (''title'', Some (JStr t)),
                   (''desc'', Some (JStr d)),
                   (''whatsappMessage'', Some (JStr w)),
                   (''media'', Some (JArr ?media)),
                   (''type'', Some (jsOr (firstProp ?media ''type'') (JStr ''image''))),
                   (''url'', Some (jsOr (firstProp ?media ''url'') (JStr []))),
                   (''createdAt'', Some (JStr (isoNow env)))]"
  have "map_of ?newItem ''media'' = Some (JArr ?media)" by simp
  with assms(2) have "map_of (normalizeItem ?newItem) ''media'' = Some (JArr ?media)"
    by (simp add: normalizeItem_media)
  then have "JNull \<notin> set (elems (map_of (normalizeItem ?newItem) ''media''))"
    using fileMedia_not_null [of files] by simp
  from toItemResponse_ok [OF this] obtain r where "toItemResponse ?newItem = Inr r" ..
  with assms show ?thesis
    by (simp add: post_items_def Let_def)
qed

lemma blobRef_not_null: "JNull \<notin> set (map (\<lambda>(k, f). blobRef (g k f) f) xs)"
  by (auto simp: blobRef_def)

lemma pathRef_not_null: "JNull \<notin> set (map (\<lambda>(k, f). pathRef (g k f) f) xs)"
  by (auto simp: pathRef_def)

text \<open>
  The references of stored files get their addresses when the platform computes an address
  for every string.
\<close>

lemma withMediaUrls_blobRefs:
  assumes "\<And>k. \<exists>u. encodeURIComponent env (JStr k) = Inr u"
  shows "\<exists>ms. withMediaUrls env (JArr (map (\<lambda>(k, f). blobRef (g k f) f) xs)) = Inr ms"
proof -
  let ?xs = "map (\<lambda>(k, f). blobRef (g k f) f) xs"
  have "\<exists>ms. withMediaUrls env (JArr ?xs) = Inr ms \<and> length ms = length ?xs"
  proof (rule withMediaUrls_ok)
    show "JNull \<notin> set ?xs" by (rule blobRef_not_null)
    fix m v assume m: "m \<in> set ?xs" and v: "getp m ''key'' = Inr (Some v)"
    from m obtain k f where "m = blobRef (g k f) f" by auto
    with v have "v = JStr (g k f)" by (simp add: blobRef_key)
    with assms show "\<exists>u. encodeURIComponent env v = Inr u" by simp
  qed
  then show ?thesis by blast
qed

lemma withPublicUrls_pathRefs:
  assumes "\<And>k. \<exists>u. getPublicUrl env (JStr k) = Inr u"
  shows "\<exists>ms. withPublicUrls env (JArr (map (\<lambda>(k, f). pathRef (g k f) f) xs)) = Inr ms"
proof -
  let ?xs = "map (\<lambda>(k, f). pathRef (g k f) f) xs"
  have "\<exists>ms. withPublicUrls env (JArr ?xs) = Inr ms \<and> length ms = length ?xs"
  proof (rule withPublicUrls_ok)
    show "JNull \<notin> set ?xs" by (rule pathRef_not_null)
    fix m v assume m: "m \<in> set ?xs" and v: "getp m ''path'' = Inr (Some v)"
    from m obtain k f where "m = pathRef (g k f) f" by auto
    with v have "v = JStr (g k f)" by (simp add: pathRef_path)
    with assms show "\<exists>u. getPublicUrl env v = Inr u" by simp
  qed
  then show ?thesis by blast
qed

lemma netlify_post_files_201:
  assumes "readBody env c = Inr (flds, files)"
    and "textField env flds ''title'' = Inr title" and "title \<noteq> []"
    and "textField env flds ''desc'' = Inr desc" and "desc \<noteq> []"
    and "textField env flds ''whatsappMessage'' = Inr msg"
    and "files \<noteq> []"
    and "itemUUID env \<notin> set (map row_id (items s))"
    and "\<And>k. \<exists>u. encodeURIComponent env (JStr k) = Inr u"
  shows "status (fst (netlify_post env c s)) = 201"
proof -
  from netlify_post_files [OF assms(1-8)] obtain media where
    st: "storeFiles env (itemUUID env) 0 files (blobs s) = (media, blobs (snd (netlify_post env c s)))"
    and r: "(case withMediaUrls env (JArr media) of
           Inl e \<Rightarrow> fst (netlify_post env c s) = serverError
         | Inr ms \<Rightarrow> fst (netlify_post env c s) = jsonResponse 201 (itemJson (itemUUID env) title desc
             (if msg \<noteq> [] then msg else DEFAULT_WHATS_MESSAGE) ms))"
    by blast
  from st have "media = map (\<lambda>(k, f). blobRef (storageKey env (itemUUID env) k f) f) (enumerate 0 files)"
    by (simp add: storeFiles_eq)
  with withMediaUrls_blobRefs [of env "storageKey env (itemUUID env)" "enumerate 0 files", OF assms(9)]
  obtain ms where "withMediaUrls env (JArr media) = Inr ms" by auto
  with r show ?thesis by simp
qed

lemma supabase_post_files_201:
  assumes "readBody env c = Inr (flds, files)"
    and "textField env flds ''title'' = Inr title" and "title \<noteq> []"
    and "textField env flds ''desc'' = Inr desc" and "desc \<noteq> []"
    and "textField env flds ''whatsappMessage'' = Inr msg"
    and "files \<noteq> []"
    and "storeFiles_supabase env (itemUUID env) 0 files (blobs s) = (Inr media, store)"
    and "\<And>k. \<exists>u. getPublicUrl env (JStr k) = Inr u"
  shows "status (fst (supabase_post env c s)) = 201"
proof -
  from supabase_post_files [OF assms(1-8)] have
    r: "(case withPublicUrls env (JArr media) of
           Inl e \<Rightarrow> fst (supabase_post env c s) = serverError
         | Inr ms \<Rightarrow> fst (supabase_post env c s) =
             jsonResponse 201 (itemJson (dbId env (length (items s))) title desc
               (if msg \<noteq> [] then msg else DEFAULT_WHATS_MESSAGE) ms))"
    by blast
  from storeFiles_supabase_Inr [OF assms(8)]
  have "media = map (\<lambda>(k, f). pathRef (storageKey env (itemUUID env) k f) f) (enumerate 0 files)"
    by simp
  with withPublicUrls_pathRefs [of env "storageKey env (itemUUID env)" "enumerate 0 files", OF assms(9)]
  obtain ms where "withPublicUrls env (JArr media) = Inr ms" by auto
  with r show ?thesis by simp
qed

subsection \<open>The sample requests\<close>

lemma sample_henv_strings:
  "\<exists>u. encodeURIComponent sample_henv (JStr k) = Inr u" "\<exists>u. getPublicUrl sample_henv (JStr k) = Inr u"
  by (simp_all add: sample_henv_def)

lemma sample_named: "namedParts (fileParts sample_lpost) = [sample_video, sample_upload]"
  by (simp add: namedParts_def sample_lpost_def sample_nameless_def sample_video_def sample_upload_def)

lemma sample_multer:
  "multerArray sample_lenv 0 (fileParts sample_lpost) =
     Inr [\<lparr>mf_mimetype = ''video/mp4'', mf_filename = ''1700000000000-7-tour.mp4''\<rparr>,
          \<lparr>mf_mimetype = ''image/png'', mf_filename = ''1700000000000-77-foto-1.png''\<rparr>]"
proof -
  have "multerArray sample_lenv 0 (fileParts sample_lpost) =
     Inr (map (\<lambda>(k, u). \<lparr>mf_mimetype = mimetype u, mf_filename = diskName sample_lenv k u\<rparr>)
            (enumerate 0 (namedParts (fileParts sample_lpost))))"
    by (rule multerArray_named)
       (simp add: sample_named, simp add: sample_video_def sample_upload_def LOCAL_FILE_SIZE_def)
  also have "\<dots> = Inr [\<lparr>mf_mimetype = ''video/mp4'', mf_filename = ''1700000000000-7-tour.mp4''\<rparr>,
          \<lparr>mf_mimetype = ''image/png'', mf_filename = ''1700000000000-77-foto-1.png''\<rparr>]"
    by (simp add: sample_named)
       (simp add: sample_video_def sample_upload_def sample_lenv_def diskName_def safeName_def
          safeChar_def)
  finally show ?thesis .
qed

lemma sample_uploads: "fileUploads sample_parts = [sample_video, sample_upload]"
  by (simp add: sample_parts_def)

lemma sample_readBody:
  "readBody env (Multipart sample_parts) =
     Inr (JObj [(''title'', JStr ''Casa''), (''desc'', JStr ''Bonita'')],
          [pushed sample_video, pushed sample_upload])"
  by (simp add: readBody_def parseMultipart_def sample_parts_def sample_upload_def sample_video_def
      MAX_FILE_SIZE_def overLimit_def)

lemma trim_Casa: "trim ''Casa'' = ''Casa''" and trim_Bonita: "trim ''Bonita'' = ''Bonita''"
  by (simp_all add: trim_def isSpace_def)

lemma sample_textFields:
  "textField env (JObj [(''title'', JStr ''Casa''), (''desc'', JStr ''Bonita'')]) ''title'' = Inr ''Casa''"
  "textField env (JObj [(''title'', JStr ''Casa''), (''desc'', JStr ''Bonita'')]) ''desc'' = Inr ''Bonita''"
  "textField env (JObj [(''title'', JStr ''Casa''), (''desc'', JStr ''Bonita'')]) ''whatsappMessage'' = Inr []"
  by (simp_all add: textField_def normalizeText_def trim_Casa trim_Bonita)

lemma sample_lpost_200: "status (fst (post_items sample_lenv sample_lpost s)) = 200"
proof (rule post_items_files)
  show "multerArray sample_lenv 0 (fileParts sample_lpost) =
     Inr [\<lparr>mf_mimetype = ''video/mp4'', mf_filename = ''1700000000000-7-tour.mp4''\<rparr>,
          \<lparr>mf_mimetype = ''image/png'', mf_filename = ''1700000000000-77-foto-1.png''\<rparr>]"
    by (rule sample_multer)
  show "[\<lparr>mf_mimetype = ''video/mp4'', mf_filename = ''1700000000000-7-tour.mp4''\<rparr>,
          \<lparr>mf_mimetype = ''image/png'', mf_filename = ''1700000000000-77-foto-1.png''\<rparr>] \<noteq> []"
    by simp
  show "trimOf (orElse (map_of (body sample_lpost) ''title'') (Some (JStr ''Novo imovel''))) = Inr ''Casa''"
    by (simp add: sample_lpost_def orElse_def trim_Casa)
  show "trimOf (orElse (map_of (body sample_lpost) ''desc'') (Some (JStr ''Mais detalhes no WhatsApp.'')))
          = Inr ''Bonita''"
    by (simp add: sample_lpost_def orElse_def trim_Bonita)
  show "trimOf (orElse (map_of (body sample_lpost) ''whatsappMessage'') (Some (JStr DEFAULT_WHATS_MESSAGE)))
          = Inr (trim DEFAULT_WHATS_MESSAGE)"
    by (simp add: sample_lpost_def orElse_def DEFAULT_nonempty)
qed

lemma sample_seeded: "seedIfEmpty env (items sample_hstate) = (None, items sample_hstate)"
  by (rule seedIfEmpty_nonempty) (simp add: sample_hstate_def)

lemma sample_hstate_seed [simp]: "sample_hstate\<lparr>items := items sample_hstate\<rparr> = sample_hstate"
  by simp

lemma sample_post_netlify:
  "netlify_items env sample_post sample_hstate = netlify_post env (Multipart sample_parts) sample_hstate"
  by (simp add: netlify_items_seeded [OF sample_seeded] sample_post_def)

lemma sample_post_supabase:
  "supabase_items env sample_post sample_hstate = supabase_post env (Multipart sample_parts) sample_hstate"
  by (simp add: supabase_items_eq sample_post_def ensureSeed_def sample_hstate_def)

lemma sample_post_netlify_201: "status (fst (netlify_items sample_henv sample_post sample_hstate)) = 201"
  unfolding sample_post_netlify
  by (rule netlify_post_files_201 [OF sample_readBody sample_textFields(1) _ sample_textFields(2) _
        sample_textFields(3)])
     (simp_all add: sample_henv_strings, simp_all add: sample_henv_def sample_hstate_def sample_row_def)

lemma sample_keys:
  "storageKey sample_henv (itemUUID sample_henv) 0 (pushed sample_video) = ''uuid-1/1700000000000-u-tour.mp4''"
  "storageKey sample_henv (itemUUID sample_henv) (Suc 0) (pushed sample_upload)
     = ''uuid-1/1700000000000-uu-foto_1.png''"
  by (simp_all add: storageKey_def sample_henv_def pushed_def sample_upload_def sample_video_def
      sanitizeFilename_def safeChar_def)

lemma sample_storeFiles_supabase:
  "storeFiles_supabase sample_henv (itemUUID sample_henv) 0 [pushed sample_video, pushed sample_upload]
       (blobs sample_hstate) =
     (Inr [pathRef ''uuid-1/1700000000000-u-tour.mp4'' (pushed sample_video),
           pathRef ''uuid-1/1700000000000-uu-foto_1.png'' (pushed sample_upload)],
      insert ''uuid-1/1700000000000-uu-foto_1.png''
        (insert ''uuid-1/1700000000000-u-tour.mp4'' (blobs sample_hstate)))"
  by (simp add: sample_keys Let_def sample_hstate_def)

lemma sample_post_supabase_201: "status (fst (supabase_items sample_henv sample_post sample_hstate)) = 201"
  unfolding sample_post_supabase
  by (rule supabase_post_files_201 [OF sample_readBody sample_textFields(1) _ sample_textFields(2) _
        sample_textFields(3) _ sample_storeFiles_supabase])
     (simp_all add: sample_henv_strings)

lemma two_elements: "length ms = 2 \<Longrightarrow> ms = [ms ! 0, ms ! 1]"
proof -
  assume "length ms = 2"
  then obtain a b where "ms = [a, b]"
    by (cases ms; cases "tl ms") auto
  then show ?thesis by simp
qed

text \<open>
  Claim C5. Every \<^verbatim>\<open>POST\<close> that creates an item from \<open>N \<ge> 1\<close> uploaded files gives the
  item exactly \<open>N\<close> media references, in the order of the files: the \<open>i\<close>-th reference has
  the storage name made from the name of the \<open>i\<close>-th file, and its type is \<^verbatim>\<open>video\<close>
  when the content type of that file starts with \<^verbatim>\<open>video/\<close> and \<^verbatim>\<open>image\<close>
  otherwise. On the local server the uploaded files are the file parts that carry a file
  name, the success status is 200 and the item is appended to the data file; in the hosted
  functions the uploaded files are the file parts of the body, the success status is 201 and
  the row is appended to the table as it is after seeding.
\<close>

theorem post_files_media:
  "(status (fst (post_items lenv lreq ls)) = 200 \<longrightarrow>
      (\<exists>created ms.
         dataFile (snd (post_items lenv lreq ls)) = dataFile ls @ [created]
         \<and> map_of created ''media'' = Some (JArr ms)
         \<and> length ms = length (namedParts (fileParts lreq)) \<and> 1 \<le> length ms
         \<and> (\<forall>i < length ms.
               getp (ms ! i) ''type''
                 = Inr (Some (JStr (if startsWith (mimetype (namedParts (fileParts lreq) ! i)) ''video/''
                                    then ''video'' else ''image'')))
               \<and> getp (ms ! i) ''filename''
                 = Inr (Some (JStr (fileUnique lenv i @ ''-''
                                      @ safeName (originalname (namedParts (fileParts lreq) ! i))))))))
   \<and> (req_method req = POST \<and> content req = Multipart ps \<and> fileUploads ps \<noteq> []
        \<and> status (fst (netlify_items env req s)) = 201 \<longrightarrow>
      (\<exists>created ms.
         items (snd (netlify_items env req s)) = snd (seedIfEmpty env (items s)) @ [created]
         \<and> col_media created = JArr ms
         \<and> length ms = length (fileUploads ps)
         \<and> (\<forall>i < length ms.
               getp (ms ! i) ''type''
                 = Inr (Some (JStr (if startsWith (mimetype (fileUploads ps ! i)) ''video/''
                                    then ''video'' else ''image'')))
               \<and> getp (ms ! i) ''key''
                 = Inr (Some (JStr (itemUUID env @ ''/'' @ fileStamp env i @ ''-''
                                      @ sanitizeFilename (originalname (fileUploads ps ! i))))))))
   \<and> (req_method req = POST \<and> content req = Multipart ps \<and> fileUploads ps \<noteq> []
        \<and> status (fst (supabase_items env req s)) = 201 \<longrightarrow>
      (\<exists>created ms.
         items (snd (supabase_items env req s)) = ensureSeed env (items s) @ [created]
         \<and> col_media created = JArr ms
         \<and> length ms = length (fileUploads ps)
         \<and> (\<forall>i < length ms.
               getp (ms ! i) ''type''
                 = Inr (Some (JStr (if startsWith (mimetype (fileUploads ps ! i)) ''video/''
                                    then ''video'' else ''image'')))
               \<and> getp (ms ! i) ''path''
                 = Inr (Some (JStr (itemUUID env @ ''/'' @ fileStamp env i @ ''-''
                                      @ sanitizeFilename (originalname (fileUploads ps ! i))))))))"
proof (intro conjI impI)
  assume "status (fst (post_items lenv lreq ls)) = 200"
  from post_items_200_media [OF this]
  show "\<exists>created ms.
         dataFile (snd (post_items lenv lreq ls)) = dataFile ls @ [created]
         \<and> map_of created ''media'' = Some (JArr ms)
         \<and> length ms = length (namedParts (fileParts lreq)) \<and> 1 \<le> length ms
         \<and> (\<forall>i < length ms.
               getp (ms ! i) ''type''
                 = Inr (Some (JStr (if startsWith (mimetype (namedParts (fileParts lreq) ! i)) ''video/''
                                    then ''video'' else ''image'')))
               \<and> getp (ms ! i) ''filename''
                 = Inr (Some (JStr (fileUnique lenv i @ ''-''
                                      @ safeName (originalname (namedParts (fileParts lreq) ! i))))))"
    by (simp add: mediaType_def diskName_def)
next
  assume a: "req_method req = POST \<and> content req = Multipart ps \<and> fileUploads ps \<noteq> []
        \<and> status (fst (netlify_items env req s)) = 201"
  then have "fst (seedIfEmpty env (items s)) = None"
    using netlify_items_unseeded [of env s req]
    by (cases "fst (seedIfEmpty env (items s))") simp_all
  then have seeded: "seedIfEmpty env (items s) = (None, snd (seedIfEmpty env (items s)))"
    by (cases "seedIfEmpty env (items s)") simp
  let ?s0 = "s\<lparr>items := snd (seedIfEmpty env (items s))\<rparr>"
  from a have eq: "netlify_items env req s = netlify_post env (Multipart ps) ?s0"
    by (simp add: netlify_items_seeded [OF seeded])
  with a have "status (fst (netlify_post env (Multipart ps) ?s0)) = 201" by simp
  from netlify_post_201_media [OF this] a
  show "\<exists>created ms.
         items (snd (netlify_items env req s)) = snd (seedIfEmpty env (items s)) @ [created]
         \<and> col_media created = JArr ms
         \<and> length ms = length (fileUploads ps)
         \<and> (\<forall>i < length ms.
               getp (ms ! i) ''type''
                 = Inr (Some (JStr (if startsWith (mimetype (fileUploads ps ! i)) ''video/''
                                    then ''video'' else ''image'')))
               \<and> getp (ms ! i) ''key''
                 = Inr (Some (JStr (itemUUID env @ ''/'' @ fileStamp env i @ ''-''
                                      @ sanitizeFilename (originalname (fileUploads ps ! i))))))"
    by (simp add: eq mediaType_def)
next
  assume a: "req_method req = POST \<and> content req = Multipart ps \<and> fileUploads ps \<noteq> []
        \<and> status (fst (supabase_items env req s)) = 201"
  let ?s0 = "s\<lparr>items := ensureSeed env (items s)\<rparr>"
  from a have eq: "supabase_items env req s = supabase_post env (Multipart ps) ?s0"
    by (simp add: supabase_items_eq)
  with a have "status (fst (supabase_post env (Multipart ps) ?s0)) = 201" by simp
  from supabase_post_201_media [OF this] a
  show "\<exists>created ms.
         items (snd (supabase_items env req s)) = ensureSeed env (items s) @ [created]
         \<and> col_media created = JArr ms
         \<and> length ms = length (fileUploads ps)
         \<and> (\<forall>i < length ms.
               getp (ms ! i) ''type''
                 = Inr (Some (JStr (if startsWith (mimetype (fileUploads ps ! i)) ''video/''
                                    then ''video'' else ''image'')))
               \<and> getp (ms ! i) ''path''
                 = Inr (Some (JStr (itemUUID env @ ''/'' @ fileStamp env i @ ''-''
                                      @ sanitizeFilename (originalname (fileUploads ps ! i))))))"
    by (simp add: eq mediaType_def)
qed

theorem post_files_media_witness:
  "status (fst (post_items sample_lenv sample_lpost sample_lstate)) = 200
   \<and> fileParts sample_lpost = [sample_nameless, sample_video, sample_upload]
   \<and> req_method sample_post = POST \<and> content sample_post = Multipart sample_parts
   \<and> fileUploads sample_parts = [sample_video, sample_upload]
   \<and> status (fst (netlify_items sample_henv sample_post sample_hstate)) = 201
   \<and> status (fst (supabase_items sample_henv sample_post sample_hstate)) = 201
   \<and> (\<exists>created m1 m2.
         dataFile (snd (post_items sample_lenv sample_lpost sample_lstate)) = [sample_item, created]
         \<and> map_of created ''media'' = Some (JArr [m1, m2])
         \<and> getp m1 ''type'' = Inr (Some (JStr ''video''))
         \<and> getp m1 ''filename'' = Inr (Some (JStr ''1700000000000-7-tour.mp4''))
         \<and> getp m2 ''type'' = Inr (Some (JStr ''image''))
         \<and> getp m2 ''filename'' = Inr (Some (JStr ''1700000000000-77-foto-1.png'')))
   \<and> (\<exists>created m1 m2.
         items (snd (netlify_items sample_henv sample_post sample_hstate)) = [sample_row, created]
         \<and> col_media created = JArr [m1, m2]
         \<and> getp m1 ''type'' = Inr (Some (JStr ''video''))
         \<and> getp m1 ''key'' = Inr (Some (JStr ''uuid-1/1700000000000-u-tour.mp4''))
         \<and> getp m2 ''type'' = Inr (Some (JStr ''image''))
         \<and> getp m2 ''key'' = Inr (Some (JStr ''uuid-1/1700000000000-uu-foto_1.png'')))
   \<and> (\<exists>created m1 m2.
         items (snd (supabase_items sample_henv sample_post sample_hstate)) = [sample_row, created]
         \<and> col_media created = JArr [m1, m2]
         \<and> getp m1 ''type'' = Inr (Some (JStr ''video''))
         \<and> getp m1 ''path'' = Inr (Some (JStr ''uuid-1/1700000000000-u-tour.mp4''))
         \<and> getp m2 ''type'' = Inr (Some (JStr ''image''))
         \<and> getp m2 ''path'' = Inr (Some (JStr ''uuid-1/1700000000000-uu-foto_1.png'')))"
proof -
  note h1 = sample_lpost_200 [of sample_lstate]
  note h2 = sample_post_netlify_201
  note h3 = sample_post_supabase_201
  have m: "req_method sample_post = POST" "content sample_post = Multipart sample_parts"
    by (simp_all add: sample_post_def)
  note f = sample_uploads
  have l: "fileParts sample_lpost = [sample_nameless, sample_video, sample_upload]"
    by (simp add: sample_lpost_def)
  have t: "startsWith (mimetype sample_video) ''video/''" "\<not> startsWith (mimetype sample_upload) ''video/''"
    by (simp_all add: sample_upload_def sample_video_def)
  have n: "fileUnique sample_lenv 0 @ ''-'' @ safeName (originalname sample_video)
             = ''1700000000000-7-tour.mp4''"
    "fileUnique sample_lenv (Suc 0) @ ''-'' @ safeName (originalname sample_upload)
             = ''1700000000000-77-foto-1.png''"
    by (simp_all add: sample_lenv_def sample_video_def sample_upload_def safeName_def safeChar_def)
  have k: "itemUUID sample_henv @ ''/'' @ fileStamp sample_henv 0 @ ''-''
             @ sanitizeFilename (originalname sample_video) = ''uuid-1/1700000000000-u-tour.mp4''"
    "itemUUID sample_henv @ ''/'' @ fileStamp sample_henv (Suc 0) @ ''-''
             @ sanitizeFilename (originalname sample_upload) = ''uuid-1/1700000000000-uu-foto_1.png''"
    using sample_keys by (simp_all add: storageKey_pushed)
  have s: "seedIfEmpty sample_henv (items sample_hstate) = (None, [sample_row])"
    "ensureSeed sample_henv (items sample_hstate) = [sample_row]" "dataFile sample_lstate = [sample_item]"
    by (simp_all add: seedIfEmpty_def ensureSeed_def sample_hstate_def sample_lstate_def)
  note inst = post_files_media
    [of sample_lenv sample_lpost sample_lstate sample_post sample_parts sample_henv sample_hstate]
  from inst h1 obtain created ms where
    a1: "dataFile (snd (post_items sample_lenv sample_lpost sample_lstate)) = dataFile sample_lstate @ [created]"
    and a2: "map_of created ''media'' = Some (JArr ms)"
    and a3: "length ms = length (namedParts (fileParts sample_lpost))"
    and a4: "\<forall>i < length ms.
               getp (ms ! i) ''type''
                 = Inr (Some (JStr (if startsWith (mimetype (namedParts (fileParts sample_lpost) ! i)) ''video/''
                                    then ''video'' else ''image'')))
               \<and> getp (ms ! i) ''filename''
                 = Inr (Some (JStr (fileUnique sample_lenv i @ ''-''
                                      @ safeName (originalname (namedParts (fileParts sample_lpost) ! i)))))"
    by blast
  from a3 have len: "length ms = 2" by (simp add: sample_named)
  from a4 len have "getp (ms ! 0) ''type'' = Inr (Some (JStr ''video''))"
    "getp (ms ! 0) ''filename'' = Inr (Some (JStr ''1700000000000-7-tour.mp4''))"
    "getp (ms ! 1) ''type'' = Inr (Some (JStr ''image''))"
    "getp (ms ! 1) ''filename'' = Inr (Some (JStr ''1700000000000-77-foto-1.png''))"
    using t n by (auto simp: sample_named dest!: spec [of _ 0] spec [of _ 1])
  with a1 a2 two_elements [OF len] s(3)
  have a: "\<exists>created m1 m2.
         dataFile (snd (post_items sample_lenv sample_lpost sample_lstate)) = [sample_item, created]
         \<and> map_of created ''media'' = Some (JArr [m1, m2])
         \<and> getp m1 ''type'' = Inr (Some (JStr ''video''))
         \<and> getp m1 ''filename'' = Inr (Some (JStr ''1700000000000-7-tour.mp4''))
         \<and> getp m2 ''type'' = Inr (Some (JStr ''image''))
         \<and> getp m2 ''filename'' = Inr (Some (JStr ''1700000000000-77-foto-1.png''))"
    by (intro exI [of _ created] exI [of _ "ms ! 0"] exI [of _ "ms ! 1"]) simp
  from inst m f h2 obtain created ms where
    b1: "items (snd (netlify_items sample_henv sample_post sample_hstate))
           = snd (seedIfEmpty sample_henv (items sample_hstate)) @ [created]"
    and b2: "col_media created = JArr ms"
    and b3: "length ms = length (fileUploads sample_parts)"
    and b4: "\<forall>i < length ms.
               getp (ms ! i) ''type''
                 = Inr (Some (JStr (if startsWith (mimetype (fileUploads sample_parts ! i)) ''video/''
                                    then ''video'' else ''image'')))
               \<and> getp (ms ! i) ''key''
                 = Inr (Some (JStr (itemUUID sample_henv @ ''/'' @ fileStamp sample_henv i @ ''-''
                                      @ sanitizeFilename (originalname (fileUploads sample_parts ! i)))))"
    by auto
  from b3 have len: "length ms = 2" by (simp add: f)
  from b4 len have "getp (ms ! 0) ''type'' = Inr (Some (JStr ''video''))"
    "getp (ms ! 0) ''key'' = Inr (Some (JStr ''uuid-1/1700000000000-u-tour.mp4''))"
    "getp (ms ! 1) ''type'' = Inr (Some (JStr ''image''))"
    "getp (ms ! 1) ''key'' = Inr (Some (JStr ''uuid-1/1700000000000-uu-foto_1.png''))"
    using t k by (auto simp: f dest!: spec [of _ 0] spec [of _ 1])
  with b1 b2 two_elements [OF len] s(1)
  have b: "\<exists>created m1 m2.
         items (snd (netlify_items sample_henv sample_post sample_hstate)) = [sample_row, created]
         \<and> col_media created = JArr [m1, m2]
         \<and> getp m1 ''type'' = Inr (Some (JStr ''video''))
         \<and> getp m1 ''key'' = Inr (Some (JStr ''uuid-1/1700000000000-u-tour.mp4''))
         \<and> getp m2 ''type'' = Inr (Some (JStr ''image''))
         \<and> getp m2 ''key'' = Inr (Some (JStr ''uuid-1/1700000000000-uu-foto_1.png''))"
    by (intro exI [of _ created] exI [of _ "ms ! 0"] exI [of _ "ms ! 1"]) simp
  from inst m f h3 obtain created ms where
    c1: "items (snd (supabase_items sample_henv sample_post sample_hstate))
           = ensureSeed sample_henv (items sample_hstate) @ [created]"
    and c2: "col_media created = JArr ms"
    and c3: "length ms = length (fileUploads sample_parts)"
    and c4: "\<forall>i < length ms.
               getp (ms ! i) ''type''
                 = Inr (Some (JStr (if startsWith (mimetype (fileUploads sample_parts ! i)) ''video/''
                                    then ''video'' else ''image'')))
               \<and> getp (ms ! i) ''path''
                 = Inr (Some (JStr (itemUUID sample_henv @ ''/'' @ fileStamp sample_henv i @ ''-''
                                      @ sanitizeFilename (originalname (fileUploads sample_parts ! i)))))"
    by auto
  from c3 have len: "length ms = 2" by (simp add: f)
  from c4 len have "getp (ms ! 0) ''type'' = Inr (Some (JStr ''video''))"
    "getp (ms ! 0) ''path'' = Inr (Some (JStr ''uuid-1/1700000000000-u-tour.mp4''))"
    "getp (ms ! 1) ''type'' = Inr (Some (JStr ''image''))"
    "getp (ms ! 1) ''path'' = Inr (Some (JStr ''uuid-1/1700000000000-uu-foto_1.png''))"
    using t k by (auto simp: f dest!: spec [of _ 0] spec [of _ 1])
  with c1 c2 two_elements [OF len] s(2)
  have c: "\<exists>created m1 m2.
         items (snd (supabase_items sample_henv sample_post sample_hstate)) = [sample_row, created]
         \<and> col_media created = JArr [m1, m2]
         \<and> getp m1 ''type'' = Inr (Some (JStr ''video''))
         \<and> getp m1 ''path'' = Inr (Some (JStr ''uuid-1/1700000000000-u-tour.mp4''))
         \<and> getp m2 ''type'' = Inr (Some (JStr ''image''))
         \<and> getp m2 ''path'' = Inr (Some (JStr ''uuid-1/1700000000000-uu-foto_1.png''))"
    by (intro exI [of _ created] exI [of _ "ms ! 0"] exI [of _ "ms ! 1"]) simp
  from h1 h2 h3 m f l a b c show ?thesis by blast
qed

subsection \<open>A file over the limit\<close>

lemma post_items_multerError:
  "multerArray env 0 (fileParts req) = Inl msg \<Longrightarrow> post_items env req s = (multerError msg, s)"
  by (simp add: post_items_def)

lemma put_items_multerError:
  "multerArray env 0 (fileParts req) = Inl msg \<Longrightarrow> put_items env req s = (multerError msg, s)"
  by (simp add: put_items_def)

lemma readBody_tooLarge:
  "\<exists>u \<in> set (fileUploads ps). nbytes u > MAX_FILE_SIZE \<Longrightarrow> readBody env (Multipart ps) = Inl FILE_TOO_LARGE"
  by (simp add: readBody_def parseMultipart_tooLarge)

lemma netlify_tooLarge:
  assumes "readBody env c = Inl FILE_TOO_LARGE"
  shows "netlify_post env c s = (tooLarge413, s)" and "netlify_put env (Some i) c s = (tooLarge413, s)"
  using assms by (simp_all add: netlify_post_def netlify_put_def)

lemma supabase_tooLarge:
  assumes "readBody env c = Inl FILE_TOO_LARGE"
  shows "supabase_post env c s = (tooLarge413, s)" and "supabase_put env (Some i) c s = (tooLarge413, s)"
  using assms by (simp_all add: supabase_post_def supabase_put_def)

lemma hstate_items_same [simp]: "s\<lparr>items := items s\<rparr> = (s :: hstate)"
  by simp

lemma local_tooLarge:
  assumes "\<exists>u \<in> set (namedParts (fileParts req)). nbytes u > LOCAL_FILE_SIZE"
  shows "status (fst (post_items env req s)) = 400 \<and> snd (post_items env req s) = s
       \<and> status (fst (put_items env req s)) = 400 \<and> snd (put_items env req s) = s"
proof -
  from multerArray_tooLarge [OF assms] obtain msg where "multerArray env 0 (fileParts req) = Inl msg" ..
  then show ?thesis by (simp add: post_items_multerError put_items_multerError)
qed

lemma hosted_tooLarge:
  assumes c: "content req = Multipart ps"
    and big: "\<exists>u \<in> set (fileUploads ps). nbytes u > MAX_FILE_SIZE"
    and m: "req_method req = POST \<or> req_method req = PUT \<and> extractId (pathname req) \<noteq> None"
  shows "fst (seedIfEmpty env (items s)) = None \<Longrightarrow>
           status (fst (netlify_items env req s)) = 413
           \<and> snd (netlify_items env req s) = s\<lparr>items := snd (seedIfEmpty env (items s))\<rparr>"
    and "status (fst (supabase_items env req s)) = 413
           \<and> snd (supabase_items env req s) = s\<lparr>items := ensureSeed env (items s)\<rparr>"
proof -
  note b = readBody_tooLarge [OF big, of env]
  show "status (fst (supabase_items env req s)) = 413
           \<and> snd (supabase_items env req s) = s\<lparr>items := ensureSeed env (items s)\<rparr>"
    using m c by (auto simp: supabase_items_eq supabase_tooLarge [OF b])
  assume "fst (seedIfEmpty env (items s)) = None"
  then have seeded: "seedIfEmpty env (items s) = (None, snd (seedIfEmpty env (items s)))"
    by (cases "seedIfEmpty env (items s)") simp
  show "status (fst (netlify_items env req s)) = 413
           \<and> snd (netlify_items env req s) = s\<lparr>items := snd (seedIfEmpty env (items s))\<rparr>"
    using m c by (auto simp: netlify_items_seeded [OF seeded] netlify_tooLarge [OF b])
qed

text \<open>
  Claim C2, as the code has it. A \<^verbatim>\<open>POST\<close> or a \<^verbatim>\<open>PUT\<close> that uploads a file of
  more bytes than the limit persists no new and no modified item record. On the local server
  (limit 500 MiB) the uploaded files are the file parts that carry a file name; the answer is
  400, from the error middleware, and the data file and the uploads directory are as before.
  In the hosted functions (limit 40 MiB) the answer is 413 for a \<^verbatim>\<open>POST\<close> and for a
  \<^verbatim>\<open>PUT\<close> that has an id in its path, and the state is the one the seeding step
  leaves, which is the state as before when the table was not empty; the function on Netlify
  answers so when its seeding step has not failed, as it cannot on a table that is not empty.
\<close>

theorem oversize_upload_rejected:
  "((\<exists>u \<in> set (namedParts (fileParts lreq)). nbytes u > LOCAL_FILE_SIZE) \<longrightarrow>
       status (fst (post_items lenv lreq ls)) = 400 \<and> snd (post_items lenv lreq ls) = ls
       \<and> status (fst (put_items lenv lreq ls)) = 400 \<and> snd (put_items lenv lreq ls) = ls)
   \<and> (content req = Multipart ps \<and> (\<exists>u \<in> set (fileUploads ps). nbytes u > MAX_FILE_SIZE)
        \<and> (req_method req = POST \<or> req_method req = PUT \<and> extractId (pathname req) \<noteq> None) \<longrightarrow>
         (fst (seedIfEmpty env (items s)) = None \<longrightarrow>
            status (fst (netlify_items env req s)) = 413
            \<and> snd (netlify_items env req s) = s\<lparr>items := snd (seedIfEmpty env (items s))\<rparr>)
         \<and> status (fst (supabase_items env req s)) = 413
         \<and> snd (supabase_items env req s) = s\<lparr>items := ensureSeed env (items s)\<rparr>
         \<and> (items s \<noteq> [] \<longrightarrow>
              status (fst (netlify_items env req s)) = 413
              \<and> snd (netlify_items env req s) = s \<and> snd (supabase_items env req s) = s))"
proof (intro conjI impI)
  assume "\<exists>u \<in> set (namedParts (fileParts lreq)). nbytes u > LOCAL_FILE_SIZE"
  from local_tooLarge [OF this, of lenv ls]
  show "status (fst (post_items lenv lreq ls)) = 400" "snd (post_items lenv lreq ls) = ls"
    "status (fst (put_items lenv lreq ls)) = 400" "snd (put_items lenv lreq ls) = ls"
    by simp_all
next
  assume a: "content req = Multipart ps \<and> (\<exists>u \<in> set (fileUploads ps). nbytes u > MAX_FILE_SIZE)
        \<and> (req_method req = POST \<or> req_method req = PUT \<and> extractId (pathname req) \<noteq> None)"
  then have c: "content req = Multipart ps"
    and big: "\<exists>u \<in> set (fileUploads ps). nbytes u > MAX_FILE_SIZE"
    and m: "req_method req = POST \<or> req_method req = PUT \<and> extractId (pathname req) \<noteq> None"
    by simp_all
  note h = hosted_tooLarge [OF c big m, of env s]
  from h(2) show "status (fst (supabase_items env req s)) = 413"
    "snd (supabase_items env req s) = s\<lparr>items := ensureSeed env (items s)\<rparr>" by simp_all
  {
    assume "fst (seedIfEmpty env (items s)) = None"
    from h(1) [OF this] show "status (fst (netlify_items env req s)) = 413"
      "snd (netlify_items env req s) = s\<lparr>items := snd (seedIfEmpty env (items s))\<rparr>" by simp_all
  }
  {
    assume ne: "items s \<noteq> []"
    then have "fst (seedIfEmpty env (items s)) = None" by (simp add: seedIfEmpty_nonempty)
    from h(1) [OF this] ne show "status (fst (netlify_items env req s)) = 413"
      "snd (netlify_items env req s) = s"
      by (simp_all add: seedIfEmpty_nonempty)
    from h(2) ne show "snd (supabase_items env req s) = s"
      by (simp add: ensureSeed_nonempty)
  }
qed

theorem oversize_upload_rejected_witness:
  "sample_big \<in> set (namedParts (fileParts sample_big_lpost)) \<and> nbytes sample_big > LOCAL_FILE_SIZE
   \<and> nbytes sample_big > MAX_FILE_SIZE \<and> req_method sample_big_post = POST
   \<and> items sample_hstate \<noteq> []
   \<and> status (fst (post_items sample_lenv sample_big_lpost sample_lstate)) = 400
   \<and> snd (post_items sample_lenv sample_big_lpost sample_lstate) = sample_lstate
   \<and> status (fst (put_items sample_lenv sample_big_lpost sample_lstate)) = 400
   \<and> snd (put_items sample_lenv sample_big_lpost sample_lstate) = sample_lstate
   \<and> status (fst (netlify_items sample_henv sample_big_post sample_hstate)) = 413
   \<and> snd (netlify_items sample_henv sample_big_post sample_hstate) = sample_hstate
   \<and> status (fst (supabase_items sample_henv sample_big_post sample_hstate)) = 413
   \<and> snd (supabase_items sample_henv sample_big_post sample_hstate) = sample_hstate"
proof -
  have a: "sample_big \<in> set (namedParts (fileParts sample_big_lpost))" "nbytes sample_big > LOCAL_FILE_SIZE"
    "nbytes sample_big > MAX_FILE_SIZE" "req_method sample_big_post = POST"
    "items sample_hstate \<noteq> []"
    by (simp_all add: sample_big_lpost_def sample_big_def LOCAL_FILE_SIZE_def MAX_FILE_SIZE_def
        sample_big_post_def sample_hstate_def namedParts_def)
  have c: "content sample_big_post = Multipart [Field ''title'' ''Casa'', Field ''desc'' ''Bonita'', File sample_big]"
    by (simp add: sample_big_post_def)
  have f: "sample_big \<in> set (fileUploads [Field ''title'' ''Casa'', Field ''desc'' ''Bonita'', File sample_big])"
    by simp
  have sd: "fst (seedIfEmpty sample_henv (items sample_hstate)) = None"
    using a(5) by (simp add: seedIfEmpty_nonempty)
  from oversize_upload_rejected
    [of sample_big_lpost sample_lenv sample_lstate sample_big_post
        "[Field ''title'' ''Casa'', Field ''desc'' ''Bonita'', File sample_big]" sample_henv sample_hstate]
    a c f sd
  show ?thesis by blast
qed

text \<open>
  Claim C2 as the specification states it fails on the local server: a file of one byte
  over 500 MiB is answered with 400, not with 413.
\<close>

theorem oversize_upload_local_counterexample:
  "fileParts sample_big_lpost = [sample_big] \<and> originalname sample_big = ''tour.mp4''
   \<and> nbytes sample_big > LOCAL_FILE_SIZE
   \<and> status (fst (post_items sample_lenv sample_big_lpost sample_lstate)) = 400
   \<and> status (fst (post_items sample_lenv sample_big_lpost sample_lstate)) \<noteq> 413"
proof -
  have "multerArray sample_lenv 0 (fileParts sample_big_lpost) = Inl ''File too large''"
    by (simp add: sample_big_lpost_def sample_big_def LOCAL_FILE_SIZE_def overLimit_def)
  then have "status (fst (post_items sample_lenv sample_big_lpost sample_lstate)) = 400"
    by (simp add: post_items_multerError)
  then show ?thesis
    by (simp add: sample_big_lpost_def sample_big_def LOCAL_FILE_SIZE_def)
qed

subsection \<open>A request to create an item without files\<close>

lemma multerArray_no_files: "namedParts us = [] \<Longrightarrow> multerArray env i us = Inr []"
  using multerArray_named [of us env i] by simp

lemma post_items_no_files:
  assumes "namedParts (fileParts req) = []"
  shows "snd (post_items env req s) = s"
    and "status (fst (post_items env req s)) = 400 \<or> status (fst (post_items env req s)) = 500"
  using multerArray_no_files [OF assms, of env 0]
  by (auto simp: post_items_def Let_def split: sum.splits)

lemma post_items_no_files_400:
  assumes "namedParts (fileParts req) = []"
    and "trimOf (orElse (map_of (body req) ''title'') (Some (JStr ''Novo imovel''))) = Inr t"
    and "trimOf (orElse (map_of (body req) ''desc'') (Some (JStr ''Mais detalhes no WhatsApp.''))) = Inr d"
    and "trimOf (orElse (map_of (body req) ''whatsappMessage'') (Some (JStr DEFAULT_WHATS_MESSAGE))) = Inr w"
  shows "fst (post_items env req s) = \<lparr>status = 400, payload = JObj [(''error'', JStr ''No files'')]\<rparr>"
  using multerArray_no_files [OF assms(1), of env 0] assms(2-4)
  by (simp add: post_items_def Let_def)

lemma trimOf_default:
  "nameOrAbsent b \<Longrightarrow> \<exists>t. trimOf (orElse b (Some (JStr d))) = Inr t"
  by (cases b rule: nameOrAbsent.cases) (simp_all add: orElse_def)

lemma netlify_post_descriptors:
  assumes "readBody env c = Inr (flds, [])"
    and "textField env flds ''title'' = Inr title" and "title \<noteq> []"
    and "textField env flds ''desc'' = Inr desc" and "desc \<noteq> []"
    and "textField env flds ''whatsappMessage'' = Inr msg"
    and "getp flds ''media'' = Inr (Some (JArr xs))" and "xs \<noteq> []"
    and "itemUUID env \<notin> set (map row_id (items s))"
    and "withMediaUrls env (JArr xs) = Inr ms"
  shows "fst (netlify_post env c s) =
           jsonResponse 201 (itemJson (itemUUID env) title desc
             (if msg \<noteq> [] then msg else DEFAULT_WHATS_MESSAGE) ms)
     \<and> snd (netlify_post env c s) = s\<lparr>items := items s @
           [\<lparr>row_id = itemUUID env, col_title = title, col_description = desc,
             col_whatsapp_message = (if msg \<noteq> [] then msg else DEFAULT_WHATS_MESSAGE),
             col_media = JArr xs\<rparr>]\<rparr>"
  using assms by (simp add: netlify_post_def Let_def)

lemma supabase_post_descriptors:
  assumes "readBody env c = Inr (flds, [])"
    and "textField env flds ''title'' = Inr title" and "title \<noteq> []"
    and "textField env flds ''desc'' = Inr desc" and "desc \<noteq> []"
    and "textField env flds ''whatsappMessage'' = Inr msg"
    and "getp flds ''media'' = Inr (Some (JArr xs))" and "xs \<noteq> []"
    and "withPublicUrls env (JArr xs) = Inr ms"
  shows "fst (supabase_post env c s) =
           jsonResponse 201 (itemJson (dbId env (length (items s))) title desc
             (if msg \<noteq> [] then msg else DEFAULT_WHATS_MESSAGE) ms)
     \<and> snd (supabase_post env c s) = s\<lparr>items := items s @
           [\<lparr>row_id = dbId env (length (items s)), col_title = title, col_description = desc,
             col_whatsapp_message = (if msg \<noteq> [] then msg else DEFAULT_WHATS_MESSAGE),
             col_media = JArr xs\<rparr>]\<rparr>"
  using assms by (simp add: supabase_post_def Let_def)

lemma hosted_post_no_media:
  assumes "readBody env c = Inr (flds, [])"
    and "textField env flds ''title'' = Inr title"
    and "textField env flds ''desc'' = Inr desc"
    and "textField env flds ''whatsappMessage'' = Inr msg"
    and "getp flds ''media'' = Inr fm"
    and "title = [] \<or> desc = [] \<or> \<not> isArray fm \<or> elems fm = []"
  shows "status (fst (netlify_post env c s)) = 400 \<and> snd (netlify_post env c s) = s"
    and "status (fst (supabase_post env c s)) = 400 \<and> snd (supabase_post env c s) = s"
  using assms by (auto simp: netlify_post_def supabase_post_def Let_def)

lemma textField_string: "getp flds k = Inr (Some (JStr x)) \<Longrightarrow> textField env flds k = Inr (trim x)"
  by (cases "x = []") (simp_all add: textField_def normalizeText_def trim_def)

lemma textField_absent: "getp flds k = Inr None \<Longrightarrow> textField env flds k = Inr []"
  by (simp add: textField_def normalizeText_def)

text \<open>The fields of a multipart body are strings.\<close>

lemma parseParts_strings:
  assumes "\<And>k. nameOrAbsent (map_of flds k)"
  shows "nameOrAbsent (map_of (fst (parseParts a ps flds files t)) k)"
  using assms
proof (induction a ps flds files t rule: parseParts.induct)
  case (2 atLimit name v ps flds files tooLarge)
  have "\<And>k. nameOrAbsent (map_of (AList.update name (JStr v) flds) k)"
    using 2(2) by (simp add: map_of_update)
  from 2(1) [OF this] show ?case by simp
qed simp_all

lemma readBody_no_files:
  assumes "fileUploads ps = []"
  shows "\<exists>flds. readBody env (Multipart ps) = Inr (JObj flds, []) \<and> (\<forall>k. nameOrAbsent (map_of flds k))"
proof -
  obtain flds files t where p: "parseParts (busboyFiresAtLimit env) ps [] [] False = (flds, files, t)"
    by (cases "parseParts (busboyFiresAtLimit env) ps [] [] False") auto
  from parseParts_files [of "busboyFiresAtLimit env" ps "[]" "[]" False] p assms
  have f: "files = []" by simp
  from parseParts_tooLarge [of "busboyFiresAtLimit env" ps "[]" "[]" False] p assms
  have t: "\<not> t" by simp
  have "\<And>k. nameOrAbsent (map_of (fst (parseParts (busboyFiresAtLimit env) ps [] [] False)) k)"
    by (rule parseParts_strings) simp
  with p have "\<forall>k. nameOrAbsent (map_of flds k)" by simp
  with p f t show ?thesis by (simp add: readBody_def parseMultipart_def)
qed

lemma textField_strings:
  assumes "nameOrAbsent (map_of flds k)"
  shows "\<exists>t. textField env (JObj flds) k = Inr t"
  using assms
  by (cases "map_of flds k" rule: nameOrAbsent.cases)
     (simp_all add: textField_absent textField_string)

lemma hosted_post_multipart_no_files:
  assumes "fileUploads ps = []"
  shows "status (fst (netlify_post env (Multipart ps) s)) = 400 \<and> snd (netlify_post env (Multipart ps) s) = s"
    and "status (fst (supabase_post env (Multipart ps) s)) = 400 \<and> snd (supabase_post env (Multipart ps) s) = s"
proof -
  from readBody_no_files [OF assms, of env] obtain flds where
    b: "readBody env (Multipart ps) = Inr (JObj flds, [])" and n: "\<And>k. nameOrAbsent (map_of flds k)"
    by blast
  from textField_strings [OF n] obtain title where t: "textField env (JObj flds) ''title'' = Inr title"
    by blast
  from textField_strings [OF n] obtain desc where d: "textField env (JObj flds) ''desc'' = Inr desc"
    by blast
  from textField_strings [OF n] obtain msg where m: "textField env (JObj flds) ''whatsappMessage'' = Inr msg"
    by blast
  have g: "getp (JObj flds) ''media'' = Inr (map_of flds ''media'')" by simp
  have "\<not> isArray (map_of flds ''media'')"
    using n [of "''media''"] by (cases "map_of flds ''media''" rule: nameOrAbsent.cases) simp_all
  then have no: "title = [] \<or> desc = [] \<or> \<not> isArray (map_of flds ''media'') \<or> elems (map_of flds ''media'') = []"
    by simp
  from hosted_post_no_media [OF b t d m g no]
  show "status (fst (netlify_post env (Multipart ps) s)) = 400 \<and> snd (netlify_post env (Multipart ps) s) = s"
    and "status (fst (supabase_post env (Multipart ps) s)) = 400 \<and> snd (supabase_post env (Multipart ps) s) = s"
    by simp_all
qed


lemma sample_json_fields:
  "textField env (JObj [(''title'', JStr ''Casa''), (''desc'', JStr ''Bonita''), (''media'', sample_descriptors)])
     ''title'' = Inr ''Casa''"
  "textField env (JObj [(''title'', JStr ''Casa''), (''desc'', JStr ''Bonita''), (''media'', sample_descriptors)])
     ''desc'' = Inr ''Bonita''"
  "textField env (JObj [(''title'', JStr ''Casa''), (''desc'', JStr ''Bonita''), (''media'', sample_descriptors)])
     ''whatsappMessage'' = Inr []"
  "getp (JObj [(''title'', JStr ''Casa''), (''desc'', JStr ''Bonita''), (''media'', sample_descriptors)])
     ''media'' = Inr (Some sample_descriptors)"
  by (simp_all add: textField_def normalizeText_def trim_Casa trim_Bonita)



subsection \<open>Deleting an item\<close>

lemma findIndex_None: "findIndex P xs = None \<longleftrightarrow> (\<forall>x \<in> set xs. \<not> P x)"
  by (induction xs) (auto split: option.splits)

lemma findIndex_Some: "findIndex P xs = Some i \<Longrightarrow> i < length xs \<and> P (xs ! i)"
proof (induction xs arbitrary: i)
  case Nil
  then show ?case by simp
next
  case (Cons x xs)
  then show ?case by (auto split: if_splits option.splits)
qed

lemma unlinkMedia_refs:
  "list_all mediaRef ms \<Longrightarrow> unlinkMedia ms dir = (None, dir - set (owned ''filename'' ms))"
proof (induction ms arbitrary: dir)
  case Nil
  then show ?case by simp
next
  case (Cons m ms)
  from Cons.prems obtain ps where m: "m = JObj ps" by (cases m) auto
  from Cons.prems have rest: "list_all mediaRef ms" by simp
  from Cons.prems m have n: "nameOrAbsent (map_of ps ''filename'')" by simp
  show ?case
  proof (cases "map_of ps ''filename''")
    case None
    with m Cons.IH [OF rest] show ?thesis by simp
  next
    case (Some v)
    with n obtain name where v: "v = JStr name" by (cases v) auto
    with Some m Cons.IH [OF rest] show ?thesis by auto
  qed
qed

lemma deleteBlobs_refs:
  "list_all mediaRef ms \<Longrightarrow> deleteBlobs ms store = (None, store - set (owned ''key'' ms))"
proof (induction ms arbitrary: store)
  case Nil
  then show ?case by simp
next
  case (Cons m ms)
  from Cons.prems obtain ps where m: "m = JObj ps" by (cases m) auto
  from Cons.prems have rest: "list_all mediaRef ms" by simp
  from Cons.prems m have n: "nameOrAbsent (map_of ps ''key'')" by simp
  show ?case
  proof (cases "map_of ps ''key''")
    case None
    with m Cons.IH [OF rest] show ?thesis by simp
  next
    case (Some v)
    with n obtain name where v: "v = JStr name" by (cases v) auto
    with Some m Cons.IH [OF rest] show ?thesis by auto
  qed
qed

lemma paths_refs:
  "list_all mediaRef ms \<Longrightarrow>
     \<exists>ps. mapE (\<lambda>item. getp item ''path'') ms = Inr ps \<and> names (filter truthy ps) = owned ''path'' ms"
proof (induction ms)
  case Nil
  then show ?case by simp
next
  case (Cons m ms)
  from Cons.prems obtain qs where m: "m = JObj qs" by (cases m) auto
  from Cons.prems have rest: "list_all mediaRef ms" by simp
  from Cons.prems m have n: "nameOrAbsent (map_of qs ''path'')" by simp
  from Cons.IH [OF rest] obtain ps where
    ps: "mapE (\<lambda>item. getp item ''path'') ms = Inr ps" "names (filter truthy ps) = owned ''path'' ms"
    by blast
  show ?case
  proof (cases "map_of qs ''path''")
    case None
    with m ps show ?thesis by simp
  next
    case (Some v)
    with n obtain name where v: "v = JStr name" by (cases v) auto
    with Some m ps show ?thesis by auto
  qed
qed

lemma removeStoredMedia_refs:
  assumes "mediaRefs m"
  shows "removeStoredMedia m store = Inr (store - set (owned ''path'' (elems (Some m))))"
proof -
  from assms obtain ms where m: "m = JArr ms" and r: "list_all mediaRef ms"
    by (cases m) auto
  from paths_refs [OF r] obtain ps where
    ps: "mapE (\<lambda>item. getp item ''path'') ms = Inr ps" "names (filter truthy ps) = owned ''path'' ms"
    by blast
  have "filter truthy ps = [] \<Longrightarrow> owned ''path'' ms = []" using ps(2) by simp
  with m ps show ?thesis by (auto simp: removeStoredMedia_def Let_def)
qed

lemma delete_items_missing:
  "findIndex (hasId (params_id req)) (dataFile s) = None \<Longrightarrow> delete_items req s = (notFound, s)"
  by (simp add: delete_items_def Let_def)

lemma delete_items_found:
  assumes "findIndex (hasId (params_id req)) (dataFile s) = Some i"
    and "list_all mediaRef (elems (map_of (normalizeItem (dataFile s ! i)) ''media''))"
  shows "delete_items req s =
     (\<lparr>status = 200, payload = okTrue\<rparr>,
      \<lparr>dataFile = take i (dataFile s) @ drop (Suc i) (dataFile s),
       uploadsDir = uploadsDir s
         - set (owned ''filename'' (elems (map_of (normalizeItem (dataFile s ! i)) ''media'')))\<rparr>)"
  using assms by (simp add: delete_items_def Let_def unlinkMedia_refs)

lemma netlify_delete_missingId: "netlify_delete None s = (missingId, s)"
  and supabase_delete_missingId: "supabase_delete None s = (missingId, s)"
  by (simp_all add: netlify_delete_def supabase_delete_def)

lemma mediaRefs_iterate: "mediaRefs m \<Longrightarrow> \<exists>ms. m = JArr ms \<and> iterate m = Inr ms \<and> list_all mediaRef ms"
  by (cases m) auto

lemma netlify_delete_ok:
  assumes "\<forall>r \<in> set (byId i (items s)). mediaRefs (col_media r)"
  shows "fst (netlify_delete (Some i) s) = jsonResponse 200 okTrue
       \<and> items (snd (netlify_delete (Some i) s)) = filter (\<lambda>r. row_id r \<noteq> i) (items s)"
proof (cases "byId i (items s)")
  case Nil
  then show ?thesis by (simp add: netlify_delete_def)
next
  case (Cons r rs)
  with assms have "mediaRefs (col_media r)" by simp
  from mediaRefs_iterate [OF this] obtain ms where
    "iterate (col_media r) = Inr ms" "list_all mediaRef ms" by blast
  with Cons show ?thesis by (simp add: netlify_delete_def deleteBlobs_refs)
qed

lemma supabase_delete_ok:
  assumes "\<forall>r \<in> set (byId i (items s)). mediaRefs (col_media r)" and "length (byId i (items s)) \<le> 1"
  shows "fst (supabase_delete (Some i) s) = jsonResponse 200 okTrue
       \<and> items (snd (supabase_delete (Some i) s)) = filter (\<lambda>r. row_id r \<noteq> i) (items s)"
proof (cases "byId i (items s)")
  case Nil
  then show ?thesis by (simp add: supabase_delete_def)
next
  case (Cons r rs)
  with assms(2) have rs: "rs = []" by simp
  from Cons assms(1) have "mediaRefs (col_media r)" by simp
  then have t: "truthy (Some (col_media r))" by (cases "col_media r") auto
  from Cons rs t \<open>mediaRefs (col_media r)\<close> show ?thesis
    by (simp add: supabase_delete_def removeStoredMedia_refs)
qed

lemma extractId_zzz: "extractId ''/api/items/zzz'' = Some ''zzz''"
  and extractId_a: "extractId ''/api/items/a'' = Some ''a''"
  and extractId_none: "extractId ''/api/items'' = None"
  by (simp_all add: extractId_def)


lemma sample_item_media:
  "map_of (normalizeItem sample_item) ''media'' =
     Some (JArr [JObj [(''type'', JStr ''image''), (''url'', JStr ''/uploads/1-1-sala.jpg''),
                       (''filename'', JStr ''1-1-sala.jpg'')]])"
  by (simp add: normalizeItem_media sample_item_def)



subsection \<open>Updating an item on the local server\<close>

lemma put_items_200:
  assumes "status (fst (put_items env req s)) = 200"
  shows "\<exists>files i t d w.
     multerArray env 0 (fileParts req) = Inr files
     \<and> findIndex (hasId (params_id req)) (dataFile s) = Some i
     \<and> trimOf (orElse (map_of (body req) ''title'') (map_of (normalizeItem (dataFile s ! i)) ''title'')) = Inr t
     \<and> trimOf (orElse (map_of (body req) ''desc'') (map_of (normalizeItem (dataFile s ! i)) ''desc'')) = Inr d
     \<and> trimOf (orElse (orElse (map_of (body req) ''whatsappMessage'')
                               (map_of (normalizeItem (dataFile s ! i)) ''whatsappMessage''))
                       (Some (JStr DEFAULT_WHATS_MESSAGE))) = Inr w
     \<and> (files \<noteq> [] \<longrightarrow> fst (unlinkMedia (elems (map_of (normalizeItem (dataFile s ! i)) ''media''))
                              (uploadsDir s \<union> set (map mf_filename files))) = None)"
  using assms unfolding put_items_def Let_def
  by (auto simp: map_of_update split: sum.splits if_splits option.splits prod.splits)

lemma unlinkMedia_owned:
  "fst (unlinkMedia ms dir) = None \<Longrightarrow> snd (unlinkMedia ms dir) = dir - set (owned ''filename'' ms)"
proof (induction ms arbitrary: dir)
  case Nil
  then show ?case by simp
next
  case (Cons m ms)
  show ?case
  proof (cases m)
    case (JObj ps)
    show ?thesis
    proof (cases "map_of ps ''filename''")
      case None
      with JObj Cons show ?thesis by simp
    next
      case (Some v)
      with JObj Cons show ?thesis by (cases v) (auto split: if_splits)
    qed
  qed (use Cons in auto)
qed

lemma putFields_lookup:
  "map_of (putFields t d w item) ''title'' = Some (JStr t)"
  "map_of (putFields t d w item) ''desc'' = Some (JStr d)"
  "map_of (putFields t d w item) ''whatsappMessage'' = Some (JStr w)"
  "map_of (putFields t d w item) ''media'' = map_of item ''media''"
  by (simp_all add: putFields_def map_of_update)

lemma put_items_no_files:
  assumes "multerArray env 0 (fileParts req) = Inr []"
    and "findIndex (hasId (params_id req)) (dataFile s) = Some i"
    and "trimOf (orElse (map_of (body req) ''title'') (map_of (normalizeItem (dataFile s ! i)) ''title'')) = Inr t"
    and "trimOf (orElse (map_of (body req) ''desc'') (map_of (normalizeItem (dataFile s ! i)) ''desc'')) = Inr d"
    and "trimOf (orElse (orElse (map_of (body req) ''whatsappMessage'')
                               (map_of (normalizeItem (dataFile s ! i)) ''whatsappMessage''))
                       (Some (JStr DEFAULT_WHATS_MESSAGE))) = Inr w"
  shows "snd (put_items env req s) =
           s\<lparr>dataFile := (dataFile s)[i := putFields t d w (normalizeItem (dataFile s ! i))]\<rparr>"
  using assms by (simp add: put_items_def Let_def putFields_def split: sum.splits)

lemma put_items_files:
  assumes "multerArray env 0 (fileParts req) = Inr files" and "files \<noteq> []"
    and "findIndex (hasId (params_id req)) (dataFile s) = Some i"
    and "trimOf (orElse (map_of (body req) ''title'') (map_of (normalizeItem (dataFile s ! i)) ''title'')) = Inr t"
    and "trimOf (orElse (map_of (body req) ''desc'') (map_of (normalizeItem (dataFile s ! i)) ''desc'')) = Inr d"
    and "trimOf (orElse (orElse (map_of (body req) ''whatsappMessage'')
                               (map_of (normalizeItem (dataFile s ! i)) ''whatsappMessage''))
                       (Some (JStr DEFAULT_WHATS_MESSAGE))) = Inr w"
    and "fst (unlinkMedia (elems (map_of (normalizeItem (dataFile s ! i)) ''media''))
                              (uploadsDir s \<union> set (map mf_filename files))) = None"
  shows "snd (put_items env req s) =
           s\<lparr>dataFile := (dataFile s)
                 [i := AList.update ''url'' (jsOr (firstProp (map fileMedia files) ''url'') (JStr []))
                        (AList.update ''type'' (jsOr (firstProp (map fileMedia files) ''type'') (JStr ''image''))
                          (AList.update ''media'' (JArr (map fileMedia files))
                            (putFields t d w (normalizeItem (dataFile s ! i)))))],
             uploadsDir := (uploadsDir s \<union> set (map mf_filename files))
                 - set (owned ''filename'' (elems (map_of (normalizeItem (dataFile s ! i)) ''media'')))\<rparr>"
proof -
  let ?old = "elems (map_of (normalizeItem (dataFile s ! i)) ''media'')"
  let ?dir = "uploadsDir s \<union> set (map mf_filename files)"
  from assms(7) unlinkMedia_owned [OF assms(7)]
  have u: "unlinkMedia ?old ?dir = (None, ?dir - set (owned ''filename'' ?old))"
    by (cases "unlinkMedia ?old ?dir") simp
  from assms(1-6) u show ?thesis
    by (simp add: put_items_def Let_def putFields_def map_of_update split: sum.splits)
qed

subsection \<open>Updating an item in the hosted functions\<close>

lemma netlify_put_200:
  assumes "status (fst (netlify_put env oid c s)) = 200"
  shows "\<exists>i flds files t d m current rest.
     oid = Some i \<and> readBody env c = Inr (flds, files) \<and> byId i (items s) = current # rest
     \<and> textField env flds ''title'' = Inr t
     \<and> textField env flds ''desc'' = Inr d
     \<and> textField env flds ''whatsappMessage'' = Inr m
     \<and> (files = [] \<longrightarrow> (\<exists>fm. getp flds ''media'' = Inr fm))"
  using assms unfolding netlify_put_def Let_def
  by (auto split: sum.splits failure.splits prod.splits if_splits option.splits list.splits)

lemma maybeSingle_Some [simp]: "maybeSingle rs = Inr (Some r) \<longleftrightarrow> rs = [r]"
  by (cases rs rule: maybeSingle.cases) auto

lemma maybeSingle_None [simp]: "maybeSingle rs = Inr None \<longleftrightarrow> rs = []"
  by (cases rs rule: maybeSingle.cases) auto

lemma supabase_put_200:
  assumes "status (fst (supabase_put env oid c s)) = 200"
  shows "\<exists>i flds files t d m current.
     oid = Some i \<and> readBody env c = Inr (flds, files) \<and> byId i (items s) = [current]
     \<and> textField env flds ''title'' = Inr t
     \<and> textField env flds ''desc'' = Inr d
     \<and> textField env flds ''whatsappMessage'' = Inr m
     \<and> (files = [] \<longrightarrow> (\<exists>fm. getp flds ''media'' = Inr fm))"
  using assms unfolding supabase_put_def Let_def
  by (auto split: sum.splits failure.splits prod.splits if_splits option.splits)

lemma snd_case_sum: "snd (case x of Inl e \<Rightarrow> (f e, s) | Inr y \<Rightarrow> (g y, s)) = s"
  by (cases x) simp_all

lemma netlify_put_state:
  assumes "readBody env c = Inr (flds, files)" and "byId i (items s) = current # rest"
    and "textField env flds ''title'' = Inr t"
    and "textField env flds ''desc'' = Inr d"
    and "textField env flds ''whatsappMessage'' = Inr m"
  shows "files \<noteq> [] \<Longrightarrow>
           snd (netlify_put env (Some i) c s) =
             s\<lparr>items := map (\<lambda>r. if row_id r = i
                                   then (nextTexts t d m current r)
                                          \<lparr>col_media := JArr (fst (storeFiles env i 0 files (blobs s)))\<rparr>
                                   else r) (items s),
               blobs := snd (storeFiles env i 0 files (blobs s))\<rparr>"
    and "files = [] \<Longrightarrow> getp flds ''media'' = Inr fm \<Longrightarrow>
           snd (netlify_put env (Some i) c s) =
             s\<lparr>items := map (\<lambda>r. if row_id r = i
                                   then (nextTexts t d m current r)
                                          \<lparr>col_media := (if isArray fm \<and> elems fm \<noteq> [] then JArr (elems fm)
                                                         else col_media current)\<rparr>
                                   else r) (items s)\<rparr>"
proof -
  show "snd (netlify_put env (Some i) c s) =
             s\<lparr>items := map (\<lambda>r. if row_id r = i
                                   then (nextTexts t d m current r)
                                          \<lparr>col_media := JArr (fst (storeFiles env i 0 files (blobs s)))\<rparr>
                                   else r) (items s),
               blobs := snd (storeFiles env i 0 files (blobs s))\<rparr>" if "files \<noteq> []"
    using assms that
    by (simp add: netlify_put_def Let_def nextTexts_def case_prod_beta snd_case_sum)
  show "snd (netlify_put env (Some i) c s) =
             s\<lparr>items := map (\<lambda>r. if row_id r = i
                                   then (nextTexts t d m current r)
                                          \<lparr>col_media := (if isArray fm \<and> elems fm \<noteq> [] then JArr (elems fm)
                                                         else col_media current)\<rparr>
                                   else r) (items s)\<rparr>"
    if "files = []" "getp flds ''media'' = Inr fm"
    using assms that
    by (simp add: netlify_put_def Let_def nextTexts_def case_prod_beta snd_case_sum)
qed

lemma supabase_put_state:
  assumes "readBody env c = Inr (flds, files)" and "byId i (items s) = [current]"
    and "textField env flds ''title'' = Inr t"
    and "textField env flds ''desc'' = Inr d"
    and "textField env flds ''whatsappMessage'' = Inr m"
  shows "files \<noteq> [] \<Longrightarrow> removeStoredMedia (currentMedia current) (blobs s) = Inr store \<Longrightarrow>
           storeFiles_supabase env (row_id current) 0 files store = (Inr ms, store') \<Longrightarrow>
           snd (supabase_put env (Some i) c s) =
             s\<lparr>items := map (\<lambda>r. if row_id r = i
                                   then (nextTexts t d m current r)\<lparr>col_media := JArr ms\<rparr>
                                   else r) (items s),
               blobs := store'\<rparr>"
    and "files \<noteq> [] \<Longrightarrow> removeStoredMedia (currentMedia current) (blobs s) = Inl e \<Longrightarrow>
           fst (supabase_put env (Some i) c s) = serverError"
    and "files \<noteq> [] \<Longrightarrow> removeStoredMedia (currentMedia current) (blobs s) = Inr store \<Longrightarrow>
           storeFiles_supabase env (row_id current) 0 files store = (Inl e, store') \<Longrightarrow>
           fst (supabase_put env (Some i) c s) = serverError"
    and "files = [] \<Longrightarrow> getp flds ''media'' = Inr fm \<Longrightarrow>
           snd (supabase_put env (Some i) c s) =
             s\<lparr>items := map (\<lambda>r. if row_id r = i
                                   then (nextTexts t d m current r)
                                          \<lparr>col_media := (if isArray fm \<and> elems fm \<noteq> [] then JArr (elems fm)
                                                         else currentMedia current)\<rparr>
                                   else r) (items s)\<rparr>"
proof -
  have cm: "(if truthy (Some (col_media current)) then col_media current else JArr []) = currentMedia current"
    by (simp add: currentMedia_def)
  show "snd (supabase_put env (Some i) c s) =
             s\<lparr>items := map (\<lambda>r. if row_id r = i
                                   then (nextTexts t d m current r)\<lparr>col_media := JArr ms\<rparr>
                                   else r) (items s),
               blobs := store'\<rparr>"
    if "files \<noteq> []" "removeStoredMedia (currentMedia current) (blobs s) = Inr store"
      "storeFiles_supabase env (row_id current) 0 files store = (Inr ms, store')"
    using assms that
    by (simp add: supabase_put_def Let_def nextTexts_def cm snd_case_sum)
  show "fst (supabase_put env (Some i) c s) = serverError"
    if "files \<noteq> []" "removeStoredMedia (currentMedia current) (blobs s) = Inl e"
    using assms that
    by (simp add: supabase_put_def Let_def cm)
  show "fst (supabase_put env (Some i) c s) = serverError"
    if "files \<noteq> []" "removeStoredMedia (currentMedia current) (blobs s) = Inr store"
      "storeFiles_supabase env (row_id current) 0 files store = (Inl e, store')"
    using assms that
    by (simp add: supabase_put_def Let_def cm)
  show "snd (supabase_put env (Some i) c s) =
             s\<lparr>items := map (\<lambda>r. if row_id r = i
                                   then (nextTexts t d m current r)
                                          \<lparr>col_media := (if isArray fm \<and> elems fm \<noteq> [] then JArr (elems fm)
                                                         else currentMedia current)\<rparr>
                                   else r) (items s)\<rparr>"
    if "files = []" "getp flds ''media'' = Inr fm"
    using assms that
    by (simp add: supabase_put_def Let_def nextTexts_def cm snd_case_sum)
qed

subsection \<open>The text fields after an update\<close>

lemma trimOf_orElse:
  assumes "trimOf (orElse b p) = Inr t"
  shows "(\<forall>x. b = Some (JStr x) \<and> trim x \<noteq> [] \<longrightarrow> t = trim x)
       \<and> (\<not> truthy b \<longrightarrow> (\<exists>y. p = Some (JStr y) \<and> t = trim y))"
proof (intro conjI allI impI)
  fix x assume "b = Some (JStr x) \<and> trim x \<noteq> []"
  then have "b = Some (JStr x)" "x \<noteq> []" by (auto simp: trim_def)
  with assms show "t = trim x" by (simp add: orElse_def)
next
  assume "\<not> truthy b"
  with assms have "trimOf p = Inr t" by (simp add: orElse_def)
  then show "\<exists>y. p = Some (JStr y) \<and> t = trim y"
    by (cases p rule: trimOf.cases) auto
qed

lemma normalized_message_truthy: "truthy (map_of (normalizeItem item) ''whatsappMessage'')"
  by (simp add: normalizeItem_whatsappMessage DEFAULT_nonempty)

lemma trimOf_message:
  assumes "trimOf (orElse (orElse b (map_of (normalizeItem item) ''whatsappMessage''))
                          (Some (JStr DEFAULT_WHATS_MESSAGE))) = Inr t"
  shows "trimOf (orElse b (map_of (normalizeItem item) ''whatsappMessage'')) = Inr t"
proof -
  have "truthy (orElse b (map_of (normalizeItem item) ''whatsappMessage''))"
    using normalized_message_truthy [of item] by (simp add: orElse_def)
  with assms show ?thesis by (simp add: orElse_def)
qed

lemma put_items_200_fields:
  assumes "status (fst (put_items env req s)) = 200"
  shows "\<exists>i t d w. findIndex (hasId (params_id req)) (dataFile s) = Some i
     \<and> trimOf (orElse (map_of (body req) ''title'') (map_of (normalizeItem (dataFile s ! i)) ''title'')) = Inr t
     \<and> trimOf (orElse (map_of (body req) ''desc'') (map_of (normalizeItem (dataFile s ! i)) ''desc'')) = Inr d
     \<and> trimOf (orElse (map_of (body req) ''whatsappMessage'')
                       (map_of (normalizeItem (dataFile s ! i)) ''whatsappMessage'')) = Inr w
     \<and> map_of (dataFile (snd (put_items env req s)) ! i) ''title'' = Some (JStr t)
     \<and> map_of (dataFile (snd (put_items env req s)) ! i) ''desc'' = Some (JStr d)
     \<and> map_of (dataFile (snd (put_items env req s)) ! i) ''whatsappMessage'' = Some (JStr w)"
proof -
  from put_items_200 [OF assms] obtain files i t d w where
    m: "multerArray env 0 (fileParts req) = Inr files"
    and i: "findIndex (hasId (params_id req)) (dataFile s) = Some i"
    and t: "trimOf (orElse (map_of (body req) ''title'') (map_of (normalizeItem (dataFile s ! i)) ''title'')) = Inr t"
    and d: "trimOf (orElse (map_of (body req) ''desc'') (map_of (normalizeItem (dataFile s ! i)) ''desc'')) = Inr d"
    and w: "trimOf (orElse (orElse (map_of (body req) ''whatsappMessage'')
                               (map_of (normalizeItem (dataFile s ! i)) ''whatsappMessage''))
                       (Some (JStr DEFAULT_WHATS_MESSAGE))) = Inr w"
    and u: "files \<noteq> [] \<longrightarrow> fst (unlinkMedia (elems (map_of (normalizeItem (dataFile s ! i)) ''media''))
                              (uploadsDir s \<union> set (map mf_filename files))) = None"
    by blast
  from findIndex_Some [OF i] have len: "i < length (dataFile s)" by simp
  have "map_of (dataFile (snd (put_items env req s)) ! i) ''title'' = Some (JStr t)
     \<and> map_of (dataFile (snd (put_items env req s)) ! i) ''desc'' = Some (JStr d)
     \<and> map_of (dataFile (snd (put_items env req s)) ! i) ''whatsappMessage'' = Some (JStr w)"
  proof (cases "files = []")
    case True
    with m have "multerArray env 0 (fileParts req) = Inr []" by simp
    from put_items_no_files [OF this i t d w] len show ?thesis
      by (simp add: putFields_lookup)
  next
    case False
    with u have "fst (unlinkMedia (elems (map_of (normalizeItem (dataFile s ! i)) ''media''))
                              (uploadsDir s \<union> set (map mf_filename files))) = None" by simp
    from put_items_files [OF m False i t d w this] len show ?thesis
      by (simp add: putFields_lookup map_of_update)
  qed
  with i t d trimOf_message [OF w] show ?thesis by blast
qed

lemma byId_Cons: "byId i rows = current # rest \<Longrightarrow> current \<in> set rows \<and> row_id current = i"
proof -
  assume a: "byId i rows = current # rest"
  have "current \<in> set (byId i rows)" unfolding a by simp
  then show ?thesis by (simp add: byId_def)
qed



lemma nextTexts_fields:
  "row_id (nextTexts t d m current r) = row_id r"
  "col_title (nextTexts t d m current r) = (if t \<noteq> [] then t else col_title current)"
  "col_description (nextTexts t d m current r) = (if d \<noteq> [] then d else col_description current)"
  "col_whatsapp_message (nextTexts t d m current r) =
     (if m \<noteq> [] then m
      else if col_whatsapp_message current \<noteq> [] then col_whatsapp_message current
      else DEFAULT_WHATS_MESSAGE)"
  "col_media (nextTexts t d m current r) = col_media r"
  unfolding nextTexts_def by simp_all

lemma updated_rows:
  assumes "rows' = map (\<lambda>r. if row_id r = i then (nextTexts t d m current r)\<lparr>col_media := M\<rparr> else r) rows"
    and "byId i rows = current # rest"
  shows "(\<exists>r \<in> set rows'. row_id r = i)
       \<and> (\<forall>r \<in> set rows'. row_id r = i \<longrightarrow>
             col_title r = (if t \<noteq> [] then t else col_title current)
             \<and> col_description r = (if d \<noteq> [] then d else col_description current)
             \<and> col_whatsapp_message r =
                 (if m \<noteq> [] then m
                  else if col_whatsapp_message current \<noteq> [] then col_whatsapp_message current
                  else DEFAULT_WHATS_MESSAGE)
             \<and> col_media r = M)"
proof (intro conjI ballI impI)
  let ?f = "\<lambda>r. if row_id r = i then (nextTexts t d m current r)\<lparr>col_media := M\<rparr> else r"
  from byId_Cons [OF assms(2)] have c: "current \<in> set rows" "row_id current = i" by simp_all
  from c(1) have "?f current \<in> ?f ` set rows" by (rule imageI)
  then have "?f current \<in> set rows'" unfolding assms(1) set_map .
  moreover from c(2) have "row_id (?f current) = i" by (simp add: nextTexts_fields)
  ultimately show "\<exists>r \<in> set rows'. row_id r = i" by blast
next
  fix r' assume r': "r' \<in> set rows'" and id: "row_id r' = i"
  let ?f = "\<lambda>r. if row_id r = i then (nextTexts t d m current r)\<lparr>col_media := M\<rparr> else r"
  from r' obtain r where r: "r \<in> set rows" "r' = ?f r" unfolding assms(1) set_map by blast
  have "row_id r = i"
  proof (rule ccontr)
    assume "row_id r \<noteq> i"
    with r(2) have "r' = r" by simp
    with id \<open>row_id r \<noteq> i\<close> show False by simp
  qed
  with r(2) have eq: "r' = (nextTexts t d m current r)\<lparr>col_media := M\<rparr>" by simp
  show "col_title r' = (if t \<noteq> [] then t else col_title current)"
    unfolding eq by (simp add: nextTexts_fields)
  show "col_description r' = (if d \<noteq> [] then d else col_description current)"
    unfolding eq by (simp add: nextTexts_fields)
  show "col_whatsapp_message r' =
                 (if m \<noteq> [] then m
                  else if col_whatsapp_message current \<noteq> [] then col_whatsapp_message current
                  else DEFAULT_WHATS_MESSAGE)"
    unfolding eq by (simp add: nextTexts_fields)
  show "col_media r' = M"
    unfolding eq by simp
qed

lemma netlify_put_200_rows:
  assumes "status (fst (netlify_put env oid c s)) = 200"
  shows "\<exists>i flds files t d m current rest M.
     oid = Some i \<and> readBody env c = Inr (flds, files) \<and> byId i (items s) = current # rest
     \<and> textField env flds ''title'' = Inr t
     \<and> textField env flds ''desc'' = Inr d
     \<and> textField env flds ''whatsappMessage'' = Inr m
     \<and> items (snd (netlify_put env oid c s)) =
          map (\<lambda>r. if row_id r = i then (nextTexts t d m current r)\<lparr>col_media := M\<rparr> else r) (items s)
     \<and> (files \<noteq> [] \<longrightarrow> M = JArr (fst (storeFiles env i 0 files (blobs s))))
     \<and> (files = [] \<longrightarrow> (\<exists>fm. getp flds ''media'' = Inr fm
            \<and> M = (if isArray fm \<and> elems fm \<noteq> [] then JArr (elems fm) else col_media current)
            \<and> blobs (snd (netlify_put env oid c s)) = blobs s))"
proof -
  from netlify_put_200 [OF assms] obtain i flds files t d m current rest where
    o: "oid = Some i" and b: "readBody env c = Inr (flds, files)" and r: "byId i (items s) = current # rest"
    and t: "textField env flds ''title'' = Inr t" and d: "textField env flds ''desc'' = Inr d"
    and m: "textField env flds ''whatsappMessage'' = Inr m"
    and g: "files = [] \<longrightarrow> (\<exists>fm. getp flds ''media'' = Inr fm)"
    by blast
  show ?thesis
  proof (cases "files = []")
    case True
    with g obtain fm where fm: "getp flds ''media'' = Inr fm" by blast
    from netlify_put_state(2) [OF b r t d m True fm] o b r t d m True fm show ?thesis
      by (intro exI [of _ i] exI [of _ flds] exI [of _ files] exI [of _ t] exI [of _ d] exI [of _ m]
          exI [of _ current] exI [of _ rest]
          exI [of _ "if isArray fm \<and> elems fm \<noteq> [] then JArr (elems fm) else col_media current"])
        simp
  next
    case False
    from netlify_put_state(1) [OF b r t d m False] o b r t d m False show ?thesis
      by (intro exI [of _ i] exI [of _ flds] exI [of _ files] exI [of _ t] exI [of _ d] exI [of _ m]
          exI [of _ current] exI [of _ rest]
          exI [of _ "JArr (fst (storeFiles env i 0 files (blobs s)))"])
        simp
  qed
qed

lemma supabase_put_200_rows:
  assumes "status (fst (supabase_put env oid c s)) = 200"
  shows "\<exists>i flds files t d m current M.
     oid = Some i \<and> readBody env c = Inr (flds, files) \<and> byId i (items s) = [current]
     \<and> textField env flds ''title'' = Inr t
     \<and> textField env flds ''desc'' = Inr d
     \<and> textField env flds ''whatsappMessage'' = Inr m
     \<and> items (snd (supabase_put env oid c s)) =
          map (\<lambda>r. if row_id r = i then (nextTexts t d m current r)\<lparr>col_media := M\<rparr> else r) (items s)
     \<and> (files \<noteq> [] \<longrightarrow> (\<exists>store ms.
            removeStoredMedia (currentMedia current) (blobs s) = Inr store
            \<and> storeFiles_supabase env (row_id current) 0 files store
                 = (Inr ms, blobs (snd (supabase_put env oid c s)))
            \<and> M = JArr ms))
     \<and> (files = [] \<longrightarrow> (\<exists>fm. getp flds ''media'' = Inr fm
            \<and> M = (if isArray fm \<and> elems fm \<noteq> [] then JArr (elems fm) else currentMedia current)
            \<and> blobs (snd (supabase_put env oid c s)) = blobs s))"
proof -
  from supabase_put_200 [OF assms] obtain i flds files t d m current where
    o: "oid = Some i" and b: "readBody env c = Inr (flds, files)" and r: "byId i (items s) = [current]"
    and t: "textField env flds ''title'' = Inr t" and d: "textField env flds ''desc'' = Inr d"
    and m: "textField env flds ''whatsappMessage'' = Inr m"
    and g: "files = [] \<longrightarrow> (\<exists>fm. getp flds ''media'' = Inr fm)"
    by blast
  note st = supabase_put_state [OF b r t d m]
  show ?thesis
  proof (cases "files = []")
    case True
    with g obtain fm where fm: "getp flds ''media'' = Inr fm" by blast
    from st(4) [OF True fm] o b r t d m True fm show ?thesis
      by (intro exI [of _ i] exI [of _ flds] exI [of _ files] exI [of _ t] exI [of _ d] exI [of _ m]
          exI [of _ current]
          exI [of _ "if isArray fm \<and> elems fm \<noteq> [] then JArr (elems fm) else currentMedia current"])
        simp
  next
    case False
    from assms o have ok: "fst (supabase_put env (Some i) c s) \<noteq> serverError" by auto
    obtain store where rm: "removeStoredMedia (currentMedia current) (blobs s) = Inr store"
    proof (cases "removeStoredMedia (currentMedia current) (blobs s)")
      case (Inl e)
      from st(2) [OF False this] ok show ?thesis by simp
    next
      case (Inr store)
      then show ?thesis by (rule that)
    qed
    obtain ms store' where sf: "storeFiles_supabase env (row_id current) 0 files store = (Inr ms, store')"
    proof (cases "storeFiles_supabase env (row_id current) 0 files store")
      case (Pair x store')
      show ?thesis
      proof (cases x)
        case (Inl e)
        with Pair st(3) [OF False rm, of e store'] ok show ?thesis by simp
      next
        case (Inr ms)
        with Pair show ?thesis by (intro that [of ms store']) simp
      qed
    qed
    from st(1) [OF False rm sf] o b r t d m False rm sf show ?thesis
      by (intro exI [of _ i] exI [of _ flds] exI [of _ files] exI [of _ t] exI [of _ d] exI [of _ m]
          exI [of _ current] exI [of _ "JArr ms"])
        simp
  qed
qed

lemma normalized_media_not_null:
  "JNull \<notin> set (elems (map_of item ''media'')) \<Longrightarrow>
     JNull \<notin> set (elems (map_of (normalizeItem item) ''media''))"
  by (auto simp: normalizeItem_media legacyMedia_def)

lemma put_items_no_files_200:
  assumes "multerArray env 0 (fileParts req) = Inr []"
    and "findIndex (hasId (params_id req)) (dataFile s) = Some i"
    and "trimOf (orElse (map_of (body req) ''title'') (map_of (normalizeItem (dataFile s ! i)) ''title'')) = Inr t"
    and "trimOf (orElse (map_of (body req) ''desc'') (map_of (normalizeItem (dataFile s ! i)) ''desc'')) = Inr d"
    and "trimOf (orElse (orElse (map_of (body req) ''whatsappMessage'')
                               (map_of (normalizeItem (dataFile s ! i)) ''whatsappMessage''))
                       (Some (JStr DEFAULT_WHATS_MESSAGE))) = Inr w"
    and "JNull \<notin> set (elems (map_of (normalizeItem (dataFile s ! i)) ''media''))"
  shows "status (fst (put_items env req s)) = 200"
proof -
  let ?item1 = "putFields t d w (normalizeItem (dataFile s ! i))"
  from assms(6) have "JNull \<notin> set (elems (map_of ?item1 ''media''))"
    by (simp add: putFields_lookup)
  from toItemResponse_ok [OF normalized_media_not_null [OF this]]
  obtain r where "toItemResponse ?item1 = Inr r" ..
  with assms(1-5) show ?thesis
    by (simp add: put_items_def Let_def putFields_def)
qed

lemma put_items_files_200:
  assumes "multerArray env 0 (fileParts req) = Inr files" and "files \<noteq> []"
    and "findIndex (hasId (params_id req)) (dataFile s) = Some i"
    and "trimOf (orElse (map_of (body req) ''title'') (map_of (normalizeItem (dataFile s ! i)) ''title'')) = Inr t"
    and "trimOf (orElse (map_of (body req) ''desc'') (map_of (normalizeItem (dataFile s ! i)) ''desc'')) = Inr d"
    and "trimOf (orElse (orElse (map_of (body req) ''whatsappMessage'')
                               (map_of (normalizeItem (dataFile s ! i)) ''whatsappMessage''))
                       (Some (JStr DEFAULT_WHATS_MESSAGE))) = Inr w"
    and "list_all mediaRef (elems (map_of (normalizeItem (dataFile s ! i)) ''media''))"
  shows "status (fst (put_items env req s)) = 200"
proof -
  let ?item2 = "AList.update ''url'' (jsOr (firstProp (map fileMedia files) ''url'') (JStr []))
                  (AList.update ''type'' (jsOr (firstProp (map fileMedia files) ''type'') (JStr ''image''))
                    (AList.update ''media'' (JArr (map fileMedia files))
                      (putFields t d w (normalizeItem (dataFile s ! i)))))"
  have "map_of ?item2 ''media'' = Some (JArr (map fileMedia files))" by (simp add: map_of_update)
  then have "JNull \<notin> set (elems (map_of ?item2 ''media''))"
    using fileMedia_not_null [of files] by simp
  from toItemResponse_ok [OF normalized_media_not_null [OF this]]
  obtain r where r: "toItemResponse ?item2 = Inr r" ..
  note u = unlinkMedia_refs [OF assms(7), of "uploadsDir s \<union> set (map mf_filename files)"]
  from assms(1-6) u r show ?thesis
    by (simp add: put_items_def Let_def putFields_def map_of_update)
qed

lemma netlify_put_no_files_200:
  assumes "readBody env c = Inr (flds, [])" and "byId i (items s) = current # rest"
    and "textField env flds ''title'' = Inr t"
    and "textField env flds ''desc'' = Inr d"
    and "textField env flds ''whatsappMessage'' = Inr m"
    and "getp flds ''media'' = Inr fm"
    and "withMediaUrls env (if isArray fm \<and> elems fm \<noteq> [] then JArr (elems fm) else col_media current)
           = Inr ms"
  shows "status (fst (netlify_put env (Some i) c s)) = 200"
  using assms by (simp add: netlify_put_def Let_def)

lemma supabase_put_no_files_200:
  assumes "readBody env c = Inr (flds, [])" and "byId i (items s) = [current]"
    and "textField env flds ''title'' = Inr t"
    and "textField env flds ''desc'' = Inr d"
    and "textField env flds ''whatsappMessage'' = Inr m"
    and "getp flds ''media'' = Inr fm"
    and "withPublicUrls env (if isArray fm \<and> elems fm \<noteq> [] then JArr (elems fm) else currentMedia current)
           = Inr ms"
  shows "status (fst (supabase_put env (Some i) c s)) = 200"
proof -
  have cm: "(if truthy (Some (col_media current)) then col_media current else JArr []) = currentMedia current"
    by (simp add: currentMedia_def)
  from assms show ?thesis by (simp add: supabase_put_def Let_def cm)
qed

lemma netlify_put_files_200:
  assumes "readBody env c = Inr (flds, files)" and "files \<noteq> []" and "byId i (items s) = current # rest"
    and "textField env flds ''title'' = Inr t"
    and "textField env flds ''desc'' = Inr d"
    and "textField env flds ''whatsappMessage'' = Inr m"
    and "\<And>k. \<exists>u. encodeURIComponent env (JStr k) = Inr u"
  shows "status (fst (netlify_put env (Some i) c s)) = 200"
proof -
  from withMediaUrls_blobRefs [of env "storageKey env i" "enumerate 0 files", OF assms(7)]
  obtain ms where
    "withMediaUrls env (JArr (fst (storeFiles env i 0 files (blobs s)))) = Inr ms"
    by (auto simp: storeFiles_eq)
  with assms(1-6) show ?thesis by (simp add: netlify_put_def Let_def case_prod_beta)
qed

lemma supabase_put_files_200:
  assumes "readBody env c = Inr (flds, files)" and "files \<noteq> []" and "byId i (items s) = [current]"
    and "textField env flds ''title'' = Inr t"
    and "textField env flds ''desc'' = Inr d"
    and "textField env flds ''whatsappMessage'' = Inr m"
    and "removeStoredMedia (currentMedia current) (blobs s) = Inr store"
    and "storeFiles_supabase env (row_id current) 0 files store = (Inr ms, store')"
    and "\<And>k. \<exists>u. getPublicUrl env (JStr k) = Inr u"
  shows "status (fst (supabase_put env (Some i) c s)) = 200"
proof -
  have cm: "(if truthy (Some (col_media current)) then col_media current else JArr []) = currentMedia current"
    by (simp add: currentMedia_def)
  from storeFiles_supabase_Inr [OF assms(8)]
  have "ms = map (\<lambda>(k, f). pathRef (storageKey env (row_id current) k f) f) (enumerate 0 files)"
    by simp
  with withPublicUrls_pathRefs [of env "storageKey env (row_id current)" "enumerate 0 files", OF assms(9)]
  obtain us where "withPublicUrls env (JArr ms) = Inr us" by auto
  with assms(1-8) show ?thesis by (simp add: supabase_put_def Let_def cm)
qed

subsection \<open>The text fields after an update: the claim\<close>


lemma normalizeItem_other:
  "k \<noteq> ''media'' \<Longrightarrow> k \<noteq> ''whatsappMessage'' \<Longrightarrow> map_of (normalizeItem item) k = map_of item k"
  by (simp add: normalizeItem_def Let_def map_of_update)

lemma netlify_items_put:
  assumes "req_method req = PUT" and "status (fst (netlify_items env req s)) = 200"
  shows "netlify_items env req s =
           netlify_put env (extractId (pathname req)) (content req)
             (s\<lparr>items := snd (seedIfEmpty env (items s))\<rparr>)"
proof -
  from assms(2) have "fst (seedIfEmpty env (items s)) = None"
    using netlify_items_unseeded [of env s req]
    by (cases "fst (seedIfEmpty env (items s))") simp_all
  then have "seedIfEmpty env (items s) = (None, snd (seedIfEmpty env (items s)))"
    by (cases "seedIfEmpty env (items s)") simp
  from netlify_items_seeded [OF this] assms(1) show ?thesis by simp
qed

lemma parseParts_fieldValue:
  "map_of (fst (parseParts a ps flds files t)) k =
     (case fieldValue k ps of None \<Rightarrow> map_of flds k | Some w \<Rightarrow> Some (JStr w))"
  by (induction a ps flds files t rule: parseParts.induct)
     (simp_all add: map_of_update split: option.splits)

lemma readBody_fieldValue:
  assumes "readBody env (Multipart ps) = Inr (flds, files)"
  shows "getp flds k = Inr (map_option JStr (fieldValue k ps))"
proof -
  from assms obtain fs where p: "parseMultipart env ps = Inr (fs, files)" and f: "flds = JObj fs"
    by (auto simp: readBody_def split: sum.splits)
  from p have "fs = fst (parseParts (busboyFiresAtLimit env) ps [] [] False)"
    by (auto simp: parseMultipart_def split: prod.splits if_splits)
  with parseParts_fieldValue [of "busboyFiresAtLimit env" ps "[]" "[]" False k] f
  show ?thesis by (cases "fieldValue k ps") simp_all
qed

lemma textField_cases:
  assumes "textField env flds k = Inr t"
  shows "(\<forall>x. getp flds k = Inr (Some (JStr x)) \<longrightarrow> t = trim x) \<and> (getp flds k = Inr None \<longrightarrow> t = [])"
  using assms by (auto simp: textField_string textField_absent)

lemma trim_DEFAULT: "trim DEFAULT_WHATS_MESSAGE = DEFAULT_WHATS_MESSAGE"
  by (simp add: trim_def DEFAULT_WHATS_MESSAGE_def isSpace_def)

lemma previous_message:
  assumes "map_of (normalizeItem item) ''whatsappMessage'' = Some (JStr y)"
  shows "(\<forall>z. map_of item ''whatsappMessage'' = Some (JStr z) \<and> z \<noteq> [] \<longrightarrow> y = z)
       \<and> (\<not> truthy (map_of item ''whatsappMessage'') \<or> \<not> isString (map_of item ''whatsappMessage'')
            \<longrightarrow> y = DEFAULT_WHATS_MESSAGE)"
  using assms by (auto simp: normalizeItem_whatsappMessage split: if_splits)

text \<open>
  Claim C8, as the code has it. After a \<^verbatim>\<open>PUT\<close> on an existing item that is answered
  200, for each of \<^verbatim>\<open>title\<close>, \<^verbatim>\<open>desc\<close> and \<^verbatim>\<open>whatsappMessage\<close>: when the
  supplied value is a string that is not empty after trimming, the stored value is the
  supplied value trimmed. In the hosted functions, when the field is missing or is a string
  that is empty after trimming, the stored value is the previous one (for
  \<^verbatim>\<open>whatsappMessage\<close> the default when the previous one is empty). On the local server,
  when the field is missing or falsy, the stored value is the previous value trimmed (for
  \<^verbatim>\<open>whatsappMessage\<close> the default when the previous value is missing, empty or no
  string). The fields of a JSON body are its properties, those of a multipart body are the
  values of its field parts, the last part of a name giving the value.
\<close>

theorem put_text_fields:
  "(status (fst (put_items lenv lreq ls)) = 200 \<longrightarrow>
      (\<exists>i < length (dataFile ls). hasId (params_id lreq) (dataFile ls ! i)
         \<and> (\<forall>x. map_of (body lreq) ''title'' = Some (JStr x) \<and> trim x \<noteq> [] \<longrightarrow>
               map_of (dataFile (snd (put_items lenv lreq ls)) ! i) ''title'' = Some (JStr (trim x)))
         \<and> (\<not> truthy (map_of (body lreq) ''title'') \<longrightarrow>
               (\<exists>y. map_of (dataFile ls ! i) ''title'' = Some (JStr y)
                  \<and> map_of (dataFile (snd (put_items lenv lreq ls)) ! i) ''title'' = Some (JStr (trim y))))
         \<and> (\<forall>x. map_of (body lreq) ''desc'' = Some (JStr x) \<and> trim x \<noteq> [] \<longrightarrow>
               map_of (dataFile (snd (put_items lenv lreq ls)) ! i) ''desc'' = Some (JStr (trim x)))
         \<and> (\<not> truthy (map_of (body lreq) ''desc'') \<longrightarrow>
               (\<exists>y. map_of (dataFile ls ! i) ''desc'' = Some (JStr y)
                  \<and> map_of (dataFile (snd (put_items lenv lreq ls)) ! i) ''desc'' = Some (JStr (trim y))))
         \<and> (\<forall>x. map_of (body lreq) ''whatsappMessage'' = Some (JStr x) \<and> trim x \<noteq> [] \<longrightarrow>
               map_of (dataFile (snd (put_items lenv lreq ls)) ! i) ''whatsappMessage''
                 = Some (JStr (trim x)))
         \<and> (\<not> truthy (map_of (body lreq) ''whatsappMessage'') \<longrightarrow>
               (\<forall>y. map_of (dataFile ls ! i) ''whatsappMessage'' = Some (JStr y) \<and> y \<noteq> [] \<longrightarrow>
                  map_of (dataFile (snd (put_items lenv lreq ls)) ! i) ''whatsappMessage''
                    = Some (JStr (trim y)))
               \<and> (\<not> truthy (map_of (dataFile ls ! i) ''whatsappMessage'')
                    \<or> \<not> isString (map_of (dataFile ls ! i) ''whatsappMessage'') \<longrightarrow>
                  map_of (dataFile (snd (put_items lenv lreq ls)) ! i) ''whatsappMessage''
                    = Some (JStr DEFAULT_WHATS_MESSAGE)))))
   \<and> (req_method req = PUT \<and> status (fst (netlify_items env req s)) = 200
        \<and> readBody env (content req) = Inr (flds, files) \<longrightarrow>
      (\<exists>i current rest.
         extractId (pathname req) = Some i
         \<and> byId i (snd (seedIfEmpty env (items s))) = current # rest
         \<and> (\<exists>r \<in> set (items (snd (netlify_items env req s))). row_id r = i)
         \<and> (\<forall>r \<in> set (items (snd (netlify_items env req s))). row_id r = i \<longrightarrow>
               (\<forall>x. getp flds ''title'' = Inr (Some (JStr x)) \<longrightarrow>
                  col_title r = (if trim x \<noteq> [] then trim x else col_title current))
               \<and> (getp flds ''title'' = Inr None \<longrightarrow> col_title r = col_title current)
               \<and> (\<forall>x. getp flds ''desc'' = Inr (Some (JStr x)) \<longrightarrow>
                  col_description r = (if trim x \<noteq> [] then trim x else col_description current))
               \<and> (getp flds ''desc'' = Inr None \<longrightarrow> col_description r = col_description current)
               \<and> (\<forall>x. getp flds ''whatsappMessage'' = Inr (Some (JStr x)) \<longrightarrow>
                  col_whatsapp_message r =
                    (if trim x \<noteq> [] then trim x
                     else if col_whatsapp_message current \<noteq> [] then col_whatsapp_message current
                     else DEFAULT_WHATS_MESSAGE))
               \<and> (getp flds ''whatsappMessage'' = Inr None \<longrightarrow>
                  col_whatsapp_message r =
                    (if col_whatsapp_message current \<noteq> [] then col_whatsapp_message current
                     else DEFAULT_WHATS_MESSAGE)))))
   \<and> (req_method req = PUT \<and> status (fst (supabase_items env req s)) = 200
        \<and> readBody env (content req) = Inr (flds, files) \<longrightarrow>
      (\<exists>i current.
         extractId (pathname req) = Some i
         \<and> byId i (ensureSeed env (items s)) = [current]
         \<and> (\<exists>r \<in> set (items (snd (supabase_items env req s))). row_id r = i)
         \<and> (\<forall>r \<in> set (items (snd (supabase_items env req s))). row_id r = i \<longrightarrow>
               (\<forall>x. getp flds ''title'' = Inr (Some (JStr x)) \<longrightarrow>
                  col_title r = (if trim x \<noteq> [] then trim x else col_title current))
               \<and> (getp flds ''title'' = Inr None \<longrightarrow> col_title r = col_title current)
               \<and> (\<forall>x. getp flds ''desc'' = Inr (Some (JStr x)) \<longrightarrow>
                  col_description r = (if trim x \<noteq> [] then trim x else col_description current))
               \<and> (getp flds ''desc'' = Inr None \<longrightarrow> col_description r = col_description current)
               \<and> (\<forall>x. getp flds ''whatsappMessage'' = Inr (Some (JStr x)) \<longrightarrow>
                  col_whatsapp_message r =
                    (if trim x \<noteq> [] then trim x
                     else if col_whatsapp_message current \<noteq> [] then col_whatsapp_message current
                     else DEFAULT_WHATS_MESSAGE))
               \<and> (getp flds ''whatsappMessage'' = Inr None \<longrightarrow>
                  col_whatsapp_message r =
                    (if col_whatsapp_message current \<noteq> [] then col_whatsapp_message current
                     else DEFAULT_WHATS_MESSAGE)))))
   \<and> (content req = Json v \<longrightarrow> readBody env (content req) = Inr (v, []))
   \<and> (content req = Multipart ps \<and> readBody env (content req) = Inr (flds, files) \<longrightarrow>
        getp flds k = Inr (map_option JStr (fieldValue k ps)))"
proof (intro conjI impI)
  assume "status (fst (put_items lenv lreq ls)) = 200"
  from put_items_200_fields [OF this] obtain i t d w where
    i: "findIndex (hasId (params_id lreq)) (dataFile ls) = Some i"
    and t: "trimOf (orElse (map_of (body lreq) ''title'') (map_of (normalizeItem (dataFile ls ! i)) ''title'')) = Inr t"
    and d: "trimOf (orElse (map_of (body lreq) ''desc'') (map_of (normalizeItem (dataFile ls ! i)) ''desc'')) = Inr d"
    and w: "trimOf (orElse (map_of (body lreq) ''whatsappMessage'')
                       (map_of (normalizeItem (dataFile ls ! i)) ''whatsappMessage'')) = Inr w"
    and st: "map_of (dataFile (snd (put_items lenv lreq ls)) ! i) ''title'' = Some (JStr t)"
      "map_of (dataFile (snd (put_items lenv lreq ls)) ! i) ''desc'' = Some (JStr d)"
      "map_of (dataFile (snd (put_items lenv lreq ls)) ! i) ''whatsappMessage'' = Some (JStr w)"
    by blast
  let ?old = "dataFile ls ! i"
  let ?new = "dataFile (snd (put_items lenv lreq ls)) ! i"
  have o: "map_of (normalizeItem ?old) ''title'' = map_of ?old ''title''"
    "map_of (normalizeItem ?old) ''desc'' = map_of ?old ''desc''"
    by (simp_all add: normalizeItem_other)
  from trimOf_orElse [OF t] st(1) o(1)
  have pt: "\<forall>x. map_of (body lreq) ''title'' = Some (JStr x) \<and> trim x \<noteq> [] \<longrightarrow>
               map_of ?new ''title'' = Some (JStr (trim x))"
    "\<not> truthy (map_of (body lreq) ''title'') \<longrightarrow>
               (\<exists>y. map_of ?old ''title'' = Some (JStr y) \<and> map_of ?new ''title'' = Some (JStr (trim y)))"
    by simp_all
  from trimOf_orElse [OF d] st(2) o(2)
  have pd: "\<forall>x. map_of (body lreq) ''desc'' = Some (JStr x) \<and> trim x \<noteq> [] \<longrightarrow>
               map_of ?new ''desc'' = Some (JStr (trim x))"
    "\<not> truthy (map_of (body lreq) ''desc'') \<longrightarrow>
               (\<exists>y. map_of ?old ''desc'' = Some (JStr y) \<and> map_of ?new ''desc'' = Some (JStr (trim y)))"
    by simp_all
  from trimOf_orElse [OF w] st(3)
  have pw1: "\<forall>x. map_of (body lreq) ''whatsappMessage'' = Some (JStr x) \<and> trim x \<noteq> [] \<longrightarrow>
               map_of ?new ''whatsappMessage'' = Some (JStr (trim x))"
    by simp
  have pw2: "(\<forall>y. map_of ?old ''whatsappMessage'' = Some (JStr y) \<and> y \<noteq> [] \<longrightarrow>
                  map_of ?new ''whatsappMessage'' = Some (JStr (trim y)))
               \<and> (\<not> truthy (map_of ?old ''whatsappMessage'') \<or> \<not> isString (map_of ?old ''whatsappMessage'') \<longrightarrow>
                  map_of ?new ''whatsappMessage'' = Some (JStr DEFAULT_WHATS_MESSAGE))"
    if "\<not> truthy (map_of (body lreq) ''whatsappMessage'')"
  proof -
    from trimOf_orElse [OF w] that obtain y where
      y: "map_of (normalizeItem ?old) ''whatsappMessage'' = Some (JStr y)" and wy: "w = trim y"
      by blast
    from previous_message [OF y] st(3) wy show ?thesis by (auto simp: trim_DEFAULT)
  qed
  from findIndex_Some [OF i] have "i < length (dataFile ls)" "hasId (params_id lreq) ?old" by simp_all
  with pt pd pw1 pw2
  show "\<exists>i < length (dataFile ls). hasId (params_id lreq) (dataFile ls ! i)
         \<and> (\<forall>x. map_of (body lreq) ''title'' = Some (JStr x) \<and> trim x \<noteq> [] \<longrightarrow>
               map_of (dataFile (snd (put_items lenv lreq ls)) ! i) ''title'' = Some (JStr (trim x)))
         \<and> (\<not> truthy (map_of (body lreq) ''title'') \<longrightarrow>
               (\<exists>y. map_of (dataFile ls ! i) ''title'' = Some (JStr y)
                  \<and> map_of (dataFile (snd (put_items lenv lreq ls)) ! i) ''title'' = Some (JStr (trim y))))
         \<and> (\<forall>x. map_of (body lreq) ''desc'' = Some (JStr x) \<and> trim x \<noteq> [] \<longrightarrow>
               map_of (dataFile (snd (put_items lenv lreq ls)) ! i) ''desc'' = Some (JStr (trim x)))
         \<and> (\<not> truthy (map_of (body lreq) ''desc'') \<longrightarrow>
               (\<exists>y. map_of (dataFile ls ! i) ''desc'' = Some (JStr y)
                  \<and> map_of (dataFile (snd (put_items lenv lreq ls)) ! i) ''desc'' = Some (JStr (trim y))))
         \<and> (\<forall>x. map_of (body lreq) ''whatsappMessage'' = Some (JStr x) \<and> trim x \<noteq> [] \<longrightarrow>
               map_of (dataFile (snd (put_items lenv lreq ls)) ! i) ''whatsappMessage''
                 = Some (JStr (trim x)))
         \<and> (\<not> truthy (map_of (body lreq) ''whatsappMessage'') \<longrightarrow>
               (\<forall>y. map_of (dataFile ls ! i) ''whatsappMessage'' = Some (JStr y) \<and> y \<noteq> [] \<longrightarrow>
                  map_of (dataFile (snd (put_items lenv lreq ls)) ! i) ''whatsappMessage''
                    = Some (JStr (trim y)))
               \<and> (\<not> truthy (map_of (dataFile ls ! i) ''whatsappMessage'')
                    \<or> \<not> isString (map_of (dataFile ls ! i) ''whatsappMessage'') \<longrightarrow>
                  map_of (dataFile (snd (put_items lenv lreq ls)) ! i) ''whatsappMessage''
                    = Some (JStr DEFAULT_WHATS_MESSAGE)))"
    by (intro exI [of _ i]) blast
next
  assume a: "req_method req = PUT \<and> status (fst (netlify_items env req s)) = 200
        \<and> readBody env (content req) = Inr (flds, files)"
  then have eq: "netlify_items env req s =
           netlify_put env (extractId (pathname req)) (content req)
             (s\<lparr>items := snd (seedIfEmpty env (items s))\<rparr>)"
    by (intro netlify_items_put) simp_all
  let ?s0 = "s\<lparr>items := snd (seedIfEmpty env (items s))\<rparr>"
  from a eq have "status (fst (netlify_put env (extractId (pathname req)) (content req) ?s0)) = 200"
    by simp
  from netlify_put_200_rows [OF this] obtain i flds' files' t d m current rest M where
    o: "extractId (pathname req) = Some i" and b: "readBody env (content req) = Inr (flds', files')"
    and r: "byId i (items ?s0) = current # rest"
    and t: "textField env flds' ''title'' = Inr t" and d: "textField env flds' ''desc'' = Inr d"
    and m: "textField env flds' ''whatsappMessage'' = Inr m"
    and rows: "items (snd (netlify_put env (extractId (pathname req)) (content req) ?s0)) =
          map (\<lambda>r. if row_id r = i then (nextTexts t d m current r)\<lparr>col_media := M\<rparr> else r) (items ?s0)"
    by blast
  from a b have f: "flds' = flds" by simp
  note u = updated_rows [OF rows r]
  note ct = textField_cases [OF t [unfolded f]]
  note cd = textField_cases [OF d [unfolded f]]
  note cm = textField_cases [OF m [unfolded f]]
  from u have ex: "\<exists>r \<in> set (items (snd (netlify_items env req s))). row_id r = i"
    unfolding eq by blast
  have al: "\<forall>r \<in> set (items (snd (netlify_items env req s))). row_id r = i \<longrightarrow>
               (\<forall>x. getp flds ''title'' = Inr (Some (JStr x)) \<longrightarrow>
                  col_title r = (if trim x \<noteq> [] then trim x else col_title current))
               \<and> (getp flds ''title'' = Inr None \<longrightarrow> col_title r = col_title current)
               \<and> (\<forall>x. getp flds ''desc'' = Inr (Some (JStr x)) \<longrightarrow>
                  col_description r = (if trim x \<noteq> [] then trim x else col_description current))
               \<and> (getp flds ''desc'' = Inr None \<longrightarrow> col_description r = col_description current)
               \<and> (\<forall>x. getp flds ''whatsappMessage'' = Inr (Some (JStr x)) \<longrightarrow>
                  col_whatsapp_message r =
                    (if trim x \<noteq> [] then trim x
                     else if col_whatsapp_message current \<noteq> [] then col_whatsapp_message current
                     else DEFAULT_WHATS_MESSAGE))
               \<and> (getp flds ''whatsappMessage'' = Inr None \<longrightarrow>
                  col_whatsapp_message r =
                    (if col_whatsapp_message current \<noteq> [] then col_whatsapp_message current
                     else DEFAULT_WHATS_MESSAGE))"
  proof (intro ballI impI)
    fix r' assume "r' \<in> set (items (snd (netlify_items env req s)))" and "row_id r' = i"
    with u have v: "col_title r' = (if t \<noteq> [] then t else col_title current)"
      "col_description r' = (if d \<noteq> [] then d else col_description current)"
      "col_whatsapp_message r' =
                 (if m \<noteq> [] then m
                  else if col_whatsapp_message current \<noteq> [] then col_whatsapp_message current
                  else DEFAULT_WHATS_MESSAGE)"
      unfolding eq by blast+
    from ct cd cm show "(\<forall>x. getp flds ''title'' = Inr (Some (JStr x)) \<longrightarrow>
                  col_title r' = (if trim x \<noteq> [] then trim x else col_title current))
               \<and> (getp flds ''title'' = Inr None \<longrightarrow> col_title r' = col_title current)
               \<and> (\<forall>x. getp flds ''desc'' = Inr (Some (JStr x)) \<longrightarrow>
                  col_description r' = (if trim x \<noteq> [] then trim x else col_description current))
               \<and> (getp flds ''desc'' = Inr None \<longrightarrow> col_description r' = col_description current)
               \<and> (\<forall>x. getp flds ''whatsappMessage'' = Inr (Some (JStr x)) \<longrightarrow>
                  col_whatsapp_message r' =
                    (if trim x \<noteq> [] then trim x
                     else if col_whatsapp_message current \<noteq> [] then col_whatsapp_message current
                     else DEFAULT_WHATS_MESSAGE))
               \<and> (getp flds ''whatsappMessage'' = Inr None \<longrightarrow>
                  col_whatsapp_message r' =
                    (if col_whatsapp_message current \<noteq> [] then col_whatsapp_message current
                     else DEFAULT_WHATS_MESSAGE))"
      unfolding v by auto
  qed
  from o r ex al
  show "\<exists>i current rest.
         extractId (pathname req) = Some i
         \<and> byId i (snd (seedIfEmpty env (items s))) = current # rest
         \<and> (\<exists>r \<in> set (items (snd (netlify_items env req s))). row_id r = i)
         \<and> (\<forall>r \<in> set (items (snd (netlify_items env req s))). row_id r = i \<longrightarrow>
               (\<forall>x. getp flds ''title'' = Inr (Some (JStr x)) \<longrightarrow>
                  col_title r = (if trim x \<noteq> [] then trim x else col_title current))
               \<and> (getp flds ''title'' = Inr None \<longrightarrow> col_title r = col_title current)
               \<and> (\<forall>x. getp flds ''desc'' = Inr (Some (JStr x)) \<longrightarrow>
                  col_description r = (if trim x \<noteq> [] then trim x else col_description current))
               \<and> (getp flds ''desc'' = Inr None \<longrightarrow> col_description r = col_description current)
               \<and> (\<forall>x. getp flds ''whatsappMessage'' = Inr (Some (JStr x)) \<longrightarrow>
                  col_whatsapp_message r =
                    (if trim x \<noteq> [] then trim x
                     else if col_whatsapp_message current \<noteq> [] then col_whatsapp_message current
                     else DEFAULT_WHATS_MESSAGE))
               \<and> (getp flds ''whatsappMessage'' = Inr None \<longrightarrow>
                  col_whatsapp_message r =
                    (if col_whatsapp_message current \<noteq> [] then col_whatsapp_message current
                     else DEFAULT_WHATS_MESSAGE)))"
    by (intro exI [of _ i] exI [of _ current] exI [of _ rest] conjI) simp_all
next
  assume a: "req_method req = PUT \<and> status (fst (supabase_items env req s)) = 200
        \<and> readBody env (content req) = Inr (flds, files)"
  let ?s0 = "s\<lparr>items := ensureSeed env (items s)\<rparr>"
  from a have eq: "supabase_items env req s =
           supabase_put env (extractId (pathname req)) (content req) ?s0"
    by (simp add: supabase_items_eq)
  from a eq have "status (fst (supabase_put env (extractId (pathname req)) (content req) ?s0)) = 200"
    by simp
  from supabase_put_200_rows [OF this] obtain i flds' files' t d m current M where
    o: "extractId (pathname req) = Some i" and b: "readBody env (content req) = Inr (flds', files')"
    and r: "byId i (items ?s0) = [current]"
    and t: "textField env flds' ''title'' = Inr t" and d: "textField env flds' ''desc'' = Inr d"
    and m: "textField env flds' ''whatsappMessage'' = Inr m"
    and rows: "items (snd (supabase_put env (extractId (pathname req)) (content req) ?s0)) =
          map (\<lambda>r. if row_id r = i then (nextTexts t d m current r)\<lparr>col_media := M\<rparr> else r) (items ?s0)"
    by blast
  from a b have f: "flds' = flds" by simp
  note u = updated_rows [OF rows r]
  note ct = textField_cases [OF t [unfolded f]]
  note cd = textField_cases [OF d [unfolded f]]
  note cm = textField_cases [OF m [unfolded f]]
  from u have ex: "\<exists>r \<in> set (items (snd (supabase_items env req s))). row_id r = i"
    unfolding eq by blast
  have al: "\<forall>r \<in> set (items (snd (supabase_items env req s))). row_id r = i \<longrightarrow>
               (\<forall>x. getp flds ''title'' = Inr (Some (JStr x)) \<longrightarrow>
                  col_title r = (if trim x \<noteq> [] then trim x else col_title current))
               \<and> (getp flds ''title'' = Inr None \<longrightarrow> col_title r = col_title current)
               \<and> (\<forall>x. getp flds ''desc'' = Inr (Some (JStr x)) \<longrightarrow>
                  col_description r = (if trim x \<noteq> [] then trim x else col_description current))
               \<and> (getp flds ''desc'' = Inr None \<longrightarrow> col_description r = col_description current)
               \<and> (\<forall>x. getp flds ''whatsappMessage'' = Inr (Some (JStr x)) \<longrightarrow>
                  col_whatsapp_message r =
                    (if trim x \<noteq> [] then trim x
                     else if col_whatsapp_message current \<noteq> [] then col_whatsapp_message current
                     else DEFAULT_WHATS_MESSAGE))
               \<and> (getp flds ''whatsappMessage'' = Inr None \<longrightarrow>
                  col_whatsapp_message r =
                    (if col_whatsapp_message current \<noteq> [] then col_whatsapp_message current
                     else DEFAULT_WHATS_MESSAGE))"
  proof (intro ballI impI)
    fix r' assume "r' \<in> set (items (snd (supabase_items env req s)))" and "row_id r' = i"
    with u have v: "col_title r' = (if t \<noteq> [] then t else col_title current)"
      "col_description r' = (if d \<noteq> [] then d else col_description current)"
      "col_whatsapp_message r' =
                 (if m \<noteq> [] then m
                  else if col_whatsapp_message current \<noteq> [] then col_whatsapp_message current
                  else DEFAULT_WHATS_MESSAGE)"
      unfolding eq by blast+
    from ct cd cm show "(\<forall>x. getp flds ''title'' = Inr (Some (JStr x)) \<longrightarrow>
                  col_title r' = (if trim x \<noteq> [] then trim x else col_title current))
               \<and> (getp flds ''title'' = Inr None \<longrightarrow> col_title r' = col_title current)
               \<and> (\<forall>x. getp flds ''desc'' = Inr (Some (JStr x)) \<longrightarrow>
                  col_description r' = (if trim x \<noteq> [] then trim x else col_description current))
               \<and> (getp flds ''desc'' = Inr None \<longrightarrow> col_description r' = col_description current)
               \<and> (\<forall>x. getp flds ''whatsappMessage'' = Inr (Some (JStr x)) \<longrightarrow>
                  col_whatsapp_message r' =
                    (if trim x \<noteq> [] then trim x
                     else if col_whatsapp_message current \<noteq> [] then col_whatsapp_message current
                     else DEFAULT_WHATS_MESSAGE))
               \<and> (getp flds ''whatsappMessage'' = Inr None \<longrightarrow>
                  col_whatsapp_message r' =
                    (if col_whatsapp_message current \<noteq> [] then col_whatsapp_message current
                     else DEFAULT_WHATS_MESSAGE))"
      unfolding v by auto
  qed
  from o r ex al
  show "\<exists>i current.
         extractId (pathname req) = Some i
         \<and> byId i (ensureSeed env (items s)) = [current]
         \<and> (\<exists>r \<in> set (items (snd (supabase_items env req s))). row_id r = i)
         \<and> (\<forall>r \<in> set (items (snd (supabase_items env req s))). row_id r = i \<longrightarrow>
               (\<forall>x. getp flds ''title'' = Inr (Some (JStr x)) \<longrightarrow>
                  col_title r = (if trim x \<noteq> [] then trim x else col_title current))
               \<and> (getp flds ''title'' = Inr None \<longrightarrow> col_title r = col_title current)
               \<and> (\<forall>x. getp flds ''desc'' = Inr (Some (JStr x)) \<longrightarrow>
                  col_description r = (if trim x \<noteq> [] then trim x else col_description current))
               \<and> (getp flds ''desc'' = Inr None \<longrightarrow> col_description r = col_description current)
               \<and> (\<forall>x. getp flds ''whatsappMessage'' = Inr (Some (JStr x)) \<longrightarrow>
                  col_whatsapp_message r =
                    (if trim x \<noteq> [] then trim x
                     else if col_whatsapp_message current \<noteq> [] then col_whatsapp_message current
                     else DEFAULT_WHATS_MESSAGE))
               \<and> (getp flds ''whatsappMessage'' = Inr None \<longrightarrow>
                  col_whatsapp_message r =
                    (if col_whatsapp_message current \<noteq> [] then col_whatsapp_message current
                     else DEFAULT_WHATS_MESSAGE)))"
    by (intro exI [of _ i] exI [of _ current] conjI) simp_all
next
  assume "content req = Json v"
  then show "readBody env (content req) = Inr (v, [])" by (simp add: readBody_def)
next
  assume a: "content req = Multipart ps \<and> readBody env (content req) = Inr (flds, files)"
  from a [THEN conjunct2] show "getp flds k = Inr (map_option JStr (fieldValue k ps))"
    unfolding a [THEN conjunct1] by (rule readBody_fieldValue)
qed


lemma sample_item_normal: "normalizeItem sample_item = sample_item"
  by (rule normalizeItem_fixed) (simp_all add: sample_item_def)

lemma sample_trims:
  "trim '' Casa '' = ''Casa''" "trim ''  '' = []" "trim ''Ampla'' = ''Ampla''" "trim ''Oi'' = ''Oi''"
  "trim ''Sala'' = ''Sala''"
  by (simp_all add: trim_def isSpace_def)

lemma sample_lput_200: "status (fst (put_items sample_lenv sample_lput sample_lstate)) = 200"
proof (rule put_items_no_files_200)
  show "multerArray sample_lenv 0 (fileParts sample_lput) = Inr []"
    by (simp add: sample_lput_def)
  show "findIndex (hasId (params_id sample_lput)) (dataFile sample_lstate) = Some 0"
    by (simp add: sample_lput_def sample_lstate_def hasId_def) (simp add: sample_item_def)
  show "trimOf (orElse (map_of (body sample_lput) ''title'')
          (map_of (normalizeItem (dataFile sample_lstate ! 0)) ''title'')) = Inr ''Casa''"
    by (simp add: sample_lput_def orElse_def sample_trims)
  show "trimOf (orElse (map_of (body sample_lput) ''desc'')
          (map_of (normalizeItem (dataFile sample_lstate ! 0)) ''desc'')) = Inr ''Ampla''"
    by (simp add: sample_lput_def orElse_def sample_lstate_def sample_item_normal)
       (simp add: sample_item_def sample_trims)
  show "trimOf (orElse (orElse (map_of (body sample_lput) ''whatsappMessage'')
                               (map_of (normalizeItem (dataFile sample_lstate ! 0)) ''whatsappMessage''))
                       (Some (JStr DEFAULT_WHATS_MESSAGE))) = Inr ''Oi''"
    by (simp add: sample_lput_def orElse_def sample_lstate_def sample_item_normal)
       (simp add: sample_item_def sample_trims)
  show "JNull \<notin> set (elems (map_of (normalizeItem (dataFile sample_lstate ! 0)) ''media''))"
    by (simp add: sample_lstate_def sample_item_normal) (simp add: sample_item_def)
qed

lemma sample_form_body:
  "readBody env (content sample_put_form) =
     Inr (JObj [(''title'', JStr '' Casa ''), (''desc'', JStr ''  '')], [])"
  by (simp add: sample_put_form_def readBody_def parseMultipart_def)

lemma sample_form_fields:
  "textField env (JObj [(''title'', JStr '' Casa ''), (''desc'', JStr ''  '')]) ''title'' = Inr ''Casa''"
  "textField env (JObj [(''title'', JStr '' Casa ''), (''desc'', JStr ''  '')]) ''desc'' = Inr []"
  "textField env (JObj [(''title'', JStr '' Casa ''), (''desc'', JStr ''  '')]) ''whatsappMessage'' = Inr []"
  "getp (JObj [(''title'', JStr '' Casa ''), (''desc'', JStr ''  '')]) ''media'' = Inr None"
  by (simp_all add: textField_def normalizeText_def sample_trims)

lemma sample_row_urls:
  "\<exists>ms. withMediaUrls sample_henv (col_media sample_row) = Inr ms"
  "\<exists>ms. withPublicUrls sample_henv (col_media sample_row) = Inr ms"
  by (simp_all add: withMediaUrls_def withPublicUrls_def resolveUrl_def sample_row_def sample_henv_def)

lemma sample_byId: "byId ''a'' (items sample_hstate) = [sample_row]"
  by (simp add: byId_def sample_hstate_def) (simp add: sample_row_def)

lemma sample_put_form_netlify:
  "status (fst (netlify_items sample_henv sample_put_form sample_hstate)) = 200"
proof -
  have m: "req_method sample_put_form = PUT" "extractId (pathname sample_put_form) = Some ''a''"
    by (simp_all add: sample_put_form_def extractId_a)
  from sample_row_urls(1) obtain ms where u: "withMediaUrls sample_henv (col_media sample_row) = Inr ms" ..
  have "status (fst (netlify_put sample_henv (Some ''a'') (content sample_put_form) sample_hstate)) = 200"
    by (rule netlify_put_no_files_200 [OF sample_form_body sample_byId sample_form_fields(1,2,3,4)])
       (simp add: u)
  with m show ?thesis by (simp add: netlify_items_seeded [OF sample_seeded])
qed

lemma sample_put_form_supabase:
  "status (fst (supabase_items sample_henv sample_put_form sample_hstate)) = 200"
proof -
  have m: "req_method sample_put_form = PUT" "extractId (pathname sample_put_form) = Some ''a''"
    by (simp_all add: sample_put_form_def extractId_a)
  have c: "currentMedia sample_row = col_media sample_row"
    by (simp add: currentMedia_def sample_row_def)
  from sample_row_urls(2) obtain ms where u: "withPublicUrls sample_henv (col_media sample_row) = Inr ms" ..
  have "status (fst (supabase_put sample_henv (Some ''a'') (content sample_put_form) sample_hstate)) = 200"
    by (rule supabase_put_no_files_200 [OF sample_form_body sample_byId sample_form_fields(1,2,3,4)])
       (simp add: u c)
  with m show ?thesis
    by (simp add: supabase_items_eq ensureSeed_nonempty sample_hstate_def)
qed

theorem put_text_fields_witness:
  "status (fst (put_items sample_lenv sample_lput sample_lstate)) = 200
   \<and> map_of (body sample_lput) ''title'' = Some (JStr '' Casa '')
   \<and> map_of (body sample_lput) ''desc'' = None
   \<and> map_of (dataFile (snd (put_items sample_lenv sample_lput sample_lstate)) ! 0) ''title''
        = Some (JStr ''Casa'')
   \<and> map_of (dataFile (snd (put_items sample_lenv sample_lput sample_lstate)) ! 0) ''desc''
        = Some (JStr ''Ampla'')
   \<and> map_of (dataFile (snd (put_items sample_lenv sample_lput sample_lstate)) ! 0) ''whatsappMessage''
        = Some (JStr ''Oi'')
   \<and> req_method sample_put_form = PUT
   \<and> fieldValue ''title'' [Field ''title'' ''Velha'', Field ''desc'' ''  '', Field ''title'' '' Casa '']
        = Some '' Casa ''
   \<and> status (fst (netlify_items sample_henv sample_put_form sample_hstate)) = 200
   \<and> status (fst (supabase_items sample_henv sample_put_form sample_hstate)) = 200
   \<and> (\<exists>r \<in> set (items (snd (netlify_items sample_henv sample_put_form sample_hstate))).
         row_id r = ''a'' \<and> col_title r = ''Casa'' \<and> col_description r = ''Ampla''
         \<and> col_whatsapp_message r = ''Oi'')
   \<and> (\<exists>r \<in> set (items (snd (supabase_items sample_henv sample_put_form sample_hstate))).
         row_id r = ''a'' \<and> col_title r = ''Casa'' \<and> col_description r = ''Ampla''
         \<and> col_whatsapp_message r = ''Oi'')"
proof -
  let ?flds = "JObj [(''title'', JStr '' Casa ''), (''desc'', JStr ''  '')]"
  note inst = put_text_fields
    [where lenv = sample_lenv and lreq = sample_lput and ls = sample_lstate
       and req = sample_put_form and env = sample_henv and s = sample_hstate
       and flds = ?flds and files = "[]"]
  have m: "req_method sample_put_form = PUT" "extractId (pathname sample_put_form) = Some ''a''"
    by (simp_all add: sample_put_form_def extractId_a)
  have fv: "fieldValue ''title'' [Field ''title'' ''Velha'', Field ''desc'' ''  '', Field ''title'' '' Casa '']
        = Some '' Casa ''"
    by simp
  have g: "getp ?flds ''title'' = Inr (Some (JStr '' Casa ''))" "getp ?flds ''desc'' = Inr (Some (JStr ''  ''))"
    "getp ?flds ''whatsappMessage'' = Inr None"
    by simp_all
  have sr: "col_title sample_row = ''Sala''" "col_description sample_row = ''Ampla''"
    "col_whatsapp_message sample_row = ''Oi''"
    by (simp_all add: sample_row_def)
  have sd: "snd (seedIfEmpty sample_henv (items sample_hstate)) = items sample_hstate"
    "ensureSeed sample_henv (items sample_hstate) = items sample_hstate"
    by (simp add: sample_seeded, simp add: ensureSeed_def sample_hstate_def)
  have lb: "map_of (body sample_lput) ''title'' = Some (JStr '' Casa '')"
    "map_of (body sample_lput) ''desc'' = None" "map_of (body sample_lput) ''whatsappMessage'' = None"
    by (simp_all add: sample_lput_def)
  have li: "dataFile sample_lstate = [sample_item]" "map_of sample_item ''desc'' = Some (JStr ''Ampla'')"
    "map_of sample_item ''whatsappMessage'' = Some (JStr ''Oi'')"
    by (simp_all add: sample_lstate_def sample_item_def)
  let ?new = "dataFile (snd (put_items sample_lenv sample_lput sample_lstate))"
  note L = inst [THEN conjunct1, THEN mp, OF sample_lput_200]
  note N = inst [THEN conjunct2, THEN conjunct1, THEN mp,
    OF conjI [OF m(1) conjI [OF sample_put_form_netlify sample_form_body]]]
  note U = inst [THEN conjunct2, THEN conjunct2, THEN conjunct1, THEN mp,
    OF conjI [OF m(1) conjI [OF sample_put_form_supabase sample_form_body]]]
  from L obtain i where
    i: "i < length (dataFile sample_lstate)"
    and l1: "\<forall>x. map_of (body sample_lput) ''title'' = Some (JStr x) \<and> trim x \<noteq> [] \<longrightarrow>
               map_of (?new ! i) ''title'' = Some (JStr (trim x))"
    and l2: "\<not> truthy (map_of (body sample_lput) ''desc'') \<longrightarrow>
               (\<exists>y. map_of (dataFile sample_lstate ! i) ''desc'' = Some (JStr y)
                  \<and> map_of (?new ! i) ''desc'' = Some (JStr (trim y)))"
    and l3: "\<not> truthy (map_of (body sample_lput) ''whatsappMessage'') \<longrightarrow>
               (\<forall>y. map_of (dataFile sample_lstate ! i) ''whatsappMessage'' = Some (JStr y) \<and> y \<noteq> [] \<longrightarrow>
                  map_of (?new ! i) ''whatsappMessage'' = Some (JStr (trim y)))
               \<and> (\<not> truthy (map_of (dataFile sample_lstate ! i) ''whatsappMessage'')
                    \<or> \<not> isString (map_of (dataFile sample_lstate ! i) ''whatsappMessage'') \<longrightarrow>
                  map_of (?new ! i) ''whatsappMessage'' = Some (JStr DEFAULT_WHATS_MESSAGE))"
    by blast
  from i li(1) have i0: "i = 0" by simp
  from l1 lb(1) have a1: "map_of (?new ! 0) ''title'' = Some (JStr ''Casa'')"
    unfolding i0 by (simp add: sample_trims)
  from l2 lb(2) li have a2: "map_of (?new ! 0) ''desc'' = Some (JStr ''Ampla'')"
    unfolding i0 by (simp add: sample_trims)
  from l3 lb(3) li have a3: "map_of (?new ! 0) ''whatsappMessage'' = Some (JStr ''Oi'')"
    unfolding i0 by (simp add: sample_trims)
  let ?n = "items (snd (netlify_items sample_henv sample_put_form sample_hstate))"
  from N obtain i current rest where
    n0: "extractId (pathname sample_put_form) = Some i"
    and n1: "byId i (snd (seedIfEmpty sample_henv (items sample_hstate))) = current # rest"
    and n2: "\<exists>r \<in> set ?n. row_id r = i"
    and n3: "\<forall>r \<in> set ?n. row_id r = i \<longrightarrow>
               (\<forall>x. getp ?flds ''title'' = Inr (Some (JStr x)) \<longrightarrow>
                  col_title r = (if trim x \<noteq> [] then trim x else col_title current))
               \<and> (getp ?flds ''title'' = Inr None \<longrightarrow> col_title r = col_title current)
               \<and> (\<forall>x. getp ?flds ''desc'' = Inr (Some (JStr x)) \<longrightarrow>
                  col_description r = (if trim x \<noteq> [] then trim x else col_description current))
               \<and> (getp ?flds ''desc'' = Inr None \<longrightarrow> col_description r = col_description current)
               \<and> (\<forall>x. getp ?flds ''whatsappMessage'' = Inr (Some (JStr x)) \<longrightarrow>
                  col_whatsapp_message r =
                    (if trim x \<noteq> [] then trim x
                     else if col_whatsapp_message current \<noteq> [] then col_whatsapp_message current
                     else DEFAULT_WHATS_MESSAGE))
               \<and> (getp ?flds ''whatsappMessage'' = Inr None \<longrightarrow>
                  col_whatsapp_message r =
                    (if col_whatsapp_message current \<noteq> [] then col_whatsapp_message current
                     else DEFAULT_WHATS_MESSAGE))"
    by blast
  from n0 m(2) have ia: "i = ''a''" by simp
  from n1 have cur: "current = sample_row" unfolding ia sd sample_byId by simp
  from n2 obtain r where r: "r \<in> set ?n" "row_id r = i" by blast
  from n3 r have "(\<forall>x. getp ?flds ''title'' = Inr (Some (JStr x)) \<longrightarrow>
                  col_title r = (if trim x \<noteq> [] then trim x else col_title current))
               \<and> (\<forall>x. getp ?flds ''desc'' = Inr (Some (JStr x)) \<longrightarrow>
                  col_description r = (if trim x \<noteq> [] then trim x else col_description current))
               \<and> (getp ?flds ''whatsappMessage'' = Inr None \<longrightarrow>
                  col_whatsapp_message r =
                    (if col_whatsapp_message current \<noteq> [] then col_whatsapp_message current
                     else DEFAULT_WHATS_MESSAGE))"
    by blast
  with g have "col_title r = ''Casa'' \<and> col_description r = ''Ampla'' \<and> col_whatsapp_message r = ''Oi''"
    unfolding cur sr by (simp add: sample_trims)
  with r ia have b: "\<exists>r \<in> set ?n. row_id r = ''a'' \<and> col_title r = ''Casa''
      \<and> col_description r = ''Ampla'' \<and> col_whatsapp_message r = ''Oi''"
    by blast
  let ?u = "items (snd (supabase_items sample_henv sample_put_form sample_hstate))"
  from U obtain i current where
    u0: "extractId (pathname sample_put_form) = Some i"
    and u1: "byId i (ensureSeed sample_henv (items sample_hstate)) = [current]"
    and u2: "\<exists>r \<in> set ?u. row_id r = i"
    and u3: "\<forall>r \<in> set ?u. row_id r = i \<longrightarrow>
               (\<forall>x. getp ?flds ''title'' = Inr (Some (JStr x)) \<longrightarrow>
                  col_title r = (if trim x \<noteq> [] then trim x else col_title current))
               \<and> (getp ?flds ''title'' = Inr None \<longrightarrow> col_title r = col_title current)
               \<and> (\<forall>x. getp ?flds ''desc'' = Inr (Some (JStr x)) \<longrightarrow>
                  col_description r = (if trim x \<noteq> [] then trim x else col_description current))
               \<and> (getp ?flds ''desc'' = Inr None \<longrightarrow> col_description r = col_description current)
               \<and> (\<forall>x. getp ?flds ''whatsappMessage'' = Inr (Some (JStr x)) \<longrightarrow>
                  col_whatsapp_message r =
                    (if trim x \<noteq> [] then trim x
                     else if col_whatsapp_message current \<noteq> [] then col_whatsapp_message current
                     else DEFAULT_WHATS_MESSAGE))
               \<and> (getp ?flds ''whatsappMessage'' = Inr None \<longrightarrow>
                  col_whatsapp_message r =
                    (if col_whatsapp_message current \<noteq> [] then col_whatsapp_message current
                     else DEFAULT_WHATS_MESSAGE))"
    by blast
  from u0 m(2) have ia: "i = ''a''" by simp
  from u1 have cur: "current = sample_row" unfolding ia sd sample_byId by simp
  from u2 obtain r where r: "r \<in> set ?u" "row_id r = i" by blast
  from u3 r have "(\<forall>x. getp ?flds ''title'' = Inr (Some (JStr x)) \<longrightarrow>
                  col_title r = (if trim x \<noteq> [] then trim x else col_title current))
               \<and> (\<forall>x. getp ?flds ''desc'' = Inr (Some (JStr x)) \<longrightarrow>
                  col_description r = (if trim x \<noteq> [] then trim x else col_description current))
               \<and> (getp ?flds ''whatsappMessage'' = Inr None \<longrightarrow>
                  col_whatsapp_message r =
                    (if col_whatsapp_message current \<noteq> [] then col_whatsapp_message current
                     else DEFAULT_WHATS_MESSAGE))"
    by blast
  with g have "col_title r = ''Casa'' \<and> col_description r = ''Ampla'' \<and> col_whatsapp_message r = ''Oi''"
    unfolding cur sr by (simp add: sample_trims)
  with r ia have c: "\<exists>r \<in> set ?u. row_id r = ''a'' \<and> col_title r = ''Casa''
      \<and> col_description r = ''Ampla'' \<and> col_whatsapp_message r = ''Oi''"
    by blast
  from sample_lput_200 lb(1,2) a1 a2 a3 m(1) fv sample_put_form_netlify sample_put_form_supabase b c
  show ?thesis by blast
qed

text \<open>
  Claim C8 as the specification states it fails: the value that is stored is the supplied
  value trimmed, which is another value when the supplied one has white space around it.
\<close>

theorem put_trims_counterexample:
  "req_method sample_put = PUT \<and> content sample_put = Json (JObj [(''title'', JStr '' Casa '')])
   \<and> trim '' Casa '' \<noteq> []
   \<and> status (fst (netlify_items sample_henv sample_put sample_hstate)) = 200
   \<and> items (snd (netlify_items sample_henv sample_put sample_hstate)) = [sample_row\<lparr>col_title := ''Casa''\<rparr>]
   \<and> ''Casa'' \<noteq> '' Casa ''"
proof -
  let ?flds = "JObj [(''title'', JStr '' Casa '')]"
  have m: "req_method sample_put = PUT" "content sample_put = Json ?flds"
    "extractId (pathname sample_put) = Some ''a''"
    by (simp_all add: sample_put_def extractId_a)
  have b: "readBody sample_henv (content sample_put) = Inr (?flds, [])"
    by (simp add: m(2) readBody_def)
  have f: "textField sample_henv ?flds ''title'' = Inr ''Casa''" "textField sample_henv ?flds ''desc'' = Inr []"
    "textField sample_henv ?flds ''whatsappMessage'' = Inr []" "getp ?flds ''media'' = Inr None"
    by (simp_all add: textField_def normalizeText_def sample_trims)
  from sample_row_urls(1) obtain ms where u: "withMediaUrls sample_henv (col_media sample_row) = Inr ms" ..
  have eq: "netlify_items sample_henv sample_put sample_hstate
      = netlify_put sample_henv (Some ''a'') (content sample_put) sample_hstate"
    using m by (simp add: netlify_items_seeded [OF sample_seeded])
  have st: "status (fst (netlify_put sample_henv (Some ''a'') (content sample_put) sample_hstate)) = 200"
    by (rule netlify_put_no_files_200 [OF b sample_byId f]) (simp add: u)
  have "items (snd (netlify_put sample_henv (Some ''a'') (content sample_put) sample_hstate))
      = [sample_row\<lparr>col_title := ''Casa''\<rparr>]"
    unfolding netlify_put_state(2) [OF b sample_byId f(1,2,3) refl f(4)]
    by (simp add: sample_hstate_def nextTexts_def) (simp add: sample_row_def)
  with m st show ?thesis by (simp add: eq sample_trims)
qed

end
